theory Spec2Isabelle
  imports Main "HOL-Library.Word"
begin

unbundle bit_operations_syntax

section \<open>Common data\<close>

text \<open>
  Byte strings are lists of 8-bit words.  Go's \<^verbatim>\<open>*big.Int\<close> is an unbounded integer
  (\<^typ>\<open>int\<close>); where the source keeps it behind a pointer that may still be \<^verbatim>\<open>nil\<close>
  the model uses \<^typ>\<open>int option\<close>.  Go's \<^verbatim>\<open>int\<close> and \<^verbatim>\<open>uint\<close> are 64-bit words (the
  library is built for 64-bit targets): \<open>+\<close> wraps, comparisons of \<^verbatim>\<open>int\<close> values read the
  word as signed.  A labelled wire value is 128 bits wide.
\<close>

type_synonym byte = "8 word"
type_synonym bytes = "byte list"
type_synonym point = "int \<times> int"
type_synonym Label = "128 word"

text \<open>
  Errors are values.  \<open>Opaque\<close> stands for an error made by a collaborator outside
  the modelled code (the relay, the random source, the circuit engine); \<open>Wrap\<close> is
  \<^verbatim>\<open>errors.Wrap(err, msg)\<close>; the remaining constructors are the errors the modelled
  functions create themselves.  A Go panic is not an error value: it is the second
  kind of \<open>fault\<close>.
\<close>

datatype err =
    Opaque string
  | EOF
  | Wrap string err
  | PeerCantOT "64 word" "64 word"
  | LabelCountMismatch nat nat
  | InvalidParties nat
  | UnknownFileType string
  | MPCLInnerError byte string

datatype panic =
    NilDereference
  | IndexOutOfRange
  | SliceBoundsOutOfRange
  | MakeSliceLenOutOfRange
  | TypeAssertionFailed
  | InvalidCurvePoint

datatype fault = Error err | Panic panic

section \<open>math/big: the byte encoding of integers\<close>

text \<open>
  \<^verbatim>\<open>x.Bytes()\<close> is the big-endian encoding of \<open>|x|\<close> without leading zero bytes;
  \<^verbatim>\<open>SetBytes(buf)\<close> reads a big-endian unsigned integer.
\<close>

fun be_bytes :: "nat \<Rightarrow> bytes" where
  "be_bytes n = (if n = 0 then [] else be_bytes (n div 256) @ [of_nat (n mod 256)])"

declare be_bytes.simps [simp del]

definition Bytes :: "int \<Rightarrow> bytes" where
  "Bytes x = be_bytes (nat \<bar>x\<bar>)"

definition SetBytes :: "bytes \<Rightarrow> int" where
  "SetBytes buf = int (foldl (\<lambda>acc b. acc * 256 + unat b) 0 buf)"

section \<open>crypto/elliptic: the curve interface\<close>

text \<open>
  The transfer objects hold an \<^verbatim>\<open>elliptic.Curve\<close>, an interface value; the model is
  a record of the curve parameters the code reads (\<^verbatim>\<open>Params().P\<close>, \<^verbatim>\<open>Params().N\<close>,
  the base point), of \<^verbatim>\<open>IsOnCurve\<close> and \<^verbatim>\<open>ScalarBaseMult\<close>, and of what \<^verbatim>\<open>Add\<close> and
  \<^verbatim>\<open>ScalarMult\<close> compute for points they accept (\<open>group_add\<close>, \<open>group_mult\<close>).
  Scalars are passed as byte strings, as in Go.
\<close>

record curve =
  Params_P :: int
  Params_N :: int
  Params_Gx :: int
  Params_Gy :: int
  IsOnCurve :: "point \<Rightarrow> bool"
  group_add :: "point \<Rightarrow> point \<Rightarrow> point"
  group_mult :: "point \<Rightarrow> bytes \<Rightarrow> point"
  ScalarBaseMult :: "bytes \<Rightarrow> point"

text \<open>
  Go represents the point at infinity (the group identity) by \<open>(0, 0)\<close>; the curve
  operations accept it although \<^verbatim>\<open>IsOnCurve(0, 0)\<close> is false.
\<close>

definition infinity :: point where
  "infinity = (0, 0)"

definition accepted :: "curve \<Rightarrow> point \<Rightarrow> bool" where
  "accepted C Q \<longleftrightarrow> IsOnCurve C Q \<or> Q = infinity"

text \<open>
  The methods \<^verbatim>\<open>Add\<close> and \<^verbatim>\<open>ScalarMult\<close> of the curves of \<^verbatim>\<open>crypto/elliptic\<close> panic
  (\<^verbatim>\<open>attempted operation on invalid point\<close>) when handed a point that is neither on
  the curve nor \<open>(0, 0)\<close>; they return no error value.
\<close>

definition Add :: "curve \<Rightarrow> point \<Rightarrow> point \<Rightarrow> fault + point" where
  "Add C Q R =
     (if accepted C Q \<and> accepted C R then Inr (group_add C Q R)
      else Inl (Panic InvalidCurvePoint))"

definition ScalarMult :: "curve \<Rightarrow> point \<Rightarrow> bytes \<Rightarrow> fault + point" where
  "ScalarMult C Q k =
     (if accepted C Q then Inr (group_mult C Q k) else Inl (Panic InvalidCurvePoint))"

definition negate :: "curve \<Rightarrow> point \<Rightarrow> point" where
  "negate C Q = (fst Q, Params_P C - snd Q)"

fun k_fold :: "curve \<Rightarrow> nat \<Rightarrow> point \<Rightarrow> point" where
  "k_fold C 0 Q = infinity"
| "k_fold C (Suc k) Q = group_add C (k_fold C k Q) Q"

definition is_prime :: "int \<Rightarrow> bool" where
  "is_prime n \<longleftrightarrow> 1 < n \<and> (\<forall>d\<in>{2..<n}. \<not> d dvd n)"

text \<open>
  What the library promises of a prime-order curve such as P-256, and all the code
  relies on: the accepted points form a commutative group under \<^verbatim>\<open>Add\<close> with identity
  \<open>infinity\<close>, the inverse of a curve point \<open>(x, y)\<close> is \<open>(x, P - y)\<close>, \<^verbatim>\<open>ScalarMult\<close>
  is the \<open>k\<close>-fold sum for the scalar \<open>k\<close> read big-endian, \<^verbatim>\<open>ScalarBaseMult\<close> is
  \<^verbatim>\<open>ScalarMult\<close> of the base point, and the base point has prime order \<open>N\<close>.
\<close>

definition curve_contract :: "curve \<Rightarrow> bool" where
  "curve_contract C \<longleftrightarrow>
     is_prime (Params_N C) \<and>
     IsOnCurve C (Params_Gx C, Params_Gy C) \<and>
     (\<forall>Q. IsOnCurve C Q \<longrightarrow> 0 \<le> fst Q \<and> 0 \<le> snd Q) \<and>
     (\<forall>Q. IsOnCurve C Q \<longrightarrow>
        IsOnCurve C (negate C Q) \<and> group_add C Q (negate C Q) = infinity) \<and>
     (\<forall>Q R. accepted C Q \<and> accepted C R \<longrightarrow> accepted C (group_add C Q R)) \<and>
     (\<forall>Q R. accepted C Q \<and> accepted C R \<longrightarrow> group_add C Q R = group_add C R Q) \<and>
     (\<forall>Q R S. accepted C Q \<and> accepted C R \<and> accepted C S \<longrightarrow>
        group_add C (group_add C Q R) S = group_add C Q (group_add C R S)) \<and>
     (\<forall>Q. accepted C Q \<longrightarrow> group_add C Q infinity = Q) \<and>
     (\<forall>Q k. accepted C Q \<longrightarrow> group_mult C Q k = k_fold C (nat (SetBytes k)) Q) \<and>
     (\<forall>k. ScalarBaseMult C k = group_mult C (Params_Gx C, Params_Gy C) k) \<and>
     (\<forall>k. k_fold C k (Params_Gx C, Params_Gy C) = infinity \<longleftrightarrow> Params_N C dvd int k)"

section \<open>co.go: the Chou-Orlandi transfer objects\<close>

text \<open>
  Modelled from the spec: \<^verbatim>\<open>xor\<close>, a helper of package \<^verbatim>\<open>ot\<close> that is not among the
  source files.  The spec says only that XOR is bitwise (\<open>e = mask \<oplus> m\<close>); the model
  combines the two byte strings position by position, over their common length.
\<close>

definition xor_bytes :: "bytes \<Rightarrow> bytes \<Rightarrow> bytes" where
  "xor_bytes a b = map2 (XOR) a b"

text \<open>
  The key derivation \<^verbatim>\<open>deriveMask(x, y, id)\<close> is not among the source files either.
  It is a parameter of the model, an arbitrary function of the two coordinate
  pointers and the counter; its result is a fixed-size array in Go.
\<close>

type_synonym kdf = "int option \<Rightarrow> int option \<Rightarrow> nat \<Rightarrow> bytes"

text \<open>
  \<^verbatim>\<open>rand.Int(r, n)\<close> either fails or returns an integer; the reader is modelled by the
  outcome of that call.
\<close>

record COSender =
  snd_rand :: "int \<Rightarrow> err + int"
  snd_curve :: curve

record COSenderXfer =
  s_curve :: curve
  s_m0 :: bytes
  s_m1 :: bytes
  s_a :: int
  s_Ax :: int
  s_Ay :: int
  s_AaInvx :: int
  s_AaInvy :: int
  s_e0 :: bytes
  s_e1 :: bytes

record COReceiver =
  rcv_rand :: "int \<Rightarrow> err + int"
  rcv_curve :: curve

record COReceiverXfer =
  r_curve :: curve
  r_bit :: "64 word"
  r_b :: int
  r_Bx :: "int option"
  r_By :: "int option"
  r_Asx :: "int option"
  r_Asy :: "int option"

text \<open>
  \<^verbatim>\<open>NewCOSender\<close> fixes the curve to \<^verbatim>\<open>elliptic.P256()\<close>, here the argument \<open>crv\<close>.
  The functions of a transfer return the new state of the transfer object, or the
  fault that ends them: the error of the random source, or the panic of a curve
  operation.  \<^verbatim>\<open>ReceiveA\<close> and \<^verbatim>\<open>ReceiveB\<close> have no error result.
\<close>

definition NewCOSender :: "curve \<Rightarrow> (int \<Rightarrow> err + int) \<Rightarrow> COSender" where
  "NewCOSender crv rand = \<lparr>snd_rand = rand, snd_curve = crv\<rparr>"

definition NewCOReceiver :: "(int \<Rightarrow> err + int) \<Rightarrow> curve \<Rightarrow> COReceiver" where
  "NewCOReceiver rand crv = \<lparr>rcv_rand = rand, rcv_curve = crv\<rparr>"

definition COSender_NewTransfer :: "COSender \<Rightarrow> bytes \<Rightarrow> bytes \<Rightarrow> fault + COSenderXfer" where
  "COSender_NewTransfer s m0 m1 =
     (case snd_rand s (Params_N (snd_curve s)) of
        Inl e \<Rightarrow> Inl (Error e)
      | Inr a \<Rightarrow>
          (let A = ScalarBaseMult (snd_curve s) (Bytes a)
           in case ScalarMult (snd_curve s) A (Bytes a) of
                Inl f \<Rightarrow> Inl f
              | Inr Aa \<Rightarrow>
                  (let AaInvx = fst Aa;
                       AaInvy = Params_P (snd_curve s) - snd Aa
                   in Inr \<lparr>s_curve = snd_curve s, s_m0 = m0, s_m1 = m1, s_a = a,
                            s_Ax = fst A, s_Ay = snd A, s_AaInvx = AaInvx, s_AaInvy = AaInvy,
                            s_e0 = [], s_e1 = []\<rparr>)))"

definition COSenderXfer_A :: "COSenderXfer \<Rightarrow> bytes \<times> bytes" where
  "COSenderXfer_A s = (Bytes (s_Ax s), Bytes (s_Ay s))"

definition COSenderXfer_ReceiveB ::
  "kdf \<Rightarrow> COSenderXfer \<Rightarrow> bytes \<Rightarrow> bytes \<Rightarrow> fault + COSenderXfer" where
  "COSenderXfer_ReceiveB deriveMask s x y =
     (let b0 = (SetBytes x, SetBytes y)
      in case ScalarMult (s_curve s) b0 (Bytes (s_a s)) of
           Inl f \<Rightarrow> Inl f
         | Inr b \<Rightarrow>
     (case Add (s_curve s) b (s_AaInvx s, s_AaInvy s) of
        Inl f \<Rightarrow> Inl f
      | Inr ba \<Rightarrow>
          (let mask0 = deriveMask (Some (fst b)) (Some (snd b)) 0;
               mask1 = deriveMask (Some (fst ba)) (Some (snd ba)) 0
           in Inr (s\<lparr>s_e0 := xor_bytes mask0 (s_m0 s), s_e1 := xor_bytes mask1 (s_m1 s)\<rparr>))))"

definition COSenderXfer_E :: "COSenderXfer \<Rightarrow> bytes \<times> bytes" where
  "COSenderXfer_E s = (s_e0 s, s_e1 s)"

definition COReceiver_NewTransfer :: "COReceiver \<Rightarrow> 64 word \<Rightarrow> fault + COReceiverXfer" where
  "COReceiver_NewTransfer r sel =
     (case rcv_rand r (Params_N (rcv_curve r)) of
        Inl e \<Rightarrow> Inl (Error e)
      | Inr b \<Rightarrow> Inr \<lparr>r_curve = rcv_curve r, r_bit = sel, r_b = b,
                       r_Bx = None, r_By = None, r_Asx = None, r_Asy = None\<rparr>)"

definition COReceiverXfer_ReceiveA ::
  "COReceiverXfer \<Rightarrow> bytes \<Rightarrow> bytes \<Rightarrow> fault + COReceiverXfer" where
  "COReceiverXfer_ReceiveA r x y =
     (let A = (SetBytes x, SetBytes y);
          B0 = ScalarBaseMult (r_curve r) (Bytes (r_b r))
      in case (if r_bit r \<noteq> 0 then Add (r_curve r) B0 A else Inr B0) of
           Inl f \<Rightarrow> Inl f
         | Inr B \<Rightarrow>
     (case ScalarMult (r_curve r) A (Bytes (r_b r)) of
        Inl f \<Rightarrow> Inl f
      | Inr As \<Rightarrow>
          Inr (r\<lparr>r_Bx := Some (fst B), r_By := Some (snd B),
                   r_Asx := Some (fst As), r_Asy := Some (snd As)\<rparr>)))"

text \<open>\<^verbatim>\<open>B()\<close> dereferences \<^verbatim>\<open>r.Bx\<close> and \<^verbatim>\<open>r.By\<close>, which are nil before \<^verbatim>\<open>ReceiveA\<close>.\<close>

definition COReceiverXfer_B :: "COReceiverXfer \<Rightarrow> fault + bytes \<times> bytes" where
  "COReceiverXfer_B r =
     (case (r_Bx r, r_By r) of
        (Some x, Some y) \<Rightarrow> Inr (Bytes x, Bytes y)
      | _ \<Rightarrow> Inl (Panic NilDereference))"

definition COReceiverXfer_ReceiveE :: "kdf \<Rightarrow> COReceiverXfer \<Rightarrow> bytes \<Rightarrow> bytes \<Rightarrow> bytes" where
  "COReceiverXfer_ReceiveE deriveMask r e0 e1 =
     (let mask = deriveMask (r_Asx r) (r_Asy r) 0
      in if r_bit r \<noteq> 0 then xor_bytes mask e1 else xor_bytes mask e0)"

section \<open>protocol.go: the connection\<close>

text \<open>
  Every message is addressed by session, topic, source, destination and sequence
  number (the fields of \<^verbatim>\<open>pb.Message\<close> other than the payload).
\<close>

record msg_id =
  Sid :: string
  Topic :: string
  Src :: "64 word"
  Dst :: "64 word"
  Seq :: "64 word"

record ECPoint =
  pt_X :: bytes
  pt_Y :: bytes

type_synonym LabelCiphertext = "Label \<times> Label"

text \<open>
  The values the drivers send: one constructor per Go type that is handed to
  \<^verbatim>\<open>DirectSend\<close> or \<^verbatim>\<open>DirectRecv\<close>.  Decoding a payload into a destination of another
  type fails, as \<^verbatim>\<open>gob\<close> does.
\<close>

datatype payload =
    PInts "64 word list"
  | PKey bytes
  | PGates "Label list list"
  | PLabels "Label list"
  | PQuery "64 word" "64 word"
  | PPoint ECPoint
  | PPoints "ECPoint list"
  | PCiphertexts "LabelCiphertext list"
  | PBigInt int

fun as_ints :: "payload \<Rightarrow> 64 word list option" where
  "as_ints (PInts xs) = Some xs"
| "as_ints _ = None"

fun as_key :: "payload \<Rightarrow> bytes option" where
  "as_key (PKey k) = Some k"
| "as_key _ = None"

fun as_gates :: "payload \<Rightarrow> Label list list option" where
  "as_gates (PGates g) = Some g"
| "as_gates _ = None"

fun as_labels :: "payload \<Rightarrow> Label list option" where
  "as_labels (PLabels ls) = Some ls"
| "as_labels _ = None"

fun as_query :: "payload \<Rightarrow> (64 word \<times> 64 word) option" where
  "as_query (PQuery off cnt) = Some (off, cnt)"
| "as_query _ = None"

fun as_point :: "payload \<Rightarrow> ECPoint option" where
  "as_point (PPoint p) = Some p"
| "as_point _ = None"

fun as_points :: "payload \<Rightarrow> ECPoint list option" where
  "as_points (PPoints ps) = Some ps"
| "as_points _ = None"

fun as_ciphertexts :: "payload \<Rightarrow> LabelCiphertext list option" where
  "as_ciphertexts (PCiphertexts cs) = Some cs"
| "as_ciphertexts _ = None"

fun as_bigint :: "payload \<Rightarrow> int option" where
  "as_bigint (PBigInt n) = Some n"
| "as_bigint _ = None"

text \<open>
  The relay client (\<^verbatim>\<open>MessengerClient\<close>) is the transport under the connection.
  Its calls are answered by the outside world; the model takes their answers as
  given: what \<^verbatim>\<open>Connect\<close>, \<^verbatim>\<open>GrpcNewSessionEasy\<close>, \<^verbatim>\<open>DirectSend\<close> and \<^verbatim>\<open>Exchange\<close>
  return, and what the relay answers to the request of \<^verbatim>\<open>DirectRecv\<close>: an error or the
  values of the response (\<^verbatim>\<open>resp0.Values\<close>).  A send or a receive is identified by its
  address, which is fresh for every call since the sequence number grows.
\<close>

record network =
  net_Connect :: "string \<Rightarrow> err option"
  net_NewSession :: "err + string"
  net_DirectSend :: "msg_id \<Rightarrow> payload \<Rightarrow> err option"
  net_DirectRecv :: "msg_id \<Rightarrow> err + payload list"
  net_Exchange :: "err option"

record MessengerClient =
  SessionId :: string

record Conn =
  conn :: MessengerClient
  je :: "64 word"
  tu :: "64 word"
  nsend :: "64 word"
  nrecv :: "64 word"

text \<open>
  \<^verbatim>\<open>MessengerClient.DirectRecv\<close> asks the relay for the addressed message and decodes
  it into the destination \<open>out\<close>; either step may fail.  A response that does not
  hold exactly one value is wrapped as an error too, but the wrapped error is the
  \<^verbatim>\<open>nil\<close> of the successful request, and \<^verbatim>\<open>errors.Wrapf(nil, \<dots>)\<close> is \<^verbatim>\<open>nil\<close>: the call
  returns no error and leaves the destination as it was.  The result is the error or
  the value of the destination after the call.
\<close>

definition MessengerClient_DirectRecv ::
  "network \<Rightarrow> (payload \<Rightarrow> 'a option) \<Rightarrow> 'a \<Rightarrow> msg_id \<Rightarrow> err + 'a" where
  "MessengerClient_DirectRecv net decode out mid =
     (case net_DirectRecv net mid of
        Inl e \<Rightarrow> Inl (Wrap ''[ DirectRecv ] failed to post object'' e)
      | Inr values \<Rightarrow>
          (if length values \<noteq> 1 then Inr out
           else
             (case decode (values ! 0) of
                None \<Rightarrow>
                  Inl (Wrap ''[ DirectRecv ] failed to deserialize object'' (Opaque ''gob''))
              | Some v \<Rightarrow> Inr v)))"

definition NewConn :: "network \<Rightarrow> bool \<Rightarrow> string \<Rightarrow> string \<Rightarrow> err + Conn" where
  "NewConn net isGarbler hostport sid =
     (case net_Connect net hostport of
        Some e \<Rightarrow> Inl (Wrap ''mpc-hd/NewConn : failed to connect to grpc server'' e)
      | None \<Rightarrow>
          (case (if sid = [] then net_NewSession net else Inr sid) of
             Inl e \<Rightarrow> Inl (Wrap ''mpc-hd/NewConn : failed to set session_id'' e)
           | Inr sid' \<Rightarrow>
               (let c = \<lparr>conn = \<lparr>SessionId = sid'\<rparr>, je = 0, tu = 0, nsend = 0, nrecv = 0\<rparr>
                in Inr (if isGarbler then c\<lparr>je := 1, tu := 2\<rparr> else c\<lparr>je := 2, tu := 1\<rparr>))))"

text \<open>
  What a party did on its connection is kept beside the connection: the address
  and payload of every message handed to the relay client, the address of every
  message asked of it, and every circuit load.  The trace is not part of the Go
  state; it only records the calls.
\<close>

datatype event =
    Sent msg_id payload
  | Requested msg_id
  | Loaded string "64 word list list"

record session =
  link :: Conn
  trace :: "event list"

definition DirectSend :: "network \<Rightarrow> payload \<Rightarrow> string \<Rightarrow> session \<Rightarrow> err option \<times> session" where
  "DirectSend net snd_obj topic s =
     (let c = (link s)\<lparr>nsend := nsend (link s) + 1\<rparr>;
          mid = \<lparr>Sid = SessionId (conn c), Topic = topic, Src = je c, Dst = tu c, Seq = nsend c\<rparr>;
          s' = s\<lparr>link := c, trace := trace s @ [Sent mid snd_obj]\<rparr>
      in case net_DirectSend net mid snd_obj of
           Some e \<Rightarrow> (Some (Wrap ''in mpc_hd::Conn::DirectSend(&self, any)'' e), s')
         | None \<Rightarrow> (None, s'))"

definition DirectRecv ::
  "network \<Rightarrow> (payload \<Rightarrow> 'a option) \<Rightarrow> 'a \<Rightarrow> string \<Rightarrow> session \<Rightarrow>
     (err + 'a) \<times> session" where
  "DirectRecv net decode out topic s =
     (let c = (link s)\<lparr>nrecv := nrecv (link s) + 1\<rparr>;
          mid = \<lparr>Sid = SessionId (conn c), Topic = topic, Src = tu c, Dst = je c, Seq = nrecv c\<rparr>;
          s' = s\<lparr>link := c, trace := trace s @ [Requested mid]\<rparr>
      in case MessengerClient_DirectRecv net decode out mid of
           Inl e \<Rightarrow> (Inl (Wrap ''in mpc_hd::Conn::DirectRecv(&self, any)'' e), s')
         | Inr v \<Rightarrow> (Inr v, s'))"

text \<open>
  \<^verbatim>\<open>Conn.Exchange\<close> (package \<^verbatim>\<open>p2p\<close>): the error of the relay client is wrapped into
  a local variable, and the function returns \<^verbatim>\<open>nil\<close>.
\<close>

definition Exchange :: "network \<Rightarrow> Conn \<Rightarrow> err option" where
  "Exchange net c =
     (case net_Exchange net of
        Some e \<Rightarrow> (let err = Wrap ''in mpc_hd::Conn::Exchange(&self)'' e in None)
      | None \<Rightarrow> None)"

text \<open>
  A list of calls on a connection (and of circuit loads in between), for statements
  about any interleaving.  A receive of the list takes the payload as it comes.
\<close>

datatype call = SendCall payload string | RecvCall string | LoadCall string "64 word list list"

fun run_calls :: "network \<Rightarrow> call list \<Rightarrow> session \<Rightarrow> session" where
  "run_calls net [] s = s"
| "run_calls net (SendCall p topic # cs) s = run_calls net cs (snd (DirectSend net p topic s))"
| "run_calls net (RecvCall topic # cs) s =
     run_calls net cs (snd (DirectRecv net Some (PInts []) topic s))"
| "run_calls net (LoadCall file sizes # cs) s =
     run_calls net cs (s\<lparr>trace := trace s @ [Loaded file sizes]\<rparr>)"

fun send_topics :: "call list \<Rightarrow> (payload \<times> string) list" where
  "send_topics [] = []"
| "send_topics (SendCall p topic # cs) = (p, topic) # send_topics cs"
| "send_topics (_ # cs) = send_topics cs"

fun recv_topics :: "call list \<Rightarrow> string list" where
  "recv_topics [] = []"
| "recv_topics (RecvCall topic # cs) = topic # recv_topics cs"
| "recv_topics (_ # cs) = recv_topics cs"

fun sent :: "event list \<Rightarrow> (msg_id \<times> payload) list" where
  "sent [] = []"
| "sent (Sent mid p # es) = (mid, p) # sent es"
| "sent (_ # es) = sent es"

fun requested :: "event list \<Rightarrow> msg_id list" where
  "requested [] = []"
| "requested (Requested mid # es) = mid # requested es"
| "requested (_ # es) = requested es"


text \<open>
  The addresses the spec prescribes: the \<open>i\<close>-th send carries
  \<open>(session, topic, src = je, dst = tu, seq = i)\<close>, the \<open>i\<close>-th receive asks for
  \<open>(session, topic, src = tu, dst = je, seq = i)\<close>, counted from \<open>n + 1\<close>.
\<close>

fun addressed_sends :: "Conn \<Rightarrow> 64 word \<Rightarrow> (payload \<times> string) list \<Rightarrow> (msg_id \<times> payload) list" where
  "addressed_sends c n [] = []"
| "addressed_sends c n (x # xs) =
     (\<lparr>Sid = SessionId (conn c), Topic = snd x, Src = je c, Dst = tu c, Seq = n + 1\<rparr>, fst x)
       # addressed_sends c (n + 1) xs"

fun addressed_recvs :: "Conn \<Rightarrow> 64 word \<Rightarrow> string list \<Rightarrow> msg_id list" where
  "addressed_recvs c n [] = []"
| "addressed_recvs c n (x # xs) =
     \<lparr>Sid = SessionId (conn c), Topic = x, Src = tu c, Dst = je c, Seq = n + 1\<rparr>
       # addressed_recvs c (n + 1) xs"

section \<open>Go indexing and slicing\<close>

text \<open>
  An index expression panics out of range; a slice expression \<^verbatim>\<open>xs[lo:hi]\<close> panics
  unless \<open>0 \<le> lo \<le> hi \<le> cap(xs)\<close>.  A slice is modelled by the list of its elements
  and, where it is sliced, by the elements of its backing array that lie behind
  them (\<open>spare\<close>): the capacity is the length of both together, and a slice
  expression may reach into the spare elements.  \<^verbatim>\<open>make([]T, n)\<close> panics for a
  negative \<open>n\<close>.
\<close>

definition go_index :: "'a list \<Rightarrow> 64 word \<Rightarrow> fault + 'a" where
  "go_index xs i =
     (if 0 \<le> sint i \<and> sint i < int (length xs) then Inr (xs ! nat (sint i))
      else Inl (Panic IndexOutOfRange))"

definition go_slice :: "'a list \<Rightarrow> 'a list \<Rightarrow> 64 word \<Rightarrow> 64 word \<Rightarrow> fault + 'a list" where
  "go_slice xs spare lo hi =
     (if 0 \<le> sint lo \<and> sint lo \<le> sint hi \<and> sint hi \<le> int (length xs + length spare)
      then Inr (take (nat (sint hi) - nat (sint lo)) (drop (nat (sint lo)) (xs @ spare)))
      else Inl (Panic SliceBoundsOutOfRange))"

definition go_make :: "'a \<Rightarrow> 64 word \<Rightarrow> fault + 'a list" where
  "go_make zero n =
     (if 0 \<le> sint n then Inr (replicate (nat (sint n)) zero)
      else Inl (Panic MakeSliceLenOutOfRange))"

text \<open>The indices \<open>0, 1, \<dots>\<close> of a loop \<^verbatim>\<open>for i := 0; i < n; i++\<close>.\<close>

definition loop_range :: "64 word \<Rightarrow> nat list" where
  "loop_range n = [0..<nat (sint n)]"

section \<open>The circuit and the collaborators of the drivers\<close>

text \<open>
  Of a circuit the drivers read the gate and wire counts, the input groups with
  their bit widths (\<^verbatim>\<open>int(arg.Type.Bits)\<close>) and the outputs.
\<close>

record IOArg =
  Bits :: "64 word"

record Circuit =
  NumGates :: "64 word"
  NumWires :: "64 word"
  Inputs :: "IOArg list"
  Outputs :: "IOArg list"

record Wire =
  L0 :: Label
  L1 :: Label

text \<open>
  \<open>Wires_spare\<close>: the elements of the backing array of \<^verbatim>\<open>garbled.Wires\<close> behind its
  length, up to its capacity.
\<close>

record Garbled =
  Gates :: "Label list list"
  Wires :: "Wire list"
  Wires_spare :: "Wire list"

text \<open>Of the sender's setup the code reads the two coordinates of the point \<open>A\<close>.\<close>

record COSenderSetup =
  setup_Ax :: bytes
  setup_Ay :: bytes
  setup_a :: int

text \<open>What \<^verbatim>\<open>Results(results, outputs)\<close> yields for one output.\<close>

datatype result_value = RBytes bytes | ROther int

text \<open>
  The functions below are called by the drivers and are not among the source
  files: the random source, the garbling and evaluation engines, the batch helpers
  of the oblivious transfer, the circuit loader and the result formatter.  Each is
  a parameter of the model: a field holds the function, from its arguments to what
  it returns.  \<open>'b\<close> is the type of the receiver's choice bundle; \<open>Wire_index\<close> is
  the value of the conversion \<^verbatim>\<open>Wire(n)\<close> to the circuit's wire-id type.  The Go
  runtime decides how much room \<^verbatim>\<open>append\<close> leaves behind the slice it returns:
  \<open>append_spare ws n\<close> are the elements behind \<^verbatim>\<open>append(ws, make([]ot.Label, n)...)\<close>.
\<close>

record 'b env =
  rand_Read :: "err + bytes"
  Garble :: "Circuit \<Rightarrow> bytes \<Rightarrow> err + Garbled"
  LabelForBit :: "Wire \<Rightarrow> bool \<Rightarrow> Label"
  BitFromLabel :: "Wire \<Rightarrow> Label \<Rightarrow> err + bool"
  Size :: "IOArg list \<Rightarrow> 64 word"
  Split :: "IOArg list \<Rightarrow> int \<Rightarrow> int list"
  Eval :: "Circuit \<Rightarrow> bytes \<Rightarrow> Label list \<Rightarrow> Label list list \<Rightarrow> err + Label list"
  GenerateCOSenderSetup :: "err + COSenderSetup"
  EncryptCOCiphertexts ::
    "COSenderSetup \<Rightarrow> ECPoint list \<Rightarrow> Wire list \<Rightarrow> err + LabelCiphertext list"
  BuildCOChoices :: "bytes \<Rightarrow> bytes \<Rightarrow> bool list \<Rightarrow> err + 'b \<times> ECPoint list"
  DecryptCOCiphertexts :: "'b \<Rightarrow> LabelCiphertext list \<Rightarrow> err + Label list"
  InputSizes :: "string list \<Rightarrow> err + 64 word list"
  circuit_IsFilename :: "string \<Rightarrow> bool"
  circuit_Parse :: "string \<Rightarrow> Circuit option \<times> err option"
  compiler_IsFilename :: "string \<Rightarrow> bool"
  CompileFile :: "string \<Rightarrow> 64 word list list \<Rightarrow> Circuit option \<times> err option"
  AssignLevels :: "Circuit \<Rightarrow> Circuit"
  arg_Parse :: "IOArg \<Rightarrow> string list \<Rightarrow> err + int"
  Results :: "int list \<Rightarrow> IOArg list \<Rightarrow> result_value list"
  Wire_index :: "64 word \<Rightarrow> int"
  filepath_Abs :: "string \<Rightarrow> err + string"
  append_spare :: "Label list \<Rightarrow> 64 word \<Rightarrow> Label list"

section \<open>co.go: the oblivious transfer over the connection\<close>

definition CO_Send :: "'b env \<Rightarrow> network \<Rightarrow> Wire list \<Rightarrow> session \<Rightarrow> err option \<times> session" where
  "CO_Send E net wires s =
     (case GenerateCOSenderSetup E of
        Inl e \<Rightarrow> (Some (Wrap ''in func (co *CO) Send(...), when generating sender setup.'' e), s)
      | Inr setup \<Rightarrow>
     (case DirectSend net (PPoint \<lparr>pt_X = setup_Ax setup, pt_Y = setup_Ay setup\<rparr>)
             ''setup.Ax,Ay'' s of
        (Some e, s1) \<Rightarrow>
          (Some (Wrap ''in func (co *CO) Send(...), when sending setup.Ax,Ay'' e), s1)
      | (None, s1) \<Rightarrow>
     (case DirectRecv net as_points [] ''co choices'' s1 of
        (Inl e, s2) \<Rightarrow>
          (Some (Wrap ''in func (co *CO) Send(...), when receiving co choices'' e), s2)
      | (Inr points, s2) \<Rightarrow>
     (case EncryptCOCiphertexts E setup points wires of
        Inl e \<Rightarrow>
          (Some (Wrap ''in func (co *CO) Send(...), when making ot ciphertexts'' e), s2)
      | Inr ct \<Rightarrow>
     (case DirectSend net (PCiphertexts ct) ''ot ciphertexts'' s2 of
        (Some e, s3) \<Rightarrow>
          (Some (Wrap ''in func (co *CO) Send(...), when receiving ot ciphertext'' e), s3)
      | (None, s3) \<Rightarrow> (None, s3))))))"

text \<open>
  The destinations of the receives start at the zero value of their type.
  \<^verbatim>\<open>Receive\<close> copies the labels into \<^verbatim>\<open>result\<close>, a slice of the caller's wire array;
  the model returns the new contents of that slice.
\<close>

definition CO_Receive ::
  "'b env \<Rightarrow> network \<Rightarrow> bool list \<Rightarrow> Label list \<Rightarrow> session \<Rightarrow> (err + Label list) \<times> session" where
  "CO_Receive E net flags result s =
     (case DirectRecv net as_point \<lparr>pt_X = [], pt_Y = []\<rparr> ''setup.Ax,Ay'' s of
        (Inl e, s1) \<Rightarrow>
          (Inl (Wrap ''in func (co *CO) Receive(...), when receiving setup.Ax,Ay'' e), s1)
      | (Inr rcv, s1) \<Rightarrow>
     (case BuildCOChoices E (pt_X rcv) (pt_Y rcv) flags of
        Inl e \<Rightarrow>
          (Inl (Wrap ''in func (co *CO) Receive(...), when building co choices'' e), s1)
      | Inr (bundle, points) \<Rightarrow>
     (case DirectSend net (PPoints points) ''co choices'' s1 of
        (Some e, s2) \<Rightarrow>
          (Inl (Wrap ''in func (co *CO) Receive(...), when sending co choices'' e), s2)
      | (None, s2) \<Rightarrow>
     (case DirectRecv net as_ciphertexts [] ''ot ciphertexts'' s2 of
        (Inl e, s3) \<Rightarrow>
          (Inl (Wrap ''in func (co *CO) Receive(...), when receiving ot ciphertexts'' e), s3)
      | (Inr ciphertexts, s3) \<Rightarrow>
     (case DecryptCOCiphertexts E bundle ciphertexts of
        Inl e \<Rightarrow>
          (Inl (Wrap ''in func (co *CO) Receive(...), when decrypting ot ciphertexts'' e), s3)
      | Inr labels \<Rightarrow>
          (if length labels \<noteq> length result
           then (Inl (LabelCountMismatch (length labels) (length result)), s3)
           else (Inr labels, s3)))))))"

section \<open>garbler.go: the garbler\<close>

text \<open>G7: decode the result labels bit by bit, in order, stopping at the first fault.\<close>

fun Garbler_decode ::
  "'b env \<Rightarrow> Circuit \<Rightarrow> Garbled \<Rightarrow> Label list \<Rightarrow> nat list \<Rightarrow> int \<Rightarrow> fault + int" where
  "Garbler_decode E circ garbled labels [] result = Inr result"
| "Garbler_decode E circ garbled labels (i # rest) result =
     (case go_index labels (of_nat i) of
        Inl f \<Rightarrow> Inl f
      | Inr label \<Rightarrow>
     (case go_index (Wires garbled) (NumWires circ - Size E (Outputs circ) + of_nat i) of
        Inl f \<Rightarrow> Inl f
      | Inr wire \<Rightarrow>
     (case BitFromLabel E wire label of
        Inl e \<Rightarrow>
          Inl (Error (Wrap ''in mpc_hd::Garbler(...), when extracting a bit from each label'' e))
      | Inr boolBit \<Rightarrow>
          Garbler_decode E circ garbled labels rest
            (if boolBit then set_bit i result else result))))"

definition Garbler_G7 ::
  "'b env \<Rightarrow> network \<Rightarrow> Circuit \<Rightarrow> Garbled \<Rightarrow> Label list \<Rightarrow> session
    \<Rightarrow> (fault + int list) \<times> session" where
  "Garbler_G7 E net circ garbled labels s =
     (case Garbler_decode E circ garbled labels (loop_range (Size E (Outputs circ))) 0 of
        Inl f \<Rightarrow> (Inl f, s)
      | Inr result \<Rightarrow>
     (case DirectSend net (PBigInt result) ''result'' s of
        (Some e, s1) \<Rightarrow> (Inl (Error (Wrap ''in mpc_hd::Garbler(...), when sending result'' e)), s1)
      | (None, s1) \<Rightarrow> (Inr (Split E (Outputs circ) result), s1)))"

definition Garbler_G6 ::
  "'b env \<Rightarrow> network \<Rightarrow> Circuit \<Rightarrow> Garbled \<Rightarrow> session \<Rightarrow> (fault + int list) \<times> session" where
  "Garbler_G6 E net circ garbled s =
     (case DirectRecv net as_labels [] ''result labels'' s of
        (Inl e, s1) \<Rightarrow>
          (Inl (Error (Wrap ''in mpc_hd::Garbler(...), when receiving ot labels'' e)), s1)
      | (Inr labels, s1) \<Rightarrow> Garbler_G7 E net circ garbled labels s1)"

definition Garbler_G5 ::
  "'b env \<Rightarrow> network \<Rightarrow> Circuit \<Rightarrow> Garbled \<Rightarrow> 64 word \<Rightarrow> 64 word \<Rightarrow> session
    \<Rightarrow> (fault + int list) \<times> session" where
  "Garbler_G5 E net circ garbled Offset Count s =
     (case go_slice (Wires garbled) (Wires_spare garbled) Offset (Offset + Count) of
        Inl f \<Rightarrow> (Inl f, s)
      | Inr wires \<Rightarrow>
     (case CO_Send E net wires s of
        (Some e, s1) \<Rightarrow> (Inl (Error e), s1)
      | (None, s1) \<Rightarrow> Garbler_G6 E net circ garbled s1))"

definition Garbler_G4 ::
  "'b env \<Rightarrow> network \<Rightarrow> Circuit \<Rightarrow> Garbled \<Rightarrow> session \<Rightarrow> (fault + int list) \<times> session" where
  "Garbler_G4 E net circ garbled s =
     (case DirectRecv net as_query (0, 0) ''ot query'' s of
        (Inl e, s1) \<Rightarrow>
          (Inl (Error (Wrap ''in mpc_hd::Garbler(...), when receiving ot query'' e)), s1)
      | (Inr (Offset, Count), s1) \<Rightarrow>
     (case go_index (Inputs circ) 0 of
        Inl f \<Rightarrow> (Inl f, s1)
      | Inr in0 \<Rightarrow>
          (if Offset \<noteq> Bits in0
           then (Inl (Error (PeerCantOT Offset (Offset + Count))), s1)
           else
     (case go_index (Inputs circ) 1 of
        Inl f \<Rightarrow> (Inl f, s1)
      | Inr in1 \<Rightarrow>
          (if Count \<noteq> Bits in1
           then (Inl (Error (PeerCantOT Offset (Offset + Count))), s1)
           else Garbler_G5 E net circ garbled Offset Count s1)))))"

text \<open>G3: the garbler's own input labels, one per bit of input group 0.\<close>

fun Garbler_inputs :: "'b env \<Rightarrow> Garbled \<Rightarrow> int \<Rightarrow> nat list \<Rightarrow> fault + Label list" where
  "Garbler_inputs E garbled inputs [] = Inr []"
| "Garbler_inputs E garbled inputs (i # rest) =
     (case go_index (Wires garbled) (of_nat i) of
        Inl f \<Rightarrow> Inl f
      | Inr wire \<Rightarrow>
     (case Garbler_inputs E garbled inputs rest of
        Inl f \<Rightarrow> Inl f
      | Inr wires \<Rightarrow> Inr (LabelForBit E wire (bit inputs i) # wires)))"

text \<open>
  The send of the input labels: its error is wrapped into a local variable and the
  function goes on to G4.
\<close>

definition Garbler_G3 ::
  "'b env \<Rightarrow> network \<Rightarrow> Circuit \<Rightarrow> int \<Rightarrow> Garbled \<Rightarrow> session \<Rightarrow> (fault + int list) \<times> session" where
  "Garbler_G3 E net circ inputs garbled s =
     (case go_index (Inputs circ) 0 of
        Inl f \<Rightarrow> (Inl f, s)
      | Inr in0 \<Rightarrow>
     (case Garbler_inputs E garbled inputs (loop_range (Bits in0)) of
        Inl f \<Rightarrow> (Inl f, s)
      | Inr wires \<Rightarrow>
     (case DirectSend net (PLabels wires) ''inputs'' s of
        (Some e, s1) \<Rightarrow>
          (let err = Wrap ''in mpc_hd::Garbler(...), when sending inputs.'' e
           in Garbler_G4 E net circ garbled s1)
      | (None, s1) \<Rightarrow> Garbler_G4 E net circ garbled s1)))"

definition Garbler_G2 ::
  "'b env \<Rightarrow> network \<Rightarrow> Circuit \<Rightarrow> int \<Rightarrow> Garbled \<Rightarrow> session \<Rightarrow> (fault + int list) \<times> session" where
  "Garbler_G2 E net circ inputs garbled s =
     (case DirectSend net (PGates (Gates garbled)) ''garbled gates'' s of
        (Some e, s1) \<Rightarrow>
          (Inl (Error (Wrap ''in mpc_hd::Garbler(...), when sending garbled gates.'' e)), s1)
      | (None, s1) \<Rightarrow> Garbler_G3 E net circ inputs garbled s1)"

definition Garbler ::
  "'b env \<Rightarrow> network \<Rightarrow> Circuit \<Rightarrow> int \<Rightarrow> session \<Rightarrow> (fault + int list) \<times> session" where
  "Garbler E net circ inputs s =
     (case rand_Read E of
        Inl e \<Rightarrow> (Inl (Error e), s)
      | Inr key \<Rightarrow>
     (case Garble E circ key of
        Inl e \<Rightarrow> (Inl (Error e), s)
      | Inr garbled \<Rightarrow>
     (case DirectSend net (PKey key) ''ephemeral key'' s of
        (Some e, s1) \<Rightarrow>
          (Inl (Error (Wrap ''in mpc_hd::Garbler(...), when sending ephemeral key.'' e)), s1)
      | (None, s1) \<Rightarrow> Garbler_G2 E net circ inputs garbled s1)))"

section \<open>evaluator.go: the evaluator\<close>

text \<open>E6: the labels of the trailing output wires.\<close>

fun Evaluator_outputs ::
  "'b env \<Rightarrow> Circuit \<Rightarrow> Label list \<Rightarrow> nat list \<Rightarrow> fault + Label list" where
  "Evaluator_outputs E circ wires [] = Inr []"
| "Evaluator_outputs E circ wires (i # rest) =
     (let w = Wire_index E (NumWires circ - Size E (Outputs circ) + of_nat i)
      in if 0 \<le> w \<and> w < int (length wires)
         then (case Evaluator_outputs E circ wires rest of
                 Inl f \<Rightarrow> Inl f
               | Inr labels \<Rightarrow> Inr (wires ! nat w # labels))
         else Inl (Panic IndexOutOfRange))"

definition Evaluator_E7 ::
  "'b env \<Rightarrow> network \<Rightarrow> Circuit \<Rightarrow> session \<Rightarrow> (fault + int list) \<times> session" where
  "Evaluator_E7 E net circ s =
     (case DirectRecv net as_bigint 0 ''result'' s of
        (Inl e, s1) \<Rightarrow>
          (Inl (Error (Wrap ''in mpc_hd::Evaluator(...), when receiving result.'' e)), s1)
      | (Inr result, s1) \<Rightarrow> (Inr (Split E (Outputs circ) result), s1))"

definition Evaluator_E6 ::
  "'b env \<Rightarrow> network \<Rightarrow> Circuit \<Rightarrow> Label list \<Rightarrow> session \<Rightarrow> (fault + int list) \<times> session" where
  "Evaluator_E6 E net circ wires s =
     (case Evaluator_outputs E circ wires (loop_range (Size E (Outputs circ))) of
        Inl f \<Rightarrow> (Inl f, s)
      | Inr labels \<Rightarrow>
     (case DirectSend net (PLabels labels) ''result labels'' s of
        (Some e, s1) \<Rightarrow>
          (Inl (Error (Wrap ''in mpc_hd::Evaluator(...), when sending ot labels.'' e)), s1)
      | (None, s1) \<Rightarrow> Evaluator_E7 E net circ s1))"

text \<open>
  E5 and the evaluation: the transfer fills the slice \<^verbatim>\<open>wires[start:end]\<close> of the wire
  array, which may reach behind the length of \<^verbatim>\<open>wires\<close> into its spare capacity; then
  the circuit engine fills the remaining wires.  \<open>spare\<close> are the elements behind
  \<^verbatim>\<open>wires\<close>.
\<close>

definition Evaluator_E5 ::
  "'b env \<Rightarrow> network \<Rightarrow> Circuit \<Rightarrow> int \<Rightarrow> bytes \<Rightarrow> Label list list \<Rightarrow> Label list \<Rightarrow>
     Label list \<Rightarrow> IOArg \<Rightarrow> IOArg \<Rightarrow> session \<Rightarrow> (fault + int list) \<times> session" where
  "Evaluator_E5 E net circ inputs key garbled wires spare in0 in1 s =
     (case go_make False (Bits in1) of
        Inl f \<Rightarrow> (Inl f, s)
      | Inr flags0 \<Rightarrow>
     (let flags = map (bit inputs) (loop_range (Bits in1));
          start = Bits in0;
          end = start + Bits in1
      in case go_slice wires spare start end of
           Inl f \<Rightarrow> (Inl f, s)
         | Inr result \<Rightarrow>
     (case CO_Receive E net flags result s of
        (Inl e, s1) \<Rightarrow> (Inl (Error e), s1)
      | (Inr labels, s1) \<Rightarrow>
     (let array = take (nat (sint start)) (wires @ spare) @ labels
                    @ drop (nat (sint end)) (wires @ spare);
          wires' = take (length wires) array
      in case Eval E circ key wires' garbled of
           Inl e \<Rightarrow>
             (Inl (Error (Wrap ''in mpc_hd::Evaluator(...), when evaluating gates.'' e)), s1)
         | Inr wires'' \<Rightarrow> Evaluator_E6 E net circ wires'' s1))))"

definition Evaluator_E4 ::
  "'b env \<Rightarrow> network \<Rightarrow> Circuit \<Rightarrow> int \<Rightarrow> bytes \<Rightarrow> Label list list \<Rightarrow> Label list \<Rightarrow>
     Label list \<Rightarrow> session \<Rightarrow> (fault + int list) \<times> session" where
  "Evaluator_E4 E net circ inputs key garbled wires spare s =
     (case go_index (Inputs circ) 0 of
        Inl f \<Rightarrow> (Inl f, s)
      | Inr in0 \<Rightarrow>
     (case go_index (Inputs circ) 1 of
        Inl f \<Rightarrow> (Inl f, s)
      | Inr in1 \<Rightarrow>
     (case DirectSend net (PQuery (Bits in0) (Bits in1)) ''ot query'' s of
        (Some e, s1) \<Rightarrow>
          (Inl (Error (Wrap ''in mpc_hd::Evaluator(...), when sending ot query.'' e)), s1)
      | (None, s1) \<Rightarrow> Evaluator_E5 E net circ inputs key garbled wires spare in0 in1 s1)))"

definition Evaluator_E3 ::
  "'b env \<Rightarrow> network \<Rightarrow> Circuit \<Rightarrow> int \<Rightarrow> bytes \<Rightarrow> Label list list \<Rightarrow> session
     \<Rightarrow> (fault + int list) \<times> session" where
  "Evaluator_E3 E net circ inputs key garbled s =
     (case DirectRecv net as_labels [] ''inputs'' s of
        (Inl e, s1) \<Rightarrow>
          (Inl (Error (Wrap ''in mpc_hd::Evaluator(...), when receiving inputs.'' e)), s1)
      | (Inr wires, s1) \<Rightarrow>
     (case go_make 0 (NumWires circ - of_nat (length wires)) of
        Inl f \<Rightarrow> (Inl f, s1)
      | Inr pad \<Rightarrow>
          Evaluator_E4 E net circ inputs key garbled (wires @ pad)
            (append_spare E wires (NumWires circ - of_nat (length wires))) s1))"

definition Evaluator_E2 ::
  "'b env \<Rightarrow> network \<Rightarrow> Circuit \<Rightarrow> int \<Rightarrow> bytes \<Rightarrow> session \<Rightarrow> (fault + int list) \<times> session" where
  "Evaluator_E2 E net circ inputs key s =
     (case go_make ([] :: Label list) (NumGates circ) of
        Inl f \<Rightarrow> (Inl f, s)
      | Inr garbled0 \<Rightarrow>
     (case DirectRecv net as_gates garbled0 ''garbled gates'' s of
        (Inl e, s1) \<Rightarrow>
          (Inl (Error (Wrap ''in mpc_hd::Evaluator(...), when receiving garbled gates.'' e)), s1)
      | (Inr garbled, s1) \<Rightarrow> Evaluator_E3 E net circ inputs key garbled s1))"

definition Evaluator ::
  "'b env \<Rightarrow> network \<Rightarrow> Circuit \<Rightarrow> int \<Rightarrow> session \<Rightarrow> (fault + int list) \<times> session" where
  "Evaluator E net circ inputs s =
     (case DirectRecv net as_key (replicate 32 0) ''ephemeral key'' s of
        (Inl e, s1) \<Rightarrow>
          (Inl (Error (Wrap ''in mpc_hd::Evaluator(...), when receiving ephemeral key.'' e)), s1)
      | (Inr key, s1) \<Rightarrow> Evaluator_E2 E net circ inputs key s1)"

section \<open>main.go: the entry points\<close>

text \<open>\<^verbatim>\<open>slices.Compare\<close> on \<^verbatim>\<open>[]int\<close>: lexicographic, a shorter prefix first.\<close>

fun slices_Compare :: "64 word list \<Rightarrow> 64 word list \<Rightarrow> int" where
  "slices_Compare [] [] = 0"
| "slices_Compare [] (y # ys) = - 1"
| "slices_Compare (x # xs) [] = 1"
| "slices_Compare (x # xs) (y # ys) =
     (if x <s y then - 1 else if y <s x then 1 else slices_Compare xs ys)"

definition loadCircuit ::
  "'b env \<Rightarrow> string \<Rightarrow> 64 word list list \<Rightarrow> Circuit option \<times> err option" where
  "loadCircuit E file inputSizes =
     (if circuit_IsFilename E file then
        (case circuit_Parse E file of
           (circ, Some e) \<Rightarrow> (None, Some e)
         | (circ, None) \<Rightarrow> (map_option (AssignLevels E) circ, None))
      else if compiler_IsFilename E file then
        (case CompileFile E file inputSizes of
           (circ, Some e) \<Rightarrow> (None, Some e)
         | (circ, None) \<Rightarrow> (map_option (AssignLevels E) circ, None))
      else (None, Some (UnknownFileType file)))"

definition getResult :: "'b env \<Rightarrow> int list \<Rightarrow> IOArg list \<Rightarrow> fault + bytes" where
  "getResult E results outputs =
     (case Results E results outputs of
        [] \<Rightarrow> Inl (Panic IndexOutOfRange)
      | RBytes val # _ \<Rightarrow> Inr val
      | ROther _ # _ \<Rightarrow> Inl (Panic TypeAssertionFailed))"

text \<open>
  The end of both entry points of the library build: the leading byte of the result
  buffer tells a result from an error of the MPCL program.
\<close>

definition discriminate :: "'b env \<Rightarrow> string \<Rightarrow> bytes \<Rightarrow> fault + bytes" where
  "discriminate E circ_file val =
     (case val of
        [] \<Rightarrow> Inl (Panic IndexOutOfRange)
      | v0 # rest \<Rightarrow>
          (if v0 \<noteq> 0 then Inr rest
           else
             (let circ_abs = (case filepath_Abs E circ_file of Inl e \<Rightarrow> circ_file | Inr p \<Rightarrow> p)
              in case rest of
                   [] \<Rightarrow> Inl (Panic IndexOutOfRange)
                 | v1 # _ \<Rightarrow> Inl (Error (MPCLInnerError v1 circ_abs)))))"

text \<open>
  The exchange of the input sizes, common to all entry points: compute the own
  sizes, send them, receive the peer's.
\<close>

definition exchange_sizes ::
  "'b env \<Rightarrow> network \<Rightarrow> string list \<Rightarrow> string \<Rightarrow> string \<Rightarrow> session \<Rightarrow>
     (err + 64 word list \<times> 64 word list) \<times> session" where
  "exchange_sizes E net args ctx ctx' s =
     (case InputSizes E args of
        Inl e \<Rightarrow> (Inl (Wrap ctx e), s)
      | Inr myInputSizes \<Rightarrow>
     (case DirectSend net (PInts myInputSizes) ''input sizes'' s of
        (Some e, s1) \<Rightarrow> (Inl (Wrap ctx' e), s1)
      | (None, s1) \<Rightarrow>
     (case DirectRecv net as_ints [] ''input sizes'' s1 of
        (Inl e, s2) \<Rightarrow> (Inl (Wrap ctx' e), s2)
      | (Inr peerInputSizes, s2) \<Rightarrow> (Inr (myInputSizes, peerInputSizes), s2))))"

text \<open>
  The evaluator's circuit guard.  The two locals \<^verbatim>\<open>circ\<close> and \<^verbatim>\<open>oPeerInputSizes\<close> start
  as \<^verbatim>\<open>nil\<close>; the function returns their values after the \<^verbatim>\<open>if\<close>.
\<close>

definition evaluator_fn_load ::
  "'b env \<Rightarrow> string \<Rightarrow> 64 word list list \<Rightarrow> 64 word list \<Rightarrow> session \<Rightarrow>
     (err + Circuit option \<times> 64 word list) \<times> session" where
  "evaluator_fn_load E circ_file inputSizes peerInputSizes s =
     (let circ = None; oPeerInputSizes = []
      in if slices_Compare peerInputSizes oPeerInputSizes \<noteq> 0 then
           (let s' = s\<lparr>trace := trace s @ [Loaded circ_file inputSizes]\<rparr>
            in case loadCircuit E circ_file inputSizes of
                 (circ', Some e) \<Rightarrow> (Inl (Wrap ''in evaluator_fn()'' e), s')
               | (circ', None) \<Rightarrow> (Inr (circ', peerInputSizes), s'))
         else (Inr (circ, oPeerInputSizes), s))"

text \<open>The rest of \<^verbatim>\<open>evaluator_fn\<close> (library build), from the check of the party count.\<close>

definition evaluator_fn_run ::
  "'b env \<Rightarrow> network \<Rightarrow> string \<Rightarrow> string list \<Rightarrow> Circuit option \<times> 64 word list \<Rightarrow> session \<Rightarrow>
     (fault + bytes) \<times> session" where
  "evaluator_fn_run E net circ_file args locals s =
     (case fst locals of
        None \<Rightarrow> (Inl (Panic NilDereference), s)
      | Some circ \<Rightarrow>
          (if length (Inputs circ) \<noteq> 2 then (Inl (Error (InvalidParties (length (Inputs circ)))), s)
           else
     (case arg_Parse E (Inputs circ ! 1) args of
        Inl e \<Rightarrow> (Inl (Error (Wrap ''in evaluator_fn(), filepath=%s'' e)), s)
      | Inr input \<Rightarrow>
     (case Evaluator E net circ input s of
        (Inl (Panic p), s1) \<Rightarrow> (Inl (Panic p), s1)
      | (Inl (Error e), s1) \<Rightarrow>
          (if e \<noteq> EOF then (Inl (Error (Wrap ''in evaluator_fn(), filepath=%s'' e)), s1)
           else
             (case getResult E [] (Outputs circ) of
                Inl f \<Rightarrow> (Inl f, s1)
              | Inr val \<Rightarrow> (discriminate E circ_file val, s1)))
      | (Inr result, s1) \<Rightarrow>
          (case getResult E result (Outputs circ) of
             Inl f \<Rightarrow> (Inl f, s1)
           | Inr val \<Rightarrow> (discriminate E circ_file val, s1))))))"

definition evaluator_fn ::
  "'b env \<Rightarrow> network \<Rightarrow> string \<Rightarrow> string \<Rightarrow> string \<Rightarrow> string \<Rightarrow> string \<Rightarrow> string \<Rightarrow> string \<Rightarrow>
     (fault + bytes) \<times> event list" where
  "evaluator_fn E net circ_file hostport sid ui cc cnum ord =
     (let args = [ui, cc, cnum, ord]
      in case NewConn net False hostport sid of
           Inl e \<Rightarrow> (Inl (Error (Wrap ''in evaluator_fn()'' e)), [])
         | Inr c \<Rightarrow>
     (case exchange_sizes E net args ''in evaluator_fn()'' ''in evaluator_fn()''
             \<lparr>link = c, trace = []\<rparr> of
        (Inl e, s) \<Rightarrow> (Inl (Error e), trace s)
      | (Inr (myInputSizes, peerInputSizes), s) \<Rightarrow>
     (case evaluator_fn_load E circ_file [peerInputSizes, myInputSizes] peerInputSizes s of
        (Inl e, s1) \<Rightarrow> (Inl (Error e), trace s1)
      | (Inr locals, s1) \<Rightarrow>
          (case evaluator_fn_run E net circ_file args locals s1 of
             (res, s2) \<Rightarrow> (res, trace s2)))))"

text \<open>
  The command-line build of \<^verbatim>\<open>evaluator_fn\<close> differs after the guard: it prints the
  inputs first (\<^verbatim>\<open>circ.PrintInputs\<close>, which has no other effect) and returns the result
  buffer as it is.  On a \<^verbatim>\<open>nil\<close> circuit the print either dereferences it or returns,
  and then \<^verbatim>\<open>len(circ.Inputs)\<close> dereferences it.
\<close>

definition evaluator_fn_cli_run ::
  "'b env \<Rightarrow> network \<Rightarrow> string list \<Rightarrow> Circuit option \<times> 64 word list \<Rightarrow> session \<Rightarrow>
     (fault + bytes) \<times> session" where
  "evaluator_fn_cli_run E net args locals s =
     (case fst locals of
        None \<Rightarrow> (Inl (Panic NilDereference), s)
      | Some circ \<Rightarrow>
          (if length (Inputs circ) \<noteq> 2 then (Inl (Error (InvalidParties (length (Inputs circ)))), s)
           else
     (case arg_Parse E (Inputs circ ! 1) args of
        Inl e \<Rightarrow> (Inl (Error (Wrap ''in evaluator_fn(), filepath=%s'' e)), s)
      | Inr input \<Rightarrow>
     (case Evaluator E net circ input s of
        (Inl (Panic p), s1) \<Rightarrow> (Inl (Panic p), s1)
      | (Inl (Error e), s1) \<Rightarrow>
          (if e \<noteq> EOF then (Inl (Error (Wrap ''in evaluator_fn(), filepath=%s'' e)), s1)
           else (getResult E [] (Outputs circ), s1))
      | (Inr result, s1) \<Rightarrow> (getResult E result (Outputs circ), s1)))))"

definition evaluator_fn_cli ::
  "'b env \<Rightarrow> network \<Rightarrow> string \<Rightarrow> string \<Rightarrow> string list \<Rightarrow> string \<Rightarrow>
     (fault + bytes) \<times> event list" where
  "evaluator_fn_cli E net hostport sid args file =
     (case NewConn net False hostport sid of
        Inl e \<Rightarrow> (Inl (Error (Wrap ''in evaluator_fn()'' e)), [])
      | Inr c \<Rightarrow>
     (case exchange_sizes E net args ''in evaluator_fn()'' ''in evaluator_fn()''
             \<lparr>link = c, trace = []\<rparr> of
        (Inl e, s) \<Rightarrow> (Inl (Error e), trace s)
      | (Inr (myInputSizes, peerInputSizes), s) \<Rightarrow>
     (case evaluator_fn_load E file [peerInputSizes, myInputSizes] peerInputSizes s of
        (Inl e, s1) \<Rightarrow> (Inl (Error e), trace s1)
      | (Inr locals, s1) \<Rightarrow>
          (case evaluator_fn_cli_run E net args locals s1 of
             (res, s2) \<Rightarrow> (res, trace s2)))))"

text \<open>
  \<^verbatim>\<open>garbler_fn\<close> (library build).  After the exchange it stores the peer's sizes in
  \<^verbatim>\<open>inputSizes[0]\<close>, over its own; \<^verbatim>\<open>inputSizes[1]\<close> stays \<^verbatim>\<open>nil\<close>.  The circuit is
  loaded unconditionally.
\<close>

definition garbler_fn_run ::
  "'b env \<Rightarrow> network \<Rightarrow> string \<Rightarrow> string list \<Rightarrow> 64 word list \<Rightarrow> session \<Rightarrow>
     (fault + bytes) \<times> session" where
  "garbler_fn_run E net circ_file args peerInputSizes s =
     (let s1 = s\<lparr>trace := trace s @ [Loaded circ_file [peerInputSizes, []]]\<rparr>
      in case loadCircuit E circ_file [peerInputSizes, []] of
           (circ, Some e) \<Rightarrow> (Inl (Error (Wrap ''in garbler_fn()'' e)), s1)
         | (None, None) \<Rightarrow> (Inl (Panic NilDereference), s1)
         | (Some circ, None) \<Rightarrow>
             (if length (Inputs circ) \<noteq> 2
              then (Inl (Error (InvalidParties (length (Inputs circ)))), s1)
              else
     (case arg_Parse E (Inputs circ ! 0) args of
        Inl e \<Rightarrow> (Inl (Error (Wrap ''in garbler_fn(), filepath=%s'' e)), s1)
      | Inr input \<Rightarrow>
     (case Garbler E net circ input s1 of
        (Inl (Panic p), s2) \<Rightarrow> (Inl (Panic p), s2)
      | (Inl (Error e), s2) \<Rightarrow> (Inl (Error (Wrap ''in garbler_fn()'' e)), s2)
      | (Inr result, s2) \<Rightarrow>
          (case getResult E result (Outputs circ) of
             Inl f \<Rightarrow> (Inl f, s2)
           | Inr val \<Rightarrow> (discriminate E circ_file val, s2))))))"

definition garbler_fn ::
  "'b env \<Rightarrow> network \<Rightarrow> string \<Rightarrow> string \<Rightarrow> string \<Rightarrow> string \<Rightarrow> string \<Rightarrow> string \<Rightarrow> string \<Rightarrow>
     (fault + bytes) \<times> event list" where
  "garbler_fn E net circ_file hostport sid ui cc cnum ord =
     (let args = [ui, cc, cnum, ord]
      in case NewConn net True hostport sid of
           Inl e \<Rightarrow> (Inl (Error (Wrap ''in garbler_fn()'' e)), [])
         | Inr c \<Rightarrow>
     (case exchange_sizes E net args ''in garbler_fn()'' ''in evaluator_fn()''
             \<lparr>link = c, trace = []\<rparr> of
        (Inl e, s) \<Rightarrow> (Inl (Error e), trace s)
      | (Inr (myInputSizes, peerInputSizes), s) \<Rightarrow>
          (case garbler_fn_run E net circ_file args peerInputSizes s of
             (res, s1) \<Rightarrow> (res, trace s1))))"

section \<open>What a run does on its connection\<close>


section \<open>Calls the relay refuses\<close>

text \<open>
  A recorded call is refused when the relay answers it with an error: a send that
  \<^verbatim>\<open>MessengerClient.DirectSend\<close> fails, a receive that the relay fails.  A trace is
  heeded up to \<open>P\<close> when every refused call in it satisfies \<open>P\<close>.
\<close>

definition refused :: "network \<Rightarrow> event \<Rightarrow> bool" where
  "refused net ev =
     (case ev of
        Sent mid p \<Rightarrow> net_DirectSend net mid p \<noteq> None
      | Requested mid \<Rightarrow> (case net_DirectRecv net mid of Inl e \<Rightarrow> True | Inr p \<Rightarrow> False)
      | Loaded file sizes \<Rightarrow> False)"

definition inputs_send :: "event \<Rightarrow> bool" where
  "inputs_send ev = (case ev of Sent mid p \<Rightarrow> Topic mid = ''inputs'' | _ \<Rightarrow> False)"

definition heeded :: "(event \<Rightarrow> bool) \<Rightarrow> network \<Rightarrow> event list \<Rightarrow> bool" where
  "heeded P net tr \<longleftrightarrow> (\<forall>ev \<in> set tr. refused net ev \<longrightarrow> P ev)"

section \<open>crypto/elliptic: the curve P-256\<close>

text \<open>
  \<^verbatim>\<open>elliptic.P256()\<close> is the NIST curve \<open>y\<^sup>2 = x\<^sup>3 - 3x + b\<close> over the prime field of
  \<open>P\<close> elements, with base point \<open>G\<close> of prime order \<open>N\<close> (FIPS 186).  The library
  returns affine coordinates and \<open>(0, 0)\<close> for the point at infinity; the sum of
  two points is given by the chord-and-tangent rule, a scalar multiple by doubling
  and adding.
\<close>

definition p256_P :: int where
  "p256_P = 115792089210356248762697446949407573530086143415290314195533631308867097853951"

definition p256_N :: int where
  "p256_N = 115792089210356248762697446949407573529996955224135760342422259061068512044369"

definition p256_B :: int where
  "p256_B = 41058363725152142129326129780047268409114441015993725554835256314039467401291"

definition p256_Gx :: int where
  "p256_Gx = 48439561293906451759052585252797914202762949526041747995844080717082404635286"

definition p256_Gy :: int where
  "p256_Gy = 36134250956749795798585127919587881956611106672985015071877198253568414405109"

fun power_mod :: "int \<Rightarrow> nat \<Rightarrow> int \<Rightarrow> int" where
  "power_mod x n p =
     (if n = 0 then 1 mod p
      else (let h = power_mod x (n div 2) p; sq = h * h mod p
            in if odd n then sq * x mod p else sq))"

declare power_mod.simps [simp del]

definition p256_inverse :: "int \<Rightarrow> int" where
  "p256_inverse x = power_mod x (nat (p256_P - 2)) p256_P"

definition p256_IsOnCurve :: "point \<Rightarrow> bool" where
  "p256_IsOnCurve Q \<longleftrightarrow>
     0 \<le> fst Q \<and> fst Q < p256_P \<and> 0 \<le> snd Q \<and> snd Q < p256_P \<and>
     (snd Q * snd Q) mod p256_P = (fst Q * fst Q * fst Q - 3 * fst Q + p256_B) mod p256_P"

definition p256_add :: "point \<Rightarrow> point \<Rightarrow> point" where
  "p256_add Q R =
     (if Q = infinity then R
      else if R = infinity then Q
      else if fst Q = fst R \<and> (snd Q + snd R) mod p256_P = 0 then infinity
      else
        (let l = (if fst Q = fst R
                  then (3 * fst Q * fst Q - 3) * p256_inverse (2 * snd Q)
                  else (snd R - snd Q) * p256_inverse (fst R - fst Q)) mod p256_P;
             x3 = (l * l - fst Q - fst R) mod p256_P;
             y3 = (l * (fst Q - x3) - snd Q) mod p256_P
         in (x3, y3)))"

fun p256_mult :: "nat \<Rightarrow> point \<Rightarrow> point" where
  "p256_mult k Q =
     (if k = 0 then infinity
      else (let H = p256_mult (k div 2) Q; D = p256_add H H
            in if odd k then p256_add D Q else D))"

declare p256_mult.simps [simp del]

definition p256 :: curve where
  "p256 = \<lparr>Params_P = p256_P, Params_N = p256_N, Params_Gx = p256_Gx, Params_Gy = p256_Gy,
     IsOnCurve = p256_IsOnCurve,
     group_add = p256_add,
     group_mult = (\<lambda>Q k. p256_mult (nat (SetBytes k)) Q),
     ScalarBaseMult = (\<lambda>k. p256_mult (nat (SetBytes k)) (p256_Gx, p256_Gy))\<rparr>"

text \<open>
  A stand-in for the key derivation, of the right shape: sixteen bytes, the low
  bytes of the two coordinates and of the counter.
\<close>

definition kdf16 :: kdf where
  "kdf16 x y i =
     (case (x, y) of
        (Some u, Some v) \<Rightarrow> replicate 8 (of_int u) @ replicate 7 (of_int v) @ [of_nat i]
      | _ \<Rightarrow> replicate 16 0)"

text \<open>
  A transfer on P-256 in which both parties draw the scalar 1: the sender's point is
  \<open>A = G\<close>, and \<open>A\<close> taken \<open>a\<close> times and negated is \<open>-G\<close>.  The first message, of
  40 bytes, is longer than a mask.
\<close>

definition long_message :: bytes where
  "long_message =
     [1, 2, 3, 4, 5, 6, 7, 8, 9, 10, 11, 12, 13, 14, 15, 16, 17, 18, 19, 20,
      21, 22, 23, 24, 25, 26, 27, 28, 29, 30, 31, 32, 33, 34, 35, 36, 37, 38, 39, 40]"

definition p256_sender :: COSenderXfer where
  "p256_sender = \<lparr>s_curve = p256, s_m0 = long_message, s_m1 = [], s_a = 1,
     s_Ax = p256_Gx, s_Ay = p256_Gy, s_AaInvx = p256_Gx, s_AaInvy = p256_P - p256_Gy,
     s_e0 = [], s_e1 = []\<rparr>"

definition p256_receiver :: "64 word \<Rightarrow> COReceiverXfer" where
  "p256_receiver c = \<lparr>r_curve = p256, r_bit = c, r_b = 1,
     r_Bx = None, r_By = None, r_Asx = None, r_Asy = None\<rparr>"

section \<open>A three-point instance of the curve interface\<close>

definition toy_index :: "point \<Rightarrow> nat" where
  "toy_index Q = (if Q = (1, 2) then 1 else if Q = (1, 3) then 2 else 0)"

definition toy_point :: "nat \<Rightarrow> point" where
  "toy_point k = (if k mod 3 = 1 then (1, 2) else if k mod 3 = 2 then (1, 3) else (0, 0))"

definition toy_curve :: curve where
  "toy_curve = \<lparr>Params_P = 5, Params_N = 3, Params_Gx = 1, Params_Gy = 2,
     IsOnCurve = (\<lambda>Q. Q = (1, 2) \<or> Q = (1, 3)),
     group_add = (\<lambda>Q R. toy_point (toy_index Q + toy_index R)),
     group_mult = (\<lambda>Q k. toy_point (toy_index Q * nat (SetBytes k))),
     ScalarBaseMult = (\<lambda>k. toy_point (nat (SetBytes k)))\<rparr>"

definition toy_kdf :: kdf where
  "toy_kdf x y i =
     [case x of None \<Rightarrow> 0 | Some v \<Rightarrow> of_int v, case y of None \<Rightarrow> 0 | Some v \<Rightarrow> of_int v]"


definition toy_receiver :: COReceiverXfer where
  "toy_receiver = \<lparr>r_curve = toy_curve, r_bit = 1, r_b = 2,
     r_Bx = None, r_By = None, r_Asx = None, r_Asy = None\<rparr>"

section \<open>A one-gate session\<close>

text \<open>
  A circuit with one XOR gate: one input bit per party on wires 0 and 1, the
  output on wire 2.  The wire labels follow the free-XOR rule with offset 1.  The
  collaborators are stand-ins of the right types: the transfer helpers pass the
  chosen label through without encryption.
\<close>

definition toy_circuit :: Circuit where
  "toy_circuit = \<lparr>NumGates = 1, NumWires = 3,
     Inputs = [\<lparr>Bits = 1\<rparr>, \<lparr>Bits = 1\<rparr>], Outputs = [\<lparr>Bits = 1\<rparr>]\<rparr>"

definition toy_garbled :: Garbled where
  "toy_garbled = \<lparr>Gates = [[]],
     Wires = [\<lparr>L0 = 2, L1 = 3\<rparr>, \<lparr>L0 = 4, L1 = 5\<rparr>, \<lparr>L0 = 6, L1 = 7\<rparr>],
     Wires_spare = []\<rparr>"

definition toy_env :: "bool list env" where
  "toy_env = \<lparr>
     rand_Read = Inr (replicate 32 0),
     Garble = (\<lambda>circ key. Inr toy_garbled),
     LabelForBit = (\<lambda>w b. if b then L1 w else L0 w),
     BitFromLabel = (\<lambda>w l. if l = L0 w then Inr False else if l = L1 w then Inr True
                            else Inl (Opaque ''invalid label'')),
     Size = (\<lambda>io. of_nat (length io)),
     Split = (\<lambda>io n. [n]),
     Eval = (\<lambda>circ key wires gates. Inr (take 2 wires @ [(wires ! 0) XOR (wires ! 1)])),
     GenerateCOSenderSetup = Inr \<lparr>setup_Ax = [1], setup_Ay = [3], setup_a = 2\<rparr>,
     EncryptCOCiphertexts = (\<lambda>setup points wires. Inr (map (\<lambda>w. (L0 w, L1 w)) wires)),
     BuildCOChoices = (\<lambda>x y flags. Inr (flags, map (\<lambda>f. \<lparr>pt_X = [1], pt_Y = [2]\<rparr>) flags)),
     DecryptCOCiphertexts = (\<lambda>flags cts. Inr (map2 (\<lambda>f ct. if f then snd ct else fst ct) flags cts)),
     InputSizes = (\<lambda>args. Inr (map (\<lambda>a. 1) args)),
     circuit_IsFilename = (\<lambda>file. False),
     circuit_Parse = (\<lambda>file. (None, None)),
     compiler_IsFilename = (\<lambda>file. True),
     CompileFile = (\<lambda>file sizes. (Some toy_circuit, None)),
     AssignLevels = (\<lambda>circ. circ),
     arg_Parse = (\<lambda>arg args. Inr 1),
     Results = (\<lambda>results io. [RBytes (1 # map of_int results)]),
     Wire_index = uint,
     filepath_Abs = Inr,
     append_spare = (\<lambda>wires n. [])\<rparr>"

text \<open>
  A relay that answers every receive by the message the other party of the
  one-gate session sends under that topic, and accepts every send.
\<close>

definition toy_answer :: "string \<Rightarrow> err + payload list" where
  "toy_answer topic =
     (if topic = ''input sizes'' then Inr [PInts [1, 1, 1, 1]]
      else if topic = ''ephemeral key'' then Inr [PKey (replicate 32 0)]
      else if topic = ''garbled gates'' then Inr [PGates [[]]]
      else if topic = ''inputs'' then Inr [PLabels [3]]
      else if topic = ''ot query'' then Inr [PQuery 1 1]
      else if topic = ''setup.Ax,Ay'' then Inr [PPoint \<lparr>pt_X = [1], pt_Y = [3]\<rparr>]
      else if topic = ''co choices'' then Inr [PPoints [\<lparr>pt_X = [1], pt_Y = [2]\<rparr>]]
      else if topic = ''ot ciphertexts'' then Inr [PCiphertexts [(4, 5)]]
      else if topic = ''result labels'' then Inr [PLabels [6]]
      else if topic = ''result'' then Inr [PBigInt 0]
      else Inl (Opaque ''timeout''))"

definition toy_net :: network where
  "toy_net = \<lparr>
     net_Connect = (\<lambda>hostport. None),
     net_NewSession = Inr ''fresh'',
     net_DirectSend = (\<lambda>mid p. None),
     net_DirectRecv = (\<lambda>mid. toy_answer (Topic mid)),
     net_Exchange = None\<rparr>"

text \<open>The same relay, except that it fails the send of the garbler's input labels.\<close>

definition lossy_net :: network where
  "lossy_net = toy_net\<lparr>
     net_DirectSend := (\<lambda>mid p. if Topic mid = ''inputs'' then Some (Opaque ''unavailable'') else None),
     net_Exchange := Some (Opaque ''unavailable'')\<rparr>"

text \<open>The same relay, except that it fails the send and the receive of the result.\<close>

definition broken_net :: network where
  "broken_net = toy_net\<lparr>
     net_DirectSend := (\<lambda>mid p. if Topic mid = ''result'' then Some (Opaque ''unavailable'') else None),
     net_DirectRecv := (\<lambda>mid. if Topic mid = ''result'' then Inl (Opaque ''unavailable'')
                               else toy_answer (Topic mid))\<rparr>"

text \<open>The same relay, except that the evaluator asks for one wire too many.\<close>

definition overlong_net :: network where
  "overlong_net = toy_net\<lparr>
     net_DirectRecv := (\<lambda>mid. if Topic mid = ''ot query'' then Inr [PQuery 1 2]
                               else toy_answer (Topic mid))\<rparr>"

text \<open>The same relay, except that the peer announces no input sizes.\<close>

definition silent_net :: network where
  "silent_net = toy_net\<lparr>
     net_DirectRecv := (\<lambda>mid. if Topic mid = ''input sizes'' then Inr [PInts []]
                               else toy_answer (Topic mid))\<rparr>"

text \<open>The same collaborators, except that the MPCL program reports error 7.\<close>

definition failing_env :: "bool list env" where
  "failing_env = toy_env\<lparr>Results := (\<lambda>results io. [RBytes [0, 7]])\<rparr>"

text \<open>The same collaborators, except that the result buffer holds the byte 0 alone.\<close>

definition short_env :: "bool list env" where
  "short_env = toy_env\<lparr>Results := (\<lambda>results io. [RBytes [0]])\<rparr>"

definition garbler_conn :: Conn where
  "garbler_conn = \<lparr>conn = \<lparr>SessionId = ''s''\<rparr>, je = 1, tu = 2, nsend = 0, nrecv = 0\<rparr>"

definition evaluator_conn :: Conn where
  "evaluator_conn = \<lparr>conn = \<lparr>SessionId = ''s''\<rparr>, je = 2, tu = 1, nsend = 0, nrecv = 0\<rparr>"

section \<open>Facts about the byte encoding and the curve contract\<close>

lemma foldl_be_bytes:
  "foldl (\<lambda>acc b. acc * 256 + unat (b::byte)) 0 (be_bytes n) = n"
proof (induction n rule: be_bytes.induct)
  case (1 n)
  show ?case
  proof (cases "n = 0")
    case True
    then show ?thesis by (simp add: be_bytes.simps)
  next
    case False
    have "unat (of_nat (n mod 256) :: byte) = n mod 256"
      by (simp add: unat_of_nat)
    with False 1 show ?thesis
      by (subst be_bytes.simps) simp
  qed
qed

lemma SetBytes_Bytes: "0 \<le> x \<Longrightarrow> SetBytes (Bytes x) = x"
  by (simp add: SetBytes_def Bytes_def foldl_be_bytes)

lemma contract_accepted_Add:
  "curve_contract C \<Longrightarrow> accepted C Q \<Longrightarrow> accepted C R \<Longrightarrow> accepted C (group_add C Q R)"
  unfolding curve_contract_def by blast

lemma contract_Add_commute:
  "curve_contract C \<Longrightarrow> accepted C Q \<Longrightarrow> accepted C R \<Longrightarrow> group_add C Q R = group_add C R Q"
  unfolding curve_contract_def by blast

lemma contract_Add_assoc:
  "curve_contract C \<Longrightarrow> accepted C Q \<Longrightarrow> accepted C R \<Longrightarrow> accepted C S \<Longrightarrow>
     group_add C (group_add C Q R) S = group_add C Q (group_add C R S)"
  unfolding curve_contract_def by blast

lemma contract_Add_infinity:
  "curve_contract C \<Longrightarrow> accepted C Q \<Longrightarrow> group_add C Q infinity = Q"
  unfolding curve_contract_def by blast

lemma contract_ScalarMult:
  "curve_contract C \<Longrightarrow> accepted C Q \<Longrightarrow> group_mult C Q k = k_fold C (nat (SetBytes k)) Q"
  unfolding curve_contract_def by blast

lemma contract_base_accepted:
  "curve_contract C \<Longrightarrow> accepted C (Params_Gx C, Params_Gy C)"
  unfolding curve_contract_def accepted_def by blast

lemma contract_ScalarBaseMult:
  "curve_contract C \<Longrightarrow>
     ScalarBaseMult C k = k_fold C (nat (SetBytes k)) (Params_Gx C, Params_Gy C)"
proof -
  assume C: "curve_contract C"
  then have "ScalarBaseMult C k = group_mult C (Params_Gx C, Params_Gy C) k"
    unfolding curve_contract_def by blast
  with C show ?thesis
    by (simp add: contract_ScalarMult contract_base_accepted)
qed

lemma contract_negate:
  "curve_contract C \<Longrightarrow> IsOnCurve C Q \<Longrightarrow>
     IsOnCurve C (negate C Q) \<and> group_add C Q (negate C Q) = infinity"
  unfolding curve_contract_def by blast

lemma contract_coordinates:
  "curve_contract C \<Longrightarrow> accepted C Q \<Longrightarrow> 0 \<le> fst Q \<and> 0 \<le> snd Q"
proof -
  assume C: "curve_contract C" and "accepted C Q"
  then consider "IsOnCurve C Q" | "Q = (0, 0)"
    by (auto simp: accepted_def infinity_def)
  then show ?thesis
  proof cases
    case 1
    with C show ?thesis unfolding curve_contract_def by blast
  next
    case 2
    then show ?thesis by simp
  qed
qed

lemma contract_order:
  "curve_contract C \<Longrightarrow>
     k_fold C k (Params_Gx C, Params_Gy C) = infinity \<longleftrightarrow> Params_N C dvd int k"
  unfolding curve_contract_def by blast

lemma contract_prime: "curve_contract C \<Longrightarrow> is_prime (Params_N C)"
  unfolding curve_contract_def by blast

lemma accepted_infinity: "accepted C infinity"
  by (simp add: accepted_def)

lemma accepted_k_fold:
  "curve_contract C \<Longrightarrow> accepted C Q \<Longrightarrow> accepted C (k_fold C k Q)"
  by (induction k) (simp_all add: accepted_infinity contract_accepted_Add)

lemma k_fold_sum:
  assumes "curve_contract C" "accepted C Q"
  shows "k_fold C (j + k) Q = group_add C (k_fold C j Q) (k_fold C k Q)"
proof (induction k)
  case 0
  show ?case using assms by (simp add: contract_Add_infinity accepted_k_fold)
next
  case (Suc k)
  have "k_fold C (j + Suc k) Q = group_add C (group_add C (k_fold C j Q) (k_fold C k Q)) Q"
    using Suc by simp
  also have "\<dots> = group_add C (k_fold C j Q) (group_add C (k_fold C k Q) Q)"
    using assms by (simp add: contract_Add_assoc accepted_k_fold)
  finally show ?case by simp
qed

lemma k_fold_Add:
  assumes "curve_contract C" "accepted C Q" "accepted C R"
  shows "k_fold C k (group_add C Q R) = group_add C (k_fold C k Q) (k_fold C k R)"
proof (induction k)
  case 0
  show ?case using assms by (simp add: contract_Add_infinity accepted_infinity)
next
  case (Suc k)
  let ?q = "k_fold C k Q" and ?r = "k_fold C k R"
  have acc: "accepted C ?q" "accepted C ?r" "accepted C (group_add C Q R)" "accepted C (group_add C ?r Q)"
    "accepted C (group_add C Q ?r)"
    using assms by (simp_all add: accepted_k_fold contract_accepted_Add)
  have "k_fold C (Suc k) (group_add C Q R) = group_add C (group_add C ?q ?r) (group_add C Q R)"
    using Suc by simp
  also have "\<dots> = group_add C ?q (group_add C ?r (group_add C Q R))"
    using assms acc by (simp add: contract_Add_assoc)
  also have "group_add C ?r (group_add C Q R) = group_add C (group_add C ?r Q) R"
    using assms acc by (simp add: contract_Add_assoc)
  also have "group_add C ?r Q = group_add C Q ?r"
    using assms acc by (simp add: contract_Add_commute)
  also have "group_add C (group_add C Q ?r) R = group_add C Q (group_add C ?r R)"
    using assms acc by (simp add: contract_Add_assoc)
  also have "group_add C ?q (group_add C Q (group_add C ?r R)) = group_add C (group_add C ?q Q) (group_add C ?r R)"
    using assms acc by (simp add: contract_Add_assoc contract_accepted_Add)
  finally show ?case by simp
qed

lemma k_fold_k_fold:
  assumes "curve_contract C" "accepted C Q"
  shows "k_fold C k (k_fold C j Q) = k_fold C (j * k) Q"
proof (induction k)
  case 0
  show ?case by simp
next
  case (Suc k)
  have "k_fold C (Suc k) (k_fold C j Q) = group_add C (k_fold C (j * k) Q) (k_fold C j Q)"
    using Suc by simp
  also have "\<dots> = k_fold C (j * k + j) Q"
    using assms by (simp add: k_fold_sum)
  finally show ?case by (simp add: add.commute)
qed

lemma is_prime_dvd_mult:
  assumes "is_prime n" "n dvd a * b"
  shows "n dvd a \<or> n dvd b"
proof (cases "n dvd a")
  case True
  then show ?thesis by simp
next
  case False
  let ?g = "gcd n a"
  have n1: "1 < n" and nodiv: "\<And>d. 2 \<le> d \<Longrightarrow> d < n \<Longrightarrow> \<not> d dvd n"
    using assms(1) by (auto simp: is_prime_def)
  have g_dvd: "?g dvd n" "?g dvd a" by simp_all
  have g_pos: "0 < ?g" using n1 by simp
  have g_le: "?g \<le> n" using g_dvd(1) n1 by (simp add: zdvd_imp_le)
  have "?g \<noteq> n"
  proof
    assume "?g = n"
    with g_dvd(2) have "n dvd a" by simp
    with False show False by simp
  qed
  with g_le have "?g < n" by simp
  with nodiv [of ?g] g_dvd(1) have "?g < 2" by force
  with g_pos have "?g = 1" by linarith
  then have "coprime n a" by (simp add: coprime_iff_gcd_eq_1)
  with assms(2) show ?thesis by (simp add: coprime_dvd_mult_right_iff)
qed

lemma is_prime_not_dvd_square:
  assumes "is_prime n" "0 < a" "a < n"
  shows "\<not> n dvd a * a"
proof
  assume "n dvd a * a"
  then have "n dvd a" using is_prime_dvd_mult [OF assms(1)] by blast
  with assms(2,3) show False by (simp add: zdvd_not_zless)
qed

lemma xor_bytes_twice:
  "xor_bytes k (xor_bytes k m) = take (length k) m"
proof (induction k arbitrary: m)
  case Nil
  then show ?case by (simp add: xor_bytes_def)
next
  case (Cons x k)
  then show ?case
    by (cases m) (simp_all add: xor_bytes_def)
qed

lemma xor_bytes_involution:
  "length m \<le> length k \<Longrightarrow> xor_bytes k (xor_bytes k m) = m"
  by (simp add: xor_bytes_twice)

text \<open>The algebra of one transfer.\<close>

lemma sender_key_points:
  assumes C: "curve_contract C" and a: "0 < a" "a < Params_N C" and b: "0 \<le> b"
  defines "G \<equiv> (Params_Gx C, Params_Gy C)"
  defines "A \<equiv> ScalarBaseMult C (Bytes a)"
  defines "Aa \<equiv> group_mult C A (Bytes a)"
  defines "B0 \<equiv> ScalarBaseMult C (Bytes b)"
  defines "As \<equiv> group_mult C A (Bytes b)"
  shows "accepted C A" and "accepted C B0" and "accepted C (group_add C B0 A)"
    and "group_mult C B0 (Bytes a) = As"
    and "group_add C (group_mult C (group_add C B0 A) (Bytes a)) (fst Aa, Params_P C - snd Aa) = As"
    and "accepted C As" and "accepted C (fst Aa, Params_P C - snd Aa)"
    and "accepted C (group_mult C (group_add C B0 A) (Bytes a))"
proof -
  have accG: "accepted C G" using C by (simp add: G_def contract_base_accepted)
  have A: "A = k_fold C (nat a) G"
    using C a by (simp add: A_def G_def contract_ScalarBaseMult SetBytes_Bytes)
  have B0: "B0 = k_fold C (nat b) G"
    using C b by (simp add: B0_def G_def contract_ScalarBaseMult SetBytes_Bytes)
  show accA: "accepted C A" using C accG by (simp add: A accepted_k_fold)
  show accB0: "accepted C B0" using C accG by (simp add: B0 accepted_k_fold)
  show accB: "accepted C (group_add C B0 A)"
    using C accA accB0 by (simp add: contract_accepted_Add)
  have Aa: "Aa = k_fold C (nat a * nat a) G"
    using C a accA accG by (simp add: Aa_def contract_ScalarMult SetBytes_Bytes A k_fold_k_fold)
  have As: "As = k_fold C (nat a * nat b) G"
    using C a b accA accG by (simp add: As_def contract_ScalarMult SetBytes_Bytes A k_fold_k_fold)
  have aB0: "group_mult C B0 (Bytes a) = k_fold C (nat b * nat a) G"
    using C a accB0 accG by (simp add: contract_ScalarMult SetBytes_Bytes B0 k_fold_k_fold)
  then show s0: "group_mult C B0 (Bytes a) = As"
    by (simp add: As mult.commute)
  have accAa: "accepted C Aa" and accAs: "accepted C As"
    using C accG by (simp_all add: Aa As accepted_k_fold)
  have "\<not> Params_N C dvd a * a"
    using is_prime_not_dvd_square [OF contract_prime [OF C] a] .
  moreover have "int (nat a * nat a) = a * a" using a by simp
  ultimately have "Aa \<noteq> infinity"
    using contract_order [OF C, of "nat a * nat a"] by (simp add: Aa G_def)
  with accAa have onAa: "IsOnCurve C Aa" by (simp add: accepted_def)
  have neg: "(fst Aa, Params_P C - snd Aa) = negate C Aa" by (simp add: negate_def)
  have accNeg: "accepted C (negate C Aa)" and inv: "group_add C Aa (negate C Aa) = infinity"
    using contract_negate [OF C onAa] by (simp_all add: accepted_def)
  have "group_mult C (group_add C B0 A) (Bytes a) = k_fold C (nat a) (group_add C B0 A)"
    using C a accB by (simp add: contract_ScalarMult SetBytes_Bytes)
  also have "\<dots> = group_add C (k_fold C (nat a) B0) (k_fold C (nat a) A)"
    using C accB0 accA by (simp add: k_fold_Add)
  also have "k_fold C (nat a) B0 = As"
    using s0 C a accB0 by (simp add: contract_ScalarMult SetBytes_Bytes)
  also have "k_fold C (nat a) A = Aa"
    using C a accA by (simp add: Aa_def contract_ScalarMult SetBytes_Bytes)
  finally have "group_add C (group_mult C (group_add C B0 A) (Bytes a)) (negate C Aa)
      = group_add C (group_add C As Aa) (negate C Aa)" by simp
  also have "\<dots> = group_add C As (group_add C Aa (negate C Aa))"
    using C accAs accAa accNeg by (simp add: contract_Add_assoc)
  also have "\<dots> = As"
    using C accAs by (simp add: inv contract_Add_infinity)
  finally show "group_add C (group_mult C (group_add C B0 A) (Bytes a)) (fst Aa, Params_P C - snd Aa) = As"
    by (simp add: neg)
  show "accepted C As" by (rule accAs)
  show "accepted C (fst Aa, Params_P C - snd Aa)" using accNeg by (simp add: neg)
  show "accepted C (group_mult C (group_add C B0 A) (Bytes a))"
    using C a accB by (simp add: contract_ScalarMult SetBytes_Bytes accepted_k_fold)
qed


lemma toy_index_point: "toy_index (toy_point k) = k mod 3"
  by (simp add: toy_index_def toy_point_def) presburger

lemma toy_point_mod: "toy_point (k mod 3) = toy_point k"
  by (simp add: toy_point_def)

lemma toy_point_cong: "j mod 3 = k mod 3 \<Longrightarrow> toy_point j = toy_point k"
  by (simp add: toy_point_def)

lemma toy_accepted: "accepted toy_curve Q \<longleftrightarrow> Q = (0, 0) \<or> Q = (1, 2) \<or> Q = (1, 3)"
  by (auto simp: accepted_def toy_curve_def infinity_def)

lemma toy_accepted_point: "accepted toy_curve (toy_point k)"
  by (simp add: toy_accepted toy_point_def)

lemma toy_point_index: "accepted toy_curve Q \<Longrightarrow> toy_point (toy_index Q) = Q"
  by (auto simp: toy_accepted toy_index_def toy_point_def)

lemma toy_k_fold: "k_fold toy_curve k Q = toy_point (toy_index Q * k)"
proof (induction k)
  case 0
  show ?case by (simp add: infinity_def toy_point_def)
next
  case (Suc k)
  have "k_fold toy_curve (Suc k) Q = toy_point ((toy_index Q * k) mod 3 + toy_index Q)"
    using Suc by (simp add: toy_curve_def toy_index_point)
  also have "\<dots> = toy_point (toy_index Q * Suc k)"
    by (rule toy_point_cong) (simp add: mod_add_left_eq, simp add: add.commute)
  finally show ?case .
qed

lemma toy_curve_contract: "curve_contract toy_curve"
proof -
  have p: "is_prime (Params_N toy_curve)"
  proof -
    have "\<not> d dvd 3" if "2 \<le> d" "d < 3" for d :: int
    proof -
      from that have "d = 2" by simp
      then show ?thesis by simp
    qed
    then show ?thesis by (simp add: is_prime_def toy_curve_def)
  qed
  have g: "IsOnCurve toy_curve (Params_Gx toy_curve, Params_Gy toy_curve)"
    by (simp add: toy_curve_def)
  have co: "\<forall>Q. IsOnCurve toy_curve Q \<longrightarrow> 0 \<le> fst Q \<and> 0 \<le> snd Q"
    by (auto simp: toy_curve_def)
  have ng: "\<forall>Q. IsOnCurve toy_curve Q \<longrightarrow>
      IsOnCurve toy_curve (negate toy_curve Q) \<and> group_add toy_curve Q (negate toy_curve Q) = infinity"
    by (auto simp: toy_curve_def negate_def toy_index_def toy_point_def infinity_def)
  have add: "group_add toy_curve Q R = toy_point (toy_index Q + toy_index R)" for Q R
    by (simp add: toy_curve_def)
  have cl: "\<forall>Q R. accepted toy_curve Q \<and> accepted toy_curve R \<longrightarrow> accepted toy_curve (group_add toy_curve Q R)"
    by (simp add: add toy_accepted_point)
  have cm: "\<forall>Q R. accepted toy_curve Q \<and> accepted toy_curve R \<longrightarrow> group_add toy_curve Q R = group_add toy_curve R Q"
    by (simp add: add add.commute)
  have as: "\<forall>Q R S. accepted toy_curve Q \<and> accepted toy_curve R \<and> accepted toy_curve S \<longrightarrow>
        group_add toy_curve (group_add toy_curve Q R) S = group_add toy_curve Q (group_add toy_curve R S)"
  proof (intro allI impI)
    fix Q R S
    show "group_add toy_curve (group_add toy_curve Q R) S = group_add toy_curve Q (group_add toy_curve R S)"
      unfolding add toy_index_point
      by (rule toy_point_cong) (simp add: mod_add_left_eq mod_add_right_eq add.assoc)
  qed
  have ne: "\<forall>Q. accepted toy_curve Q \<longrightarrow> group_add toy_curve Q infinity = Q"
    by (auto simp: add toy_accepted toy_index_def toy_point_def infinity_def)
  have sm: "\<forall>Q k. accepted toy_curve Q \<longrightarrow>
      group_mult toy_curve Q k = k_fold toy_curve (nat (SetBytes k)) Q"
    by (simp add: toy_k_fold) (simp add: toy_curve_def)
  have sb: "\<forall>k. ScalarBaseMult toy_curve k
      = group_mult toy_curve (Params_Gx toy_curve, Params_Gy toy_curve) k"
    by (simp add: toy_curve_def toy_index_def)
  have od: "\<forall>k. k_fold toy_curve k (Params_Gx toy_curve, Params_Gy toy_curve) = infinity
      \<longleftrightarrow> Params_N toy_curve dvd int k"
  proof
    fix k :: nat
    have "toy_point k = (0, 0) \<longleftrightarrow> k mod 3 = 0"
      by (simp add: toy_point_def) presburger
    also have "\<dots> \<longleftrightarrow> (3::int) dvd int k"
      by presburger
    finally show "k_fold toy_curve k (Params_Gx toy_curve, Params_Gy toy_curve) = infinity
      \<longleftrightarrow> Params_N toy_curve dvd int k"
      by (simp add: toy_k_fold infinity_def) (simp add: toy_curve_def toy_index_def)
  qed
  from p g co ng cl cm as ne sm sb od show ?thesis
    unfolding curve_contract_def by blast
qed

lemma Add_accepted:
  "accepted C Q \<Longrightarrow> accepted C R \<Longrightarrow> Add C Q R = Inr (group_add C Q R)"
  by (simp add: Add_def)

lemma ScalarMult_accepted:
  "accepted C Q \<Longrightarrow> ScalarMult C Q k = Inr (group_mult C Q k)"
  by (simp add: ScalarMult_def)



lemma p256_add_infinity_left: "p256_add infinity Q = Q"
  by (simp add: p256_add_def)


lemma p256_mult_0: "p256_mult 0 Q = infinity"
  by (simp add: p256_mult.simps)

lemma p256_mult_1: "p256_mult (Suc 0) Q = Q"
  by (subst p256_mult.simps) (simp add: p256_mult_0 p256_add_infinity_left)

lemma p256_G_equation:
  "p256_Gx * p256_Gx * p256_Gx - 3 * p256_Gx + p256_B =
     p256_Gy * p256_Gy +
     981570988164258562257936101525215858910690391106138407341175333813841188485201771743408849884010754226965632845910189239885256093057339116530079505515608 * p256_P"
  by (simp add: p256_Gx_def p256_Gy_def p256_P_def p256_B_def)

lemma p256_minus_G_equation:
  "p256_Gx * p256_Gx * p256_Gx - 3 * p256_Gx + p256_B =
     (p256_P - p256_Gy) * (p256_P - p256_Gy) +
     981570988164258562257936101525215858910690391106138407341175333813841188485158248156111993226845227035855401036293325309815935809005559881728349236471875 * p256_P"
  by (simp add: p256_Gx_def p256_Gy_def p256_P_def p256_B_def)

lemma p256_ranges:
  "0 \<le> p256_Gx" "p256_Gx < p256_P" "0 \<le> p256_Gy" "p256_Gy < p256_P"
  "0 \<le> p256_P - p256_Gy" "p256_P - p256_Gy < p256_P" "0 < p256_B" "p256_B < p256_P"
  "p256_Gx \<noteq> 0" "0 < p256_P"
  by (simp_all add: p256_Gx_def p256_Gy_def p256_P_def p256_B_def)

lemma p256_G_on_curve: "IsOnCurve p256 (p256_Gx, p256_Gy)"
proof -
  have "(p256_Gy * p256_Gy) mod p256_P =
      (p256_Gx * p256_Gx * p256_Gx - 3 * p256_Gx + p256_B) mod p256_P"
    by (simp only: p256_G_equation mod_mult_self1)
  then show ?thesis
    using p256_ranges by (simp add: p256_def p256_IsOnCurve_def)
qed

lemma p256_minus_G_on_curve: "IsOnCurve p256 (p256_Gx, p256_P - p256_Gy)"
proof -
  have "((p256_P - p256_Gy) * (p256_P - p256_Gy)) mod p256_P =
      (p256_Gx * p256_Gx * p256_Gx - 3 * p256_Gx + p256_B) mod p256_P"
    by (simp only: p256_minus_G_equation mod_mult_self1)
  then show ?thesis
    using p256_ranges by (simp add: p256_def p256_IsOnCurve_def)
qed


lemma p256_G_minus_G: "group_add p256 (p256_Gx, p256_Gy) (p256_Gx, p256_P - p256_Gy) = infinity"
proof -
  have "(p256_Gy + (p256_P - p256_Gy)) mod p256_P = 0" by simp
  then show ?thesis
    using p256_ranges by (simp add: p256_def p256_add_def infinity_def)
qed

lemma Bytes_1: "Bytes 1 = [1]"
  by (simp add: Bytes_def be_bytes.simps)

lemma SetBytes_1: "SetBytes [1] = 1"
  by (simp add: SetBytes_def)


lemma p256_group_mult_1: "group_mult p256 Q (Bytes 1) = Q"
  by (simp add: p256_def Bytes_1 SetBytes_1 p256_mult_1)

lemma p256_ScalarBaseMult_1: "ScalarBaseMult p256 (Bytes 1) = (p256_Gx, p256_Gy)"
  by (simp add: p256_def Bytes_1 SetBytes_1 p256_mult_1)

lemma p256_coordinates: "0 \<le> p256_Gx" "0 \<le> p256_Gy" "0 \<le> p256_P - p256_Gy"
  using p256_ranges by simp_all

lemma length_kdf16: "length (kdf16 x y i) = 16"
  by (simp add: kdf16_def split: option.splits)
section \<open>Claims about the oblivious transfer\<close>

text \<open>
  Claim C1, as amended (round trip of one transfer).  The sender draws a scalar \<open>a\<close>
  with \<open>0 < a < N\<close> and creates a transfer for \<open>(m0, m1)\<close>; the receiver draws
  \<open>b \<ge> 0\<close>, creates a transfer for the selection bit \<open>c\<close> and is handed the sender's
  point through \<open>A()\<close>; the sender is handed the receiver's point through \<open>B()\<close> and
  the receiver the two ciphertexts through \<open>E()\<close>.  Then every step returns without
  a fault and \<open>ReceiveE\<close> returns the first \<open>n\<close> bytes of \<open>m0\<close> when \<open>c = 0\<close> and of
  \<open>m1\<close> otherwise, where \<open>n\<close> is the size of a mask: the chosen message itself when
  it is no longer than a mask.  The key derivation is an arbitrary function
  producing masks of the size \<open>n\<close>, the curve is any curve that keeps the library
  contract.
\<close>

theorem CO_single_transfer_roundtrip:
  assumes C: "curve_contract C"
    and S: "snd_curve S = C" "snd_rand S (Params_N C) = Inr a"
    and R: "rcv_curve R = C" "rcv_rand R (Params_N C) = Inr b"
    and a: "0 < a" "a < Params_N C" and b: "0 \<le> b"
    and mask: "\<And>x y i. length (deriveMask x y i) = n"
  shows "\<exists>s r r' Bx By s'.
      COSender_NewTransfer S m0 m1 = Inr s \<and>
      COReceiver_NewTransfer R c = Inr r \<and>
      COReceiverXfer_ReceiveA r (fst (COSenderXfer_A s)) (snd (COSenderXfer_A s)) = Inr r' \<and>
      COReceiverXfer_B r' = Inr (Bx, By) \<and>
      COSenderXfer_ReceiveB deriveMask s Bx By = Inr s' \<and>
      COReceiverXfer_ReceiveE deriveMask r' (fst (COSenderXfer_E s')) (snd (COSenderXfer_E s'))
        = take n (if c = 0 then m0 else m1) \<and>
      (length (if c = 0 then m0 else m1) \<le> n \<longrightarrow>
         COReceiverXfer_ReceiveE deriveMask r' (fst (COSenderXfer_E s')) (snd (COSenderXfer_E s'))
           = (if c = 0 then m0 else m1))"
proof -
  define A where "A = ScalarBaseMult C (Bytes a)"
  define Aa where "Aa = group_mult C A (Bytes a)"
  define B0 where "B0 = ScalarBaseMult C (Bytes b)"
  define As where "As = group_mult C A (Bytes b)"
  define B where "B = (if c \<noteq> 0 then group_add C B0 A else B0)"
  define aB where "aB = group_mult C B (Bytes a)"
  define AaInv where "AaInv = (fst Aa, Params_P C - snd Aa)"
  define ba where "ba = group_add C aB AaInv"
  note kp = sender_key_points [OF C a b]
  have accA: "accepted C A" using kp(1) by (simp add: A_def)
  have accB0: "accepted C B0" using kp(2) by (simp add: B0_def)
  have accB: "accepted C B" using kp(2,3) by (simp add: B_def B0_def A_def)
  have accaB: "accepted C aB"
    using kp(4,6,8) by (simp add: aB_def B_def B0_def A_def)
  have accInv: "accepted C AaInv" using kp(7) by (simp add: AaInv_def Aa_def A_def)
  have A_back: "(SetBytes (Bytes (fst A)), SetBytes (Bytes (snd A))) = A"
    using contract_coordinates [OF C accA] by (simp add: SetBytes_Bytes)
  have B_back: "(SetBytes (Bytes (fst B)), SetBytes (Bytes (snd B))) = B"
    using contract_coordinates [OF C accB] by (simp add: SetBytes_Bytes)
  define s where "s = \<lparr>s_curve = C, s_m0 = m0, s_m1 = m1, s_a = a,
      s_Ax = fst A, s_Ay = snd A, s_AaInvx = fst Aa, s_AaInvy = Params_P C - snd Aa,
      s_e0 = [], s_e1 = []\<rparr>"
  define r where "r = \<lparr>r_curve = C, r_bit = c, r_b = b,
      r_Bx = None, r_By = None, r_Asx = None, r_Asy = None\<rparr>"
  define r' where "r' = r\<lparr>r_Bx := Some (fst B), r_By := Some (snd B),
      r_Asx := Some (fst As), r_Asy := Some (snd As)\<rparr>"
  define s' where "s' = s\<lparr>
      s_e0 := xor_bytes (deriveMask (Some (fst aB)) (Some (snd aB)) 0) m0,
      s_e1 := xor_bytes (deriveMask (Some (fst ba)) (Some (snd ba)) 0) m1\<rparr>"
  have 1: "COSender_NewTransfer S m0 m1 = Inr s"
    using S accA
    by (simp add: COSender_NewTransfer_def s_def A_def Aa_def Let_def ScalarMult_accepted)
  have 2: "COReceiver_NewTransfer R c = Inr r"
    using R by (simp add: COReceiver_NewTransfer_def r_def)
  have 3: "COReceiverXfer_ReceiveA r (fst (COSenderXfer_A s)) (snd (COSenderXfer_A s)) = Inr r'"
    using A_back accA accB0
    by (simp add: COReceiverXfer_ReceiveA_def COSenderXfer_A_def s_def r_def r'_def
        Let_def B_def B0_def As_def Add_accepted ScalarMult_accepted)
  have 4: "COReceiverXfer_B r' = Inr (Bytes (fst B), Bytes (snd B))"
    by (simp add: COReceiverXfer_B_def r'_def)
  have 5: "COSenderXfer_ReceiveB deriveMask s (Bytes (fst B)) (Bytes (snd B)) = Inr s'"
    using B_back accB accaB accInv
    by (simp add: COSenderXfer_ReceiveB_def s_def s'_def Let_def ScalarMult_accepted
        Add_accepted aB_def [symmetric] AaInv_def [symmetric] ba_def [symmetric])
  have key0: "c = 0 \<Longrightarrow> aB = As"
    using kp(4) by (simp add: aB_def B_def B0_def As_def A_def)
  have key1: "c \<noteq> 0 \<Longrightarrow> ba = As"
    using kp(5) by (simp add: ba_def aB_def AaInv_def B_def B0_def As_def Aa_def A_def)
  have 6: "COReceiverXfer_ReceiveE deriveMask r' (fst (COSenderXfer_E s')) (snd (COSenderXfer_E s'))
        = take n (if c = 0 then m0 else m1)"
    using key0 key1
    by (simp add: COReceiverXfer_ReceiveE_def COSenderXfer_E_def r'_def r_def s'_def s_def
        xor_bytes_twice mask)
  from 1 2 3 4 5 6 show ?thesis
    by (intro exI [of _ s] exI [of _ r] exI [of _ r'] exI [of _ "Bytes (fst B)"]
        exI [of _ "Bytes (snd B)"] exI [of _ s']) simp
qed



theorem CO_single_transfer_roundtrip_witness:
  "curve_contract toy_curve \<and> (0::int) < 2 \<and> 2 < Params_N toy_curve \<and> (0::int) \<le> 2 \<and>
   (\<exists>s r r' Bx By s'.
      COSender_NewTransfer (NewCOSender toy_curve (\<lambda>n. Inr 2)) [10, 20] [30, 40] = Inr s \<and>
      COReceiver_NewTransfer (NewCOReceiver (\<lambda>n. Inr 2) toy_curve) 1 = Inr r \<and>
      COReceiverXfer_ReceiveA r (fst (COSenderXfer_A s)) (snd (COSenderXfer_A s)) = Inr r' \<and>
      COReceiverXfer_B r' = Inr (Bx, By) \<and>
      COSenderXfer_ReceiveB toy_kdf s Bx By = Inr s' \<and>
      COReceiverXfer_ReceiveE toy_kdf r' (fst (COSenderXfer_E s')) (snd (COSenderXfer_E s'))
        = [30, 40])"
proof -
  have N: "Params_N toy_curve = 3" by (simp add: toy_curve_def)
  have "\<exists>s r r' Bx By s'.
      COSender_NewTransfer (NewCOSender toy_curve (\<lambda>n. Inr 2)) [10, 20] [30, 40] = Inr s \<and>
      COReceiver_NewTransfer (NewCOReceiver (\<lambda>n. Inr 2) toy_curve) 1 = Inr r \<and>
      COReceiverXfer_ReceiveA r (fst (COSenderXfer_A s)) (snd (COSenderXfer_A s)) = Inr r' \<and>
      COReceiverXfer_B r' = Inr (Bx, By) \<and>
      COSenderXfer_ReceiveB toy_kdf s Bx By = Inr s' \<and>
      COReceiverXfer_ReceiveE toy_kdf r' (fst (COSenderXfer_E s')) (snd (COSenderXfer_E s'))
        = take 2 (if (1::64 word) = 0 then [10, 20] else [30, 40]) \<and>
      (length (if (1::64 word) = 0 then [10, 20] else [30, 40::byte]) \<le> 2 \<longrightarrow>
         COReceiverXfer_ReceiveE toy_kdf r' (fst (COSenderXfer_E s')) (snd (COSenderXfer_E s'))
           = (if (1::64 word) = 0 then [10, 20] else [30, 40]))"
    by (rule CO_single_transfer_roundtrip [OF toy_curve_contract, where a = 2 and b = 2 and n = 2])
      (simp_all add: NewCOSender_def NewCOReceiver_def N toy_kdf_def)
  then show ?thesis
    using toy_curve_contract by (simp add: N)
qed

text \<open>
  Claim C1 as stated fails for a message longer than a mask.  On P-256, with both
  scalars 1, selection bit 0 and a first message of 40 bytes, every step returns
  without a fault and \<open>ReceiveE\<close> returns the first 16 bytes of the message, the size
  of a mask.
\<close>

theorem CO_long_message_counterexample:
  "COSender_NewTransfer (NewCOSender p256 (\<lambda>n. Inr 1)) long_message [] = Inr p256_sender \<and>
   COReceiver_NewTransfer (NewCOReceiver (\<lambda>n. Inr 1) p256) 0 = Inr (p256_receiver 0) \<and>
   (\<exists>r' Bx By s'.
      COReceiverXfer_ReceiveA (p256_receiver 0)
        (fst (COSenderXfer_A p256_sender)) (snd (COSenderXfer_A p256_sender)) = Inr r' \<and>
      COReceiverXfer_B r' = Inr (Bx, By) \<and>
      COSenderXfer_ReceiveB kdf16 p256_sender Bx By = Inr s' \<and>
      COReceiverXfer_ReceiveE kdf16 r' (fst (COSenderXfer_E s')) (snd (COSenderXfer_E s'))
        = [1, 2, 3, 4, 5, 6, 7, 8, 9, 10, 11, 12, 13, 14, 15, 16] \<and>
      COReceiverXfer_ReceiveE kdf16 r' (fst (COSenderXfer_E s')) (snd (COSenderXfer_E s'))
        \<noteq> long_message)"
proof -
  let ?G = "(p256_Gx, p256_Gy)"
  let ?mG = "(p256_Gx, p256_P - p256_Gy)"
  have accG: "accepted p256 ?G" and accmG: "accepted p256 ?mG"
    using p256_G_on_curve p256_minus_G_on_curve by (simp_all add: accepted_def)
  have c: "r_curve (p256_receiver 0) = p256" "s_curve p256_sender = p256"
    by (simp_all add: p256_receiver_def p256_sender_def)
  have 1: "COSender_NewTransfer (NewCOSender p256 (\<lambda>n. Inr 1)) long_message [] = Inr p256_sender"
    using accG
    by (simp add: COSender_NewTransfer_def NewCOSender_def Let_def p256_ScalarBaseMult_1
        ScalarMult_accepted p256_group_mult_1 p256_sender_def)
      (simp add: p256_def)
  have 2: "COReceiver_NewTransfer (NewCOReceiver (\<lambda>n. Inr 1) p256) 0 = Inr (p256_receiver 0)"
    by (simp add: COReceiver_NewTransfer_def NewCOReceiver_def p256_receiver_def)
  define r' where "r' = (p256_receiver 0)\<lparr>r_Bx := Some p256_Gx, r_By := Some p256_Gy,
      r_Asx := Some p256_Gx, r_Asy := Some p256_Gy\<rparr>"
  define s' where "s' = p256_sender\<lparr>
      s_e0 := xor_bytes (kdf16 (Some p256_Gx) (Some p256_Gy) 0) long_message,
      s_e1 := xor_bytes (kdf16 (Some 0) (Some 0) 0) []\<rparr>"
  have rt: "(SetBytes (Bytes p256_Gx), SetBytes (Bytes p256_Gy)) = ?G"
    using p256_coordinates by (simp add: SetBytes_Bytes)
  have 3: "COReceiverXfer_ReceiveA (p256_receiver 0)
        (fst (COSenderXfer_A p256_sender)) (snd (COSenderXfer_A p256_sender)) = Inr r'"
    using accG rt
    by (simp add: COReceiverXfer_ReceiveA_def COSenderXfer_A_def Let_def c
        p256_ScalarBaseMult_1 ScalarMult_accepted p256_group_mult_1 r'_def)
      (simp add: p256_receiver_def p256_sender_def p256_ScalarBaseMult_1 p256_group_mult_1 rt
        ScalarMult_accepted accG)
  have 4: "COReceiverXfer_B r' = Inr (Bytes p256_Gx, Bytes p256_Gy)"
    by (simp add: COReceiverXfer_B_def r'_def)
  have 5: "COSenderXfer_ReceiveB kdf16 p256_sender (Bytes p256_Gx) (Bytes p256_Gy) = Inr s'"
    using accG accmG rt p256_G_minus_G
    by (simp add: COSenderXfer_ReceiveB_def Let_def p256_sender_def s'_def
        ScalarMult_accepted Add_accepted p256_group_mult_1 infinity_def)
  have 6: "COReceiverXfer_ReceiveE kdf16 r' (fst (COSenderXfer_E s')) (snd (COSenderXfer_E s'))
      = take 16 long_message"
    by (simp add: COReceiverXfer_ReceiveE_def COSenderXfer_E_def r'_def s'_def
        p256_receiver_def p256_sender_def xor_bytes_twice length_kdf16)
  have 7: "take 16 long_message = [1, 2, 3, 4, 5, 6, 7, 8, 9, 10, 11, 12, 13, 14, 15, 16]"
    "take 16 long_message \<noteq> long_message"
    by (simp_all add: long_message_def)
  from 3 4 5 6 7 have "\<exists>r' Bx By s'.
      COReceiverXfer_ReceiveA (p256_receiver 0)
        (fst (COSenderXfer_A p256_sender)) (snd (COSenderXfer_A p256_sender)) = Inr r' \<and>
      COReceiverXfer_B r' = Inr (Bx, By) \<and>
      COSenderXfer_ReceiveB kdf16 p256_sender Bx By = Inr s' \<and>
      COReceiverXfer_ReceiveE kdf16 r' (fst (COSenderXfer_E s')) (snd (COSenderXfer_E s'))
        = [1, 2, 3, 4, 5, 6, 7, 8, 9, 10, 11, 12, 13, 14, 15, 16] \<and>
      COReceiverXfer_ReceiveE kdf16 r' (fst (COSenderXfer_E s')) (snd (COSenderXfer_E s'))
        \<noteq> long_message"
    by (intro exI [of _ r'] exI [of _ "Bytes p256_Gx"] exI [of _ "Bytes p256_Gy"] exI [of _ s'])
      simp
  with 1 2 show ?thesis by simp
qed

text \<open>
  Claim C7 (the unselected ciphertext is not read).  With selection bit 0 the result
  of \<open>ReceiveE\<close> is the same for any two second ciphertexts; with a selection bit
  other than 0 it is the same for any two first ciphertexts.
\<close>

theorem ReceiveE_ignores_unselected:
  "(r_bit r = 0 \<longrightarrow>
      COReceiverXfer_ReceiveE deriveMask r e0 e1 = COReceiverXfer_ReceiveE deriveMask r e0 e1') \<and>
   (r_bit r \<noteq> 0 \<longrightarrow>
      COReceiverXfer_ReceiveE deriveMask r e0 e1 = COReceiverXfer_ReceiveE deriveMask r e0' e1)"
  by (simp add: COReceiverXfer_ReceiveE_def)

theorem ReceiveE_ignores_unselected_witness:
  "r_bit (toy_receiver\<lparr>r_bit := 0\<rparr>) = 0 \<and>
   COReceiverXfer_ReceiveE toy_kdf (toy_receiver\<lparr>r_bit := 0\<rparr>) [1, 2] [3, 4]
     = COReceiverXfer_ReceiveE toy_kdf (toy_receiver\<lparr>r_bit := 0\<rparr>) [1, 2] [5, 6] \<and>
   r_bit toy_receiver \<noteq> 0 \<and>
   COReceiverXfer_ReceiveE toy_kdf toy_receiver [1, 2] [3, 4]
     = COReceiverXfer_ReceiveE toy_kdf toy_receiver [7, 8] [3, 4]"
  using ReceiveE_ignores_unselected [of "toy_receiver\<lparr>r_bit := 0\<rparr>" toy_kdf "[1, 2]" "[3, 4]" "[5, 6]" "[7, 8]"]
    ReceiveE_ignores_unselected [of toy_receiver toy_kdf "[1, 2]" "[3, 4]" "[5, 6]" "[7, 8]"]
  by (simp add: toy_receiver_def)



section \<open>Facts about the connection\<close>

lemma DirectSend_session:
  "snd (DirectSend net p topic s) =
     s\<lparr>link := (link s)\<lparr>nsend := nsend (link s) + 1\<rparr>,
       trace := trace s @ [Sent \<lparr>Sid = SessionId (conn (link s)), Topic = topic,
                  Src = je (link s), Dst = tu (link s), Seq = nsend (link s) + 1\<rparr> p]\<rparr>"
  by (simp add: DirectSend_def Let_def split: option.splits)

lemma DirectRecv_session:
  "snd (DirectRecv net decode out topic s) =
     s\<lparr>link := (link s)\<lparr>nrecv := nrecv (link s) + 1\<rparr>,
       trace := trace s @ [Requested \<lparr>Sid = SessionId (conn (link s)), Topic = topic,
                  Src = tu (link s), Dst = je (link s), Seq = nrecv (link s) + 1\<rparr>]\<rparr>"
  by (simp add: DirectRecv_def Let_def split: sum.splits)

lemma DirectSend_result:
  "fst (DirectSend net p topic s) =
     map_option (Wrap ''in mpc_hd::Conn::DirectSend(&self, any)'')
       (net_DirectSend net \<lparr>Sid = SessionId (conn (link s)), Topic = topic,
          Src = je (link s), Dst = tu (link s), Seq = nsend (link s) + 1\<rparr> p)"
  by (simp add: DirectSend_def Let_def split: option.splits)

lemma DirectRecv_result:
  "fst (DirectRecv net decode out topic s) =
     (case MessengerClient_DirectRecv net decode out \<lparr>Sid = SessionId (conn (link s)), Topic = topic,
             Src = tu (link s), Dst = je (link s), Seq = nrecv (link s) + 1\<rparr> of
        Inl e \<Rightarrow> Inl (Wrap ''in mpc_hd::Conn::DirectRecv(&self, any)'' e)
      | Inr v \<Rightarrow> Inr v)"
  by (simp add: DirectRecv_def Let_def split: sum.splits)

lemma sent_append: "sent (es @ fs) = sent es @ sent fs"
  by (induction es rule: sent.induct) simp_all

lemma requested_append: "requested (es @ fs) = requested es @ requested fs"
  by (induction es rule: requested.induct) simp_all

lemma addressed_sends_cong:
  "conn c = conn c' \<Longrightarrow> je c = je c' \<Longrightarrow> tu c = tu c' \<Longrightarrow>
     addressed_sends c n xs = addressed_sends c' n xs"
  by (induction xs arbitrary: n) simp_all

lemma addressed_recvs_cong:
  "conn c = conn c' \<Longrightarrow> je c = je c' \<Longrightarrow> tu c = tu c' \<Longrightarrow>
     addressed_recvs c n xs = addressed_recvs c' n xs"
  by (induction xs arbitrary: n) simp_all

lemma addressed_sends_nth:
  "i < length xs \<Longrightarrow>
   addressed_sends c n xs ! i =
     (\<lparr>Sid = SessionId (conn c), Topic = snd (xs ! i), Src = je c, Dst = tu c,
       Seq = n + of_nat (Suc i)\<rparr>, fst (xs ! i))"
proof (induction xs arbitrary: n i)
  case Nil
  then show ?case by simp
next
  case (Cons x xs)
  show ?case
  proof (cases i)
    case 0
    then show ?thesis by simp
  next
    case (Suc j)
    with Cons.prems have "j < length xs" by simp
    from Cons.IH [OF this, of "n + 1"] Suc show ?thesis
      by (simp add: add.assoc)
  qed
qed

lemma addressed_recvs_nth:
  "i < length xs \<Longrightarrow>
   addressed_recvs c n xs ! i =
     \<lparr>Sid = SessionId (conn c), Topic = xs ! i, Src = tu c, Dst = je c,
      Seq = n + of_nat (Suc i)\<rparr>"
proof (induction xs arbitrary: n i)
  case Nil
  then show ?case by simp
next
  case (Cons x xs)
  show ?case
  proof (cases i)
    case 0
    then show ?thesis by simp
  next
    case (Suc j)
    with Cons.prems have "j < length xs" by simp
    from Cons.IH [OF this, of "n + 1"] Suc show ?thesis
      by (simp add: add.assoc)
  qed
qed

lemma length_addressed_sends: "length (addressed_sends c n xs) = length xs"
  by (induction xs arbitrary: n) simp_all

lemma length_addressed_recvs: "length (addressed_recvs c n xs) = length xs"
  by (induction xs arbitrary: n) simp_all




lemma run_calls_link:
  "conn (link (run_calls net cs s)) = conn (link s) \<and>
   je (link (run_calls net cs s)) = je (link s) \<and>
   tu (link (run_calls net cs s)) = tu (link s) \<and>
   nsend (link (run_calls net cs s)) = nsend (link s) + of_nat (length (send_topics cs)) \<and>
   nrecv (link (run_calls net cs s)) = nrecv (link s) + of_nat (length (recv_topics cs))"
proof (induction cs arbitrary: s)
  case Nil
  show ?case by simp
next
  case (Cons c cs)
  show ?case
    by (cases c) (simp_all add: Cons DirectSend_session DirectRecv_session)
qed

lemma run_calls_trace:
  "sent (trace (run_calls net cs s)) =
     sent (trace s) @ addressed_sends (link s) (nsend (link s)) (send_topics cs) \<and>
   requested (trace (run_calls net cs s)) =
     requested (trace s) @ addressed_recvs (link s) (nrecv (link s)) (recv_topics cs)"
proof (induction cs arbitrary: s)
  case Nil
  show ?case by simp
next
  case (Cons c cs)
  show ?case
  proof (cases c)
    case (SendCall p topic)
    let ?c' = "(link s)\<lparr>nsend := nsend (link s) + 1\<rparr>"
    have "addressed_sends ?c' n xs = addressed_sends (link s) n xs" for n xs
      by (rule addressed_sends_cong) simp_all
    moreover have "addressed_recvs ?c' n xs = addressed_recvs (link s) n xs" for n xs
      by (rule addressed_recvs_cong) simp_all
    ultimately show ?thesis
      using SendCall by (simp add: Cons DirectSend_session sent_append requested_append)
  next
    case (RecvCall topic)
    let ?c' = "(link s)\<lparr>nrecv := nrecv (link s) + 1\<rparr>"
    have "addressed_sends ?c' n xs = addressed_sends (link s) n xs" for n xs
      by (rule addressed_sends_cong) simp_all
    moreover have "addressed_recvs ?c' n xs = addressed_recvs (link s) n xs" for n xs
      by (rule addressed_recvs_cong) simp_all
    ultimately show ?thesis
      using RecvCall by (simp add: Cons DirectRecv_session sent_append requested_append)
  next
    case (LoadCall path sizes)
    then show ?thesis
      by (simp add: Cons sent_append requested_append)
  qed
qed

lemma sint_of_nat_small:
  "k < 2 ^ 63 \<Longrightarrow> sint (of_nat k :: 64 word) = int k"
proof -
  assume "k < 2 ^ 63"
  then have "int k < 2 ^ 63" by (metis of_nat_less_iff of_nat_numeral of_nat_power)
  then show ?thesis
    by (simp add: signed_of_nat signed_take_bit_int_eq_self)
qed

lemma NewConn_fields:
  "NewConn net isGarbler hostport sid = Inr c \<Longrightarrow>
     je c = (if isGarbler then 1 else 2) \<and> tu c = (if isGarbler then 2 else 1) \<and>
     nsend c = 0 \<and> nrecv c = 0"
  by (auto simp: NewConn_def Let_def split: option.splits sum.splits if_splits)

section \<open>Claims about the connection\<close>

text \<open>
  Claim C5 (connection counters).  A connection made by \<open>NewConn\<close> has \<open>je = 1\<close>,
  \<open>tu = 2\<close> for the garbler and \<open>je = 2\<close>, \<open>tu = 1\<close> otherwise, and both counters at 0.
  After any list of calls with \<open>k\<close> sends and \<open>j\<close> receives, whatever the relay
  answers, \<open>nsend\<close> is \<open>k\<close> and \<open>nrecv\<close> is \<open>j\<close> (as 64-bit integers, and as numbers
  below \<open>2^63\<close>); the \<open>i\<close>-th send was handed to the relay client under
  \<open>(session, topic, je, tu, i)\<close> and the \<open>i\<close>-th receive asked for
  \<open>(session, topic, tu, je, i)\<close>, counting from 1.  A send leaves \<open>nrecv\<close> as it is and
  a receive leaves \<open>nsend\<close> as it is.
\<close>

theorem Conn_counters:
  assumes "NewConn net isGarbler hostport sid = Inr c"
  shows "je c = (if isGarbler then 1 else 2) \<and> tu c = (if isGarbler then 2 else 1) \<and>
     nsend c = 0 \<and> nrecv c = 0 \<and>
     (let s' = run_calls net calls \<lparr>link = c, trace = []\<rparr>;
          k = length (send_topics calls); j = length (recv_topics calls)
      in nsend (link s') = of_nat k \<and> nrecv (link s') = of_nat j \<and>
         (k < 2 ^ 63 \<longrightarrow> sint (nsend (link s')) = int k) \<and>
         (j < 2 ^ 63 \<longrightarrow> sint (nrecv (link s')) = int j) \<and>
         length (sent (trace s')) = k \<and> length (requested (trace s')) = j \<and>
         (\<forall>i<k. sent (trace s') ! i =
            (\<lparr>Sid = SessionId (conn c), Topic = snd (send_topics calls ! i),
              Src = je c, Dst = tu c, Seq = of_nat (i + 1)\<rparr>, fst (send_topics calls ! i))) \<and>
         (\<forall>i<j. requested (trace s') ! i =
            \<lparr>Sid = SessionId (conn c), Topic = recv_topics calls ! i,
             Src = tu c, Dst = je c, Seq = of_nat (i + 1)\<rparr>)) \<and>
     nrecv (link (snd (DirectSend net p topic s))) = nrecv (link s) \<and>
     nsend (link (snd (DirectRecv net decode out topic s))) = nsend (link s)"
proof -
  note new = NewConn_fields [OF assms]
  let ?s0 = "\<lparr>link = c, trace = []\<rparr>"
  note lk = run_calls_link [of net calls ?s0]
  note tr = run_calls_trace [of net calls ?s0]
  from new lk tr show ?thesis
    by (simp add: Let_def sint_of_nat_small length_addressed_sends length_addressed_recvs
        addressed_sends_nth addressed_recvs_nth DirectSend_session DirectRecv_session)
qed

theorem Conn_counters_witness:
  "NewConn toy_net True ''relay:65534'' ''s'' = Inr garbler_conn \<and>
   je garbler_conn = 1 \<and> tu garbler_conn = 2 \<and> nsend garbler_conn = 0 \<and> nrecv garbler_conn = 0 \<and>
   nsend (link (run_calls toy_net
       [SendCall (PKey [7]) ''ephemeral key'', RecvCall ''ot query'', SendCall (PBigInt 5) ''result'']
       \<lparr>link = garbler_conn, trace = []\<rparr>)) = 2 \<and>
   nrecv (link (run_calls toy_net
       [SendCall (PKey [7]) ''ephemeral key'', RecvCall ''ot query'', SendCall (PBigInt 5) ''result'']
       \<lparr>link = garbler_conn, trace = []\<rparr>)) = 1 \<and>
   sent (trace (run_calls toy_net
       [SendCall (PKey [7]) ''ephemeral key'', RecvCall ''ot query'', SendCall (PBigInt 5) ''result'']
       \<lparr>link = garbler_conn, trace = []\<rparr>)) ! 1 =
     (\<lparr>Sid = ''s'', Topic = ''result'', Src = 1, Dst = 2, Seq = 2\<rparr>, PBigInt 5) \<and>
   requested (trace (run_calls toy_net
       [SendCall (PKey [7]) ''ephemeral key'', RecvCall ''ot query'', SendCall (PBigInt 5) ''result'']
       \<lparr>link = garbler_conn, trace = []\<rparr>)) ! 0 =
     \<lparr>Sid = ''s'', Topic = ''ot query'', Src = 2, Dst = 1, Seq = 1\<rparr>"
proof -
  have new: "NewConn toy_net True ''relay:65534'' ''s'' = Inr garbler_conn"
    by (simp add: NewConn_def toy_net_def garbler_conn_def)
  show ?thesis
    using new Conn_counters [OF new, of
        "[SendCall (PKey [7]) ''ephemeral key'', RecvCall ''ot query'', SendCall (PBigInt 5) ''result'']"]
    by (simp add: Let_def garbler_conn_def DirectSend_session DirectRecv_session)
qed

section \<open>Facts about the drivers\<close>






















lemma CO_Receive_not_EOF:
  "CO_Receive E net flags result s = (Inl e, s') \<Longrightarrow> e \<noteq> EOF"
  unfolding CO_Receive_def
  by (auto split: sum.splits prod.splits option.splits if_splits)

lemma Evaluator_E7_not_EOF:
  "Evaluator_E7 E net circ s = (Inl (Error e), s') \<Longrightarrow> e \<noteq> EOF"
  unfolding Evaluator_E7_def
  by (auto split: sum.splits prod.splits option.splits)

lemma Evaluator_outputs_no_error:
  "Evaluator_outputs E circ wires is \<noteq> Inl (Error e)"
  by (induction "is") (auto simp: Let_def split: sum.splits)

lemma Evaluator_E6_not_EOF:
  "Evaluator_E6 E net circ wires s = (Inl (Error e), s') \<Longrightarrow> e \<noteq> EOF"
  unfolding Evaluator_E6_def
  by (auto simp: Evaluator_outputs_no_error split: sum.splits prod.splits option.splits
      dest: Evaluator_E7_not_EOF)

lemma Evaluator_E5_not_EOF:
  "Evaluator_E5 E net circ inputs key garbled wires spare in0 in1 s = (Inl (Error e), s') \<Longrightarrow> e \<noteq> EOF"
  unfolding Evaluator_E5_def
  by (auto simp: Let_def go_make_def go_slice_def
      split: sum.splits prod.splits option.splits if_splits
      dest: Evaluator_E6_not_EOF CO_Receive_not_EOF)

lemma Evaluator_E4_not_EOF:
  "Evaluator_E4 E net circ inputs key garbled wires spare s = (Inl (Error e), s') \<Longrightarrow> e \<noteq> EOF"
  unfolding Evaluator_E4_def
  by (auto simp: go_index_def split: sum.splits prod.splits option.splits if_splits
      dest: Evaluator_E5_not_EOF)

lemma Evaluator_E3_not_EOF:
  "Evaluator_E3 E net circ inputs key garbled s = (Inl (Error e), s') \<Longrightarrow> e \<noteq> EOF"
  unfolding Evaluator_E3_def
  by (auto simp: go_make_def split: sum.splits prod.splits option.splits if_splits
      dest: Evaluator_E4_not_EOF)

lemma Evaluator_E2_not_EOF:
  "Evaluator_E2 E net circ inputs key s = (Inl (Error e), s') \<Longrightarrow> e \<noteq> EOF"
  unfolding Evaluator_E2_def
  by (auto simp: go_make_def split: sum.splits prod.splits option.splits if_splits
      dest: Evaluator_E3_not_EOF)

lemma Evaluator_not_EOF:
  "Evaluator E net circ inputs s = (Inl (Error e), s') \<Longrightarrow> e \<noteq> EOF"
  unfolding Evaluator_def
  by (auto split: sum.splits prod.splits option.splits dest: Evaluator_E2_not_EOF)









lemma addressed_recvs_topics:
  "map Topic (addressed_recvs c n ts) = ts"
  by (induction ts arbitrary: n) simp_all


lemmas toy_defs = toy_env_def toy_net_def toy_answer_def toy_circuit_def toy_garbled_def
  garbler_conn_def evaluator_conn_def

lemmas go_defs = go_index_def go_slice_def go_make_def loop_range_def

lemmas conn_defs = DirectSend_def DirectRecv_def MessengerClient_DirectRecv_def NewConn_def

lemmas garbler_defs = Garbler_def Garbler_G2_def Garbler_G3_def Garbler_G4_def Garbler_G5_def
  Garbler_G6_def Garbler_G7_def CO_Send_def

lemmas evaluator_defs = Evaluator_def Evaluator_E2_def Evaluator_E3_def Evaluator_E4_def
  Evaluator_E5_def Evaluator_E6_def Evaluator_E7_def CO_Receive_def

lemmas main_defs = garbler_fn_def garbler_fn_run_def evaluator_fn_def evaluator_fn_run_def
  evaluator_fn_load_def exchange_sizes_def loadCircuit_def getResult_def discriminate_def



lemma CO_Send_error_wrapped:
  "CO_Send E net wires s = (Some e, s') \<Longrightarrow> \<exists>m e'. e = Wrap m e'"
  unfolding CO_Send_def
  by (auto split: sum.splits prod.splits option.splits)

lemma Garbler_decode_error_wrapped:
  "Garbler_decode E circ garbled labels is r = Inl (Error e) \<Longrightarrow> \<exists>m e'. e = Wrap m e'"
  by (induction "is" arbitrary: r)
    (auto simp: go_index_def split: sum.splits if_splits)

lemma Garbler_G7_error_wrapped:
  "Garbler_G7 E net circ garbled labels s = (Inl (Error e), s') \<Longrightarrow> \<exists>m e'. e = Wrap m e'"
  unfolding Garbler_G7_def
  by (auto split: sum.splits prod.splits option.splits dest: Garbler_decode_error_wrapped)

lemma Garbler_G6_error_wrapped:
  "Garbler_G6 E net circ garbled s = (Inl (Error e), s') \<Longrightarrow> \<exists>m e'. e = Wrap m e'"
  unfolding Garbler_G6_def
  by (auto split: sum.splits prod.splits option.splits dest: Garbler_G7_error_wrapped)

lemma Garbler_G5_error_wrapped:
  "Garbler_G5 E net circ garbled Offset Count s = (Inl (Error e), s') \<Longrightarrow> \<exists>m e'. e = Wrap m e'"
  unfolding Garbler_G5_def
  by (auto simp: go_slice_def split: sum.splits prod.splits option.splits if_splits
      dest: Garbler_G6_error_wrapped CO_Send_error_wrapped)

lemma Garbler_G5_not_PeerCantOT:
  "fst (Garbler_G5 E net circ garbled Offset Count s) \<noteq> Inl (Error (PeerCantOT x y))"
proof
  assume "fst (Garbler_G5 E net circ garbled Offset Count s) = Inl (Error (PeerCantOT x y))"
  then have "Garbler_G5 E net circ garbled Offset Count s
      = (Inl (Error (PeerCantOT x y)), snd (Garbler_G5 E net circ garbled Offset Count s))"
    by (metis prod.collapse)
  from Garbler_G5_error_wrapped [OF this] show False by simp
qed

lemma go_slice_in_range:
  assumes "0 \<le> sint lo" "0 \<le> sint cnt" "sint lo + sint cnt \<le> int (length xs)"
    and "length xs < 2 ^ 63"
  shows "go_slice xs spare lo (lo + cnt) = Inr (take (nat (sint cnt)) (drop (nat (sint lo)) xs))"
proof -
  have "int (length xs) < 2 ^ 63"
    using assms(4) by (metis of_nat_less_iff of_nat_numeral of_nat_power)
  with assms(3) have "sint lo + sint cnt < 2 ^ 63" by simp
  then have hi: "sint (lo + cnt) = sint lo + sint cnt"
    using assms(1,2) by (simp add: sint_word_add signed_take_bit_int_eq_self)
  have lo: "nat (sint lo) \<le> length xs" and n: "nat (sint cnt) \<le> length xs - nat (sint lo)"
    using assms(1,2,3) by linarith+
  have "take (nat (sint cnt)) (drop (nat (sint lo)) (xs @ spare))
      = take (nat (sint cnt)) (drop (nat (sint lo)) xs)"
    using lo n by simp
  with assms hi show ?thesis
    by (simp add: go_slice_def nat_add_distrib)
qed

lemma slices_Compare_empty: "slices_Compare xs [] \<noteq> 0 \<longleftrightarrow> xs \<noteq> []"
  by (cases xs) simp_all

lemma Evaluator_outputs_no_nil:
  "Evaluator_outputs E circ wires is \<noteq> Inl (Panic NilDereference)"
  by (induction "is") (auto simp: Let_def split: sum.splits)

lemma Evaluator_E7_no_nil:
  "fst (Evaluator_E7 E net circ s) \<noteq> Inl (Panic NilDereference)"
  unfolding Evaluator_E7_def
  by (auto split: sum.splits prod.splits)

lemma Evaluator_E6_no_nil:
  "fst (Evaluator_E6 E net circ wires s) \<noteq> Inl (Panic NilDereference)"
  unfolding Evaluator_E6_def
  by (auto simp: Evaluator_outputs_no_nil Evaluator_E7_no_nil
      split: sum.splits prod.splits option.splits)

lemma Evaluator_E5_no_nil:
  "fst (Evaluator_E5 E net circ inputs key garbled wires spare in0 in1 s) \<noteq> Inl (Panic NilDereference)"
  unfolding Evaluator_E5_def
  by (auto simp: Let_def go_make_def go_slice_def Evaluator_E6_no_nil
      split: sum.splits prod.splits option.splits)

lemma Evaluator_E4_no_nil:
  "fst (Evaluator_E4 E net circ inputs key garbled wires spare s) \<noteq> Inl (Panic NilDereference)"
  unfolding Evaluator_E4_def
  by (auto simp: go_index_def Evaluator_E5_no_nil split: sum.splits prod.splits option.splits)

lemma Evaluator_E3_no_nil:
  "fst (Evaluator_E3 E net circ inputs key garbled s) \<noteq> Inl (Panic NilDereference)"
  unfolding Evaluator_E3_def
  by (auto simp: go_make_def Evaluator_E4_no_nil split: sum.splits prod.splits option.splits)

lemma Evaluator_E2_no_nil:
  "fst (Evaluator_E2 E net circ inputs key s) \<noteq> Inl (Panic NilDereference)"
  unfolding Evaluator_E2_def
  by (auto simp: go_make_def Evaluator_E3_no_nil split: sum.splits prod.splits option.splits)

lemma Evaluator_no_nil:
  "fst (Evaluator E net circ inputs s) \<noteq> Inl (Panic NilDereference)"
  unfolding Evaluator_def
  by (auto simp: Evaluator_E2_no_nil split: sum.splits prod.splits option.splits)

lemma Evaluator_no_nil_pair:
  "Evaluator E net circ inputs s \<noteq> (Inl (Panic NilDereference), s')"
  using Evaluator_no_nil [of E net circ inputs s] by (metis fst_conv)

lemma getResult_no_nil: "getResult E results outputs \<noteq> Inl (Panic NilDereference)"
  by (auto simp: getResult_def split: list.splits result_value.splits)

lemma discriminate_no_nil: "discriminate E path val \<noteq> Inl (Panic NilDereference)"
  by (auto simp: discriminate_def Let_def split: list.splits)

lemma evaluator_fn_run_nil_iff:
  "fst (evaluator_fn_run E net path args (circ, v) s) = Inl (Panic NilDereference) \<longleftrightarrow> circ = None"
proof (cases circ)
  case None
  then show ?thesis by (simp add: evaluator_fn_run_def)
next
  case (Some c)
  have "fst (evaluator_fn_run E net path args (Some c, v) s) \<noteq> Inl (Panic NilDereference)"
    by (auto simp: evaluator_fn_run_def getResult_no_nil discriminate_no_nil
        Evaluator_no_nil_pair split: sum.splits prod.splits fault.splits)
  with Some show ?thesis by simp
qed

lemma evaluator_fn_cli_run_nil_iff:
  "fst (evaluator_fn_cli_run E net args (circ, v) s) = Inl (Panic NilDereference) \<longleftrightarrow> circ = None"
proof (cases circ)
  case None
  then show ?thesis by (simp add: evaluator_fn_cli_run_def)
next
  case (Some c)
  have "fst (evaluator_fn_cli_run E net args (Some c, v) s) \<noteq> Inl (Panic NilDereference)"
    by (auto simp: evaluator_fn_cli_run_def getResult_no_nil
        Evaluator_no_nil_pair split: sum.splits prod.splits fault.splits)
  with Some show ?thesis by simp
qed

lemma exchange_sizes_ok:
  assumes "InputSizes E args = Inr my"
    and "net_DirectSend net \<lparr>Sid = SessionId (conn c), Topic = ''input sizes'',
           Src = je c, Dst = tu c, Seq = nsend c + 1\<rparr> (PInts my) = None"
    and "MessengerClient_DirectRecv net as_ints [] \<lparr>Sid = SessionId (conn c),
           Topic = ''input sizes'', Src = tu c, Dst = je c, Seq = nrecv c + 1\<rparr> = Inr peer"
  shows "\<exists>s'. exchange_sizes E net args ctx ctx' \<lparr>link = c, trace = []\<rparr> = (Inr (my, peer), s')"
proof -
  let ?s = "\<lparr>link = c, trace = []\<rparr>"
  obtain r1 s1 where d1: "DirectSend net (PInts my) ''input sizes'' ?s = (r1, s1)"
    by (cases "DirectSend net (PInts my) ''input sizes'' ?s")
  have r1: "r1 = None"
    using DirectSend_result [of net "PInts my" "''input sizes''" ?s] assms(2) d1 by simp
  have s1: "s1 = snd (DirectSend net (PInts my) ''input sizes'' ?s)"
    using d1 by simp
  obtain r2 s2 where d2: "DirectRecv net as_ints [] ''input sizes'' s1 = (r2, s2)"
    by (cases "DirectRecv net as_ints [] ''input sizes'' s1")
  have r2: "r2 = Inr peer"
    using DirectRecv_result [of net as_ints "[]" "''input sizes''" s1] assms(3) d2
    by (simp add: s1 DirectSend_session)
  show ?thesis
    using assms(1) d1 d2 r1 r2 by (simp add: exchange_sizes_def)
qed

lemma toy_Evaluator_run:
  "fst (Evaluator toy_env toy_net toy_circuit 1 \<lparr>link = evaluator_conn, trace = []\<rparr>) = Inr [0]"
  by (simp add: toy_defs go_defs conn_defs evaluator_defs Let_def upt_rec)

lemma failing_Evaluator_run:
  "fst (Evaluator failing_env toy_net toy_circuit 1 \<lparr>link = evaluator_conn, trace = []\<rparr>) = Inr [0]"
  by (simp add: failing_env_def toy_defs go_defs conn_defs evaluator_defs Let_def upt_rec)

lemma toy_Garbler_run:
  "fst (Garbler toy_env toy_net toy_circuit 1
     (\<lparr>link = garbler_conn, trace = []\<rparr>\<lparr>trace := trace \<lparr>link = garbler_conn, trace = []\<rparr>
         @ [Loaded ''t.mpcl'' [[1], []]]\<rparr>)) = Inr [0]"
  by (simp add: toy_defs go_defs conn_defs garbler_defs Let_def upt_rec)

lemma failing_Garbler_run:
  "fst (Garbler failing_env toy_net toy_circuit 1
     (\<lparr>link = garbler_conn, trace = []\<rparr>\<lparr>trace := trace \<lparr>link = garbler_conn, trace = []\<rparr>
         @ [Loaded ''t.mpcl'' [[1], []]]\<rparr>)) = Inr [0]"
  by (simp add: failing_env_def toy_defs go_defs conn_defs garbler_defs Let_def upt_rec)

lemma short_Evaluator_run:
  "fst (Evaluator short_env toy_net toy_circuit 1 \<lparr>link = evaluator_conn, trace = []\<rparr>) = Inr [0]"
  by (simp add: short_env_def toy_defs go_defs conn_defs evaluator_defs Let_def upt_rec)

lemma short_Garbler_run:
  "fst (Garbler short_env toy_net toy_circuit 1
     (\<lparr>link = garbler_conn, trace = []\<rparr>\<lparr>trace := trace \<lparr>link = garbler_conn, trace = []\<rparr>
         @ [Loaded ''t.mpcl'' [[1], []]]\<rparr>)) = Inr [0]"
  by (simp add: short_env_def toy_defs go_defs conn_defs garbler_defs Let_def upt_rec)

lemma discriminate_one:
  "val \<noteq> [] \<Longrightarrow> hd val = 1 \<Longrightarrow> discriminate E path val = Inr (tl val)"
  by (cases val) (simp_all add: discriminate_def)

lemma discriminate_zero:
  "2 \<le> length val \<Longrightarrow> hd val = 0 \<Longrightarrow>
     discriminate E path val = Inl (Error (MPCLInnerError (val ! 1)
       (case filepath_Abs E path of Inl e \<Rightarrow> path | Inr p \<Rightarrow> p)))"
proof (cases val)
  case Nil
  moreover assume "2 \<le> length val"
  ultimately show ?thesis by simp
next
  case (Cons v0 rest)
  moreover assume "2 \<le> length val" "hd val = 0"
  ultimately show ?thesis
    by (cases rest) (simp_all add: discriminate_def Let_def)
qed

lemma discriminate_short: "discriminate E path [0] = Inl (Panic IndexOutOfRange)"
  by (simp add: discriminate_def Let_def)
section \<open>Claims about the drivers\<close>

text \<open>
  Claim C2 (every transport error reaches the caller) fails at two places.  The
  relay below refuses the send of the garbler's input labels (the third send of
  \<open>Garbler\<close>, topic \<open>inputs\<close>) and fails \<open>Exchange\<close>; all else succeeds.  \<open>Garbler\<close>
  still returns its result without an error, and \<open>Conn.Exchange\<close> returns \<open>nil\<close>.
\<close>

theorem Garbler_drops_error_of_inputs_send:
  "net_DirectSend lossy_net \<lparr>Sid = ''s'', Topic = ''inputs'', Src = 1, Dst = 2, Seq = 3\<rparr>
     (PLabels [3]) = Some (Opaque ''unavailable'') \<and>
   sent (trace (snd (Garbler toy_env lossy_net toy_circuit 1 \<lparr>link = garbler_conn, trace = []\<rparr>))) ! 2
     = (\<lparr>Sid = ''s'', Topic = ''inputs'', Src = 1, Dst = 2, Seq = 3\<rparr>, PLabels [3]) \<and>
   fst (Garbler toy_env lossy_net toy_circuit 1 \<lparr>link = garbler_conn, trace = []\<rparr>) = Inr [0] \<and>
   net_Exchange lossy_net = Some (Opaque ''unavailable'') \<and>
   Exchange lossy_net garbler_conn = None"
  by (simp add: lossy_net_def toy_defs go_defs conn_defs garbler_defs Exchange_def Let_def upt_rec)

text \<open>
  Claim C4 (the garbler checks the transfer query).  Let the steps before G4 pass:
  the key is drawn, the circuit garbled, the first two sends accepted, the own input
  labels computed (whatever becomes of their send), and let the receive of
  \<open>ot query\<close> yield \<open>(Offset, Count)\<close>, for a circuit with the input groups \<open>in0\<close> and
  \<open>in1\<close>.  Then \<open>Garbler\<close> returns the error of the check, \<open>PeerCantOT\<close>, exactly when
  \<open>Offset\<close> is not the width of group 0 or \<open>Count\<close> is not the width of group 1, and
  then nothing further is sent or received.  Otherwise it goes on with G5, which
  (the range being inside the wire array) runs the transfer on the wires
  \<open>Offset, \<dots>, Offset + Count - 1\<close> and on nothing else.
\<close>

theorem Garbler_checks_ot_query:
  assumes key: "rand_Read E = Inr key" and garble: "Garble E circ key = Inr garbled"
    and inputs: "Inputs circ = [in0, in1]"
    and own: "Garbler_inputs E garbled inputs (loop_range (Bits in0)) = Inr wires"
    and send1: "net_DirectSend net
        \<lparr>Sid = SessionId (conn (link s)), Topic = ''ephemeral key'',
          Src = je (link s), Dst = tu (link s), Seq = nsend (link s) + 1\<rparr> (PKey key) = None"
    and send2: "net_DirectSend net
        \<lparr>Sid = SessionId (conn (link s)), Topic = ''garbled gates'',
          Src = je (link s), Dst = tu (link s), Seq = nsend (link s) + 1 + 1\<rparr>
        (PGates (Gates garbled)) = None"
    and query: "MessengerClient_DirectRecv net as_query (0, 0)
        \<lparr>Sid = SessionId (conn (link s)), Topic = ''ot query'',
          Src = tu (link s), Dst = je (link s), Seq = nrecv (link s) + 1\<rparr> = Inr (Offset, Count)"
    and len: "length (Wires garbled) < 2 ^ 63"
  shows "(let s4 = run_calls net
            [SendCall (PKey key) ''ephemeral key'', SendCall (PGates (Gates garbled)) ''garbled gates'',
             SendCall (PLabels wires) ''inputs'', RecvCall ''ot query''] s
          in (fst (Garbler E net circ inputs s) = Inl (Error (PeerCantOT Offset (Offset + Count)))
                \<longleftrightarrow> Offset \<noteq> Bits in0 \<or> Count \<noteq> Bits in1) \<and>
             (Offset \<noteq> Bits in0 \<or> Count \<noteq> Bits in1 \<longrightarrow>
                snd (Garbler E net circ inputs s) = s4) \<and>
             (Offset = Bits in0 \<and> Count = Bits in1 \<longrightarrow>
                Garbler E net circ inputs s = Garbler_G5 E net circ garbled Offset Count s4) \<and>
             (0 \<le> sint Offset \<and> 0 \<le> sint Count \<and>
              sint Offset + sint Count \<le> int (length (Wires garbled)) \<longrightarrow>
                Garbler_G5 E net circ garbled Offset Count s4 =
                  (case CO_Send E net
                          (take (nat (sint Count)) (drop (nat (sint Offset)) (Wires garbled))) s4 of
                     (Some e, s5) \<Rightarrow> (Inl (Error e), s5)
                   | (None, s5) \<Rightarrow> Garbler_G6 E net circ garbled s5)))"
proof -
  define s1 where "s1 = snd (DirectSend net (PKey key) ''ephemeral key'' s)"
  define s2 where "s2 = snd (DirectSend net (PGates (Gates garbled)) ''garbled gates'' s1)"
  define s3 where "s3 = snd (DirectSend net (PLabels wires) ''inputs'' s2)"
  define s4 where "s4 = snd (DirectRecv net as_query (0, 0) ''ot query'' s3)"
  have s4: "run_calls net
            [SendCall (PKey key) ''ephemeral key'', SendCall (PGates (Gates garbled)) ''garbled gates'',
             SendCall (PLabels wires) ''inputs'', RecvCall ''ot query''] s = s4"
    by (simp add: s1_def s2_def s3_def s4_def DirectRecv_session)
  have d1: "DirectSend net (PKey key) ''ephemeral key'' s = (None, s1)"
    using send1 by (simp add: prod_eq_iff s1_def DirectSend_result)
  have d2: "DirectSend net (PGates (Gates garbled)) ''garbled gates'' s1 = (None, s2)"
    using send2 by (simp add: prod_eq_iff s2_def DirectSend_result s1_def DirectSend_session)
  have d3: "snd (DirectSend net (PLabels wires) ''inputs'' s2) = s3"
    by (simp add: s3_def)
  have d4: "DirectRecv net as_query (0, 0) ''ot query'' s3 = (Inr (Offset, Count), s4)"
    using query
    by (simp add: prod_eq_iff s4_def DirectRecv_result s3_def s2_def s1_def DirectSend_session)
  have i0: "go_index (Inputs circ) 0 = Inr in0" and i1: "go_index (Inputs circ) 1 = Inr in1"
    using inputs by (simp_all add: go_index_def)
  have g3: "Garbler_G3 E net circ inputs garbled s2 = Garbler_G4 E net circ garbled s3"
    using d3 own i0
    by (cases "DirectSend net (PLabels wires) ''inputs'' s2")
      (auto simp: Garbler_G3_def Let_def split: option.splits)
  have g: "Garbler E net circ inputs s = Garbler_G4 E net circ garbled s3"
    using key garble d1 d2 g3 by (simp add: Garbler_def Garbler_G2_def)
  have g4: "Garbler_G4 E net circ garbled s3 =
     (if Offset \<noteq> Bits in0 \<or> Count \<noteq> Bits in1
      then (Inl (Error (PeerCantOT Offset (Offset + Count))), s4)
      else Garbler_G5 E net circ garbled Offset Count s4)"
    using d4 i0 i1 by (simp add: Garbler_G4_def)
  have a: "fst (Garbler E net circ inputs s) = Inl (Error (PeerCantOT Offset (Offset + Count)))
      \<longleftrightarrow> Offset \<noteq> Bits in0 \<or> Count \<noteq> Bits in1"
    by (simp add: g g4 Garbler_G5_not_PeerCantOT)
  have b: "Offset \<noteq> Bits in0 \<or> Count \<noteq> Bits in1 \<longrightarrow> snd (Garbler E net circ inputs s) = s4"
    by (simp add: g g4)
  have c: "Offset = Bits in0 \<and> Count = Bits in1 \<longrightarrow>
      Garbler E net circ inputs s = Garbler_G5 E net circ garbled Offset Count s4"
    by (simp add: g g4)
  have d: "0 \<le> sint Offset \<and> 0 \<le> sint Count \<and>
      sint Offset + sint Count \<le> int (length (Wires garbled)) \<longrightarrow>
        Garbler_G5 E net circ garbled Offset Count s4 =
          (case CO_Send E net
                  (take (nat (sint Count)) (drop (nat (sint Offset)) (Wires garbled))) s4 of
             (Some e, s5) \<Rightarrow> (Inl (Error e), s5)
           | (None, s5) \<Rightarrow> Garbler_G6 E net circ garbled s5)"
    using len by (simp add: Garbler_G5_def go_slice_in_range)
  from a b c d show ?thesis
    unfolding s4 Let_def by blast
qed

theorem Garbler_checks_ot_query_witness:
  "rand_Read toy_env = Inr (replicate 32 0) \<and>
   Garble toy_env toy_circuit (replicate 32 0) = Inr toy_garbled \<and>
   Inputs toy_circuit = [\<lparr>Bits = 1\<rparr>, \<lparr>Bits = 1\<rparr>] \<and>
   MessengerClient_DirectRecv toy_net as_query (0, 0)
     \<lparr>Sid = ''s'', Topic = ''ot query'', Src = 2, Dst = 1, Seq = 1\<rparr> = Inr (1, 1) \<and>
   fst (Garbler toy_env toy_net toy_circuit 1 \<lparr>link = garbler_conn, trace = []\<rparr>)
     \<noteq> Inl (Error (PeerCantOT 1 2)) \<and>
   Garbler toy_env toy_net toy_circuit 1 \<lparr>link = garbler_conn, trace = []\<rparr> =
     Garbler_G5 toy_env toy_net toy_circuit toy_garbled 1 1
       (run_calls toy_net
          [SendCall (PKey (replicate 32 0)) ''ephemeral key'', SendCall (PGates [[]]) ''garbled gates'',
           SendCall (PLabels [3]) ''inputs'', RecvCall ''ot query'']
          \<lparr>link = garbler_conn, trace = []\<rparr>) \<and>
   MessengerClient_DirectRecv overlong_net as_query (0, 0)
     \<lparr>Sid = ''s'', Topic = ''ot query'', Src = 2, Dst = 1, Seq = 1\<rparr> = Inr (1, 2) \<and>
   fst (Garbler toy_env overlong_net toy_circuit 1 \<lparr>link = garbler_conn, trace = []\<rparr>)
     = Inl (Error (PeerCantOT 1 3))"
proof -
  let ?s = "\<lparr>link = garbler_conn, trace = []\<rparr>"
  have k: "rand_Read toy_env = Inr (replicate 32 0)"
    and g: "Garble toy_env toy_circuit (replicate 32 0) = Inr toy_garbled"
    and i: "Inputs toy_circuit = [\<lparr>Bits = 1\<rparr>, \<lparr>Bits = 1\<rparr>]"
    and o: "Garbler_inputs toy_env toy_garbled 1 (loop_range (Bits \<lparr>Bits = 1\<rparr>)) = Inr [3]"
    and l: "length (Wires toy_garbled) < 2 ^ 63"
    by (simp_all add: toy_defs go_defs upt_rec)
  have s1: "net_DirectSend toy_net
        \<lparr>Sid = SessionId (conn (link ?s)), Topic = ''ephemeral key'',
          Src = je (link ?s), Dst = tu (link ?s), Seq = nsend (link ?s) + 1\<rparr>
        (PKey (replicate 32 0)) = None"
    and s2: "net_DirectSend toy_net
        \<lparr>Sid = SessionId (conn (link ?s)), Topic = ''garbled gates'',
          Src = je (link ?s), Dst = tu (link ?s), Seq = nsend (link ?s) + 1 + 1\<rparr>
        (PGates (Gates toy_garbled)) = None"
    and q: "MessengerClient_DirectRecv toy_net as_query (0, 0)
        \<lparr>Sid = SessionId (conn (link ?s)), Topic = ''ot query'',
          Src = tu (link ?s), Dst = je (link ?s), Seq = nrecv (link ?s) + 1\<rparr> = Inr (1, 1)"
    by (simp_all add: toy_defs MessengerClient_DirectRecv_def)
  have s1': "net_DirectSend overlong_net
        \<lparr>Sid = SessionId (conn (link ?s)), Topic = ''ephemeral key'',
          Src = je (link ?s), Dst = tu (link ?s), Seq = nsend (link ?s) + 1\<rparr>
        (PKey (replicate 32 0)) = None"
    and s2': "net_DirectSend overlong_net
        \<lparr>Sid = SessionId (conn (link ?s)), Topic = ''garbled gates'',
          Src = je (link ?s), Dst = tu (link ?s), Seq = nsend (link ?s) + 1 + 1\<rparr>
        (PGates (Gates toy_garbled)) = None"
    and q': "MessengerClient_DirectRecv overlong_net as_query (0, 0)
        \<lparr>Sid = SessionId (conn (link ?s)), Topic = ''ot query'',
          Src = tu (link ?s), Dst = je (link ?s), Seq = nrecv (link ?s) + 1\<rparr> = Inr (1, 2)"
    by (simp_all add: overlong_net_def toy_defs MessengerClient_DirectRecv_def)
  note match = Garbler_checks_ot_query [OF k g i o s1 s2 q l, unfolded Let_def]
  note mismatch = Garbler_checks_ot_query [OF k g i o s1' s2' q' l, unfolded Let_def]
  have a: "fst (Garbler toy_env toy_net toy_circuit 1 ?s) \<noteq> Inl (Error (PeerCantOT 1 2))"
    using match [THEN conjunct1] by simp
  have b: "Garbler toy_env toy_net toy_circuit 1 ?s =
     Garbler_G5 toy_env toy_net toy_circuit toy_garbled 1 1
       (run_calls toy_net
          [SendCall (PKey (replicate 32 0)) ''ephemeral key'', SendCall (PGates [[]]) ''garbled gates'',
           SendCall (PLabels [3]) ''inputs'', RecvCall ''ot query''] ?s)"
    using match [THEN conjunct2, THEN conjunct2, THEN conjunct1] by (simp add: toy_garbled_def)
  have c: "fst (Garbler toy_env overlong_net toy_circuit 1 ?s) = Inl (Error (PeerCantOT 1 3))"
    using mismatch [THEN conjunct1] by simp
  have q0: "MessengerClient_DirectRecv toy_net as_query (0, 0)
     \<lparr>Sid = ''s'', Topic = ''ot query'', Src = 2, Dst = 1, Seq = 1\<rparr> = Inr (1, 1)"
    using q by (simp add: garbler_conn_def)
  have q1: "MessengerClient_DirectRecv overlong_net as_query (0, 0)
     \<lparr>Sid = ''s'', Topic = ''ot query'', Src = 2, Dst = 1, Seq = 1\<rparr> = Inr (1, 2)"
    using q' by (simp add: garbler_conn_def)
  from k g i q0 a b q1 c show ?thesis by blast
qed



text \<open>
  Claim C8, as amended (the leading byte of the result buffer).  When the driver has
  run and \<open>getResult\<close> has produced the buffer \<open>val\<close>, each entry point of the library
  build returns \<open>val[1:]\<close> without error if \<open>val[0]\<close> is 1, and the error carrying the
  code \<open>val[1]\<close> (and the path of the circuit file), without payload, if \<open>val[0]\<close> is 0
  and a second byte follows; on the one-byte buffer \<open>[0]\<close> it panics at \<open>val[1]\<close>.  The
  evaluator's half needs only the evaluator's run, the garbler's half only the
  garbler's.
\<close>

theorem result_discriminator:
  "(length (Inputs circE) = 2 \<and> arg_Parse E (Inputs circE ! 1) args = Inr inputE \<and>
    Evaluator E net circE inputE sE = (Inr resultE, sE') \<and>
    getResult E resultE (Outputs circE) = Inr valE \<longrightarrow>
      (valE \<noteq> [] \<and> hd valE = 1 \<longrightarrow>
         fst (evaluator_fn_run E net path args (Some circE, v) sE) = Inr (tl valE)) \<and>
      (2 \<le> length valE \<and> hd valE = 0 \<longrightarrow>
         fst (evaluator_fn_run E net path args (Some circE, v) sE) =
           Inl (Error (MPCLInnerError (valE ! 1)
                 (case filepath_Abs E path of Inl e \<Rightarrow> path | Inr p \<Rightarrow> p)))) \<and>
      (valE = [0] \<longrightarrow>
         fst (evaluator_fn_run E net path args (Some circE, v) sE) = Inl (Panic IndexOutOfRange))) \<and>
   (loadCircuit E' path' [peer, []] = (Some circG, None) \<and> length (Inputs circG) = 2 \<and>
    arg_Parse E' (Inputs circG ! 0) args' = Inr inputG \<and>
    Garbler E' net' circG inputG (sG\<lparr>trace := trace sG @ [Loaded path' [peer, []]]\<rparr>)
      = (Inr resultG, sG') \<and>
    getResult E' resultG (Outputs circG) = Inr valG \<longrightarrow>
      (valG \<noteq> [] \<and> hd valG = 1 \<longrightarrow>
         fst (garbler_fn_run E' net' path' args' peer sG) = Inr (tl valG)) \<and>
      (2 \<le> length valG \<and> hd valG = 0 \<longrightarrow>
         fst (garbler_fn_run E' net' path' args' peer sG) =
           Inl (Error (MPCLInnerError (valG ! 1)
                 (case filepath_Abs E' path' of Inl e \<Rightarrow> path' | Inr p \<Rightarrow> p)))) \<and>
      (valG = [0] \<longrightarrow>
         fst (garbler_fn_run E' net' path' args' peer sG) = Inl (Panic IndexOutOfRange)))"
proof -
  have e: "fst (evaluator_fn_run E net path args (Some circE, v) sE) = discriminate E path valE"
    if "length (Inputs circE) = 2" "arg_Parse E (Inputs circE ! 1) args = Inr inputE"
      "Evaluator E net circE inputE sE = (Inr resultE, sE')"
      "getResult E resultE (Outputs circE) = Inr valE"
    using that by (simp add: evaluator_fn_run_def)
  have g: "fst (garbler_fn_run E' net' path' args' peer sG) = discriminate E' path' valG"
    if "loadCircuit E' path' [peer, []] = (Some circG, None)" "length (Inputs circG) = 2"
      "arg_Parse E' (Inputs circG ! 0) args' = Inr inputG"
      "Garbler E' net' circG inputG (sG\<lparr>trace := trace sG @ [Loaded path' [peer, []]]\<rparr>)
         = (Inr resultG, sG')"
      "getResult E' resultG (Outputs circG) = Inr valG"
    using that by (simp add: garbler_fn_run_def Let_def)
  show ?thesis
    using e g by (simp add: discriminate_one discriminate_zero discriminate_short)
qed

theorem result_discriminator_witness:
  "getResult toy_env [0] (Outputs toy_circuit) = Inr [1, 0] \<and>
   getResult failing_env [0] (Outputs toy_circuit) = Inr [0, 7] \<and>
   getResult short_env [0] (Outputs toy_circuit) = Inr [0] \<and>
   fst (evaluator_fn_run toy_env toy_net ''t.mpcl'' [''1''] (Some toy_circuit, [])
          \<lparr>link = evaluator_conn, trace = []\<rparr>) = Inr [0] \<and>
   fst (evaluator_fn_run failing_env toy_net ''t.mpcl'' [''1''] (Some toy_circuit, [])
          \<lparr>link = evaluator_conn, trace = []\<rparr>) = Inl (Error (MPCLInnerError 7 ''t.mpcl'')) \<and>
   fst (evaluator_fn_run short_env toy_net ''t.mpcl'' [''1''] (Some toy_circuit, [])
          \<lparr>link = evaluator_conn, trace = []\<rparr>) = Inl (Panic IndexOutOfRange) \<and>
   fst (garbler_fn_run toy_env toy_net ''t.mpcl'' [''1''] [1]
          \<lparr>link = garbler_conn, trace = []\<rparr>) = Inr [0] \<and>
   fst (garbler_fn_run failing_env toy_net ''t.mpcl'' [''1''] [1]
          \<lparr>link = garbler_conn, trace = []\<rparr>) = Inl (Error (MPCLInnerError 7 ''t.mpcl'')) \<and>
   fst (garbler_fn_run short_env toy_net ''t.mpcl'' [''1''] [1]
          \<lparr>link = garbler_conn, trace = []\<rparr>) = Inl (Panic IndexOutOfRange)"
proof -
  let ?sE = "\<lparr>link = evaluator_conn, trace = []\<rparr>"
  let ?sG = "\<lparr>link = garbler_conn, trace = []\<rparr>"
  let ?sG' = "?sG\<lparr>trace := trace ?sG @ [Loaded ''t.mpcl'' [[1], []]]\<rparr>"
  have i: "length (Inputs toy_circuit) = 2" by (simp add: toy_circuit_def)
  have p1: "arg_Parse toy_env (Inputs toy_circuit ! 1) [''1''] = Inr 1"
    and p0: "arg_Parse toy_env (Inputs toy_circuit ! 0) [''1''] = Inr 1"
    and l: "loadCircuit toy_env ''t.mpcl'' [[1], []] = (Some toy_circuit, None)"
    and r: "getResult toy_env [0] (Outputs toy_circuit) = Inr [1, 0]"
    by (simp_all add: toy_env_def loadCircuit_def getResult_def)
  have p1': "arg_Parse failing_env (Inputs toy_circuit ! 1) [''1''] = Inr 1"
    and p0': "arg_Parse failing_env (Inputs toy_circuit ! 0) [''1''] = Inr 1"
    and l': "loadCircuit failing_env ''t.mpcl'' [[1], []] = (Some toy_circuit, None)"
    and r': "getResult failing_env [0] (Outputs toy_circuit) = Inr [0, 7]"
    by (simp_all add: failing_env_def toy_env_def loadCircuit_def getResult_def)
  have p1'': "arg_Parse short_env (Inputs toy_circuit ! 1) [''1''] = Inr 1"
    and p0'': "arg_Parse short_env (Inputs toy_circuit ! 0) [''1''] = Inr 1"
    and l'': "loadCircuit short_env ''t.mpcl'' [[1], []] = (Some toy_circuit, None)"
    and r'': "getResult short_env [0] (Outputs toy_circuit) = Inr [0]"
    by (simp_all add: short_env_def toy_env_def loadCircuit_def getResult_def)
  have e: "Evaluator toy_env toy_net toy_circuit 1 ?sE
      = (Inr [0], snd (Evaluator toy_env toy_net toy_circuit 1 ?sE))"
    using toy_Evaluator_run by (simp add: prod_eq_iff)
  have e': "Evaluator failing_env toy_net toy_circuit 1 ?sE
      = (Inr [0], snd (Evaluator failing_env toy_net toy_circuit 1 ?sE))"
    using failing_Evaluator_run by (simp add: prod_eq_iff)
  have e'': "Evaluator short_env toy_net toy_circuit 1 ?sE
      = (Inr [0], snd (Evaluator short_env toy_net toy_circuit 1 ?sE))"
    using short_Evaluator_run by (simp add: prod_eq_iff)
  have g: "Garbler toy_env toy_net toy_circuit 1 ?sG'
      = (Inr [0], snd (Garbler toy_env toy_net toy_circuit 1 ?sG'))"
    using toy_Garbler_run by (simp add: prod_eq_iff)
  have g': "Garbler failing_env toy_net toy_circuit 1 ?sG'
      = (Inr [0], snd (Garbler failing_env toy_net toy_circuit 1 ?sG'))"
    using failing_Garbler_run by (simp add: prod_eq_iff)
  have g'': "Garbler short_env toy_net toy_circuit 1 ?sG'
      = (Inr [0], snd (Garbler short_env toy_net toy_circuit 1 ?sG'))"
    using short_Garbler_run by (simp add: prod_eq_iff)
  have a: "filepath_Abs toy_env ''t.mpcl'' = Inr ''t.mpcl''"
    "filepath_Abs failing_env ''t.mpcl'' = Inr ''t.mpcl''"
    by (simp_all add: toy_env_def failing_env_def)
  note ok = result_discriminator [where E = toy_env and E' = toy_env and net = toy_net
      and net' = toy_net and circE = toy_circuit and circG = toy_circuit and path = "''t.mpcl''"
      and path' = "''t.mpcl''" and args = "[''1'']" and args' = "[''1'']" and inputE = 1
      and inputG = 1 and sE = ?sE and sG = ?sG and resultE = "[0]" and resultG = "[0]"
      and valE = "[1, 0]" and valG = "[1, 0]" and peer = "[1]" and v = "[]"
      and sE' = "snd (Evaluator toy_env toy_net toy_circuit 1 ?sE)"
      and sG' = "snd (Garbler toy_env toy_net toy_circuit 1 ?sG')"]
  note bad = result_discriminator [where E = failing_env and E' = failing_env and net = toy_net
      and net' = toy_net and circE = toy_circuit and circG = toy_circuit and path = "''t.mpcl''"
      and path' = "''t.mpcl''" and args = "[''1'']" and args' = "[''1'']" and inputE = 1
      and inputG = 1 and sE = ?sE and sG = ?sG and resultE = "[0]" and resultG = "[0]"
      and valE = "[0, 7]" and valG = "[0, 7]" and peer = "[1]" and v = "[]"
      and sE' = "snd (Evaluator failing_env toy_net toy_circuit 1 ?sE)"
      and sG' = "snd (Garbler failing_env toy_net toy_circuit 1 ?sG')"]
  note short = result_discriminator [where E = short_env and E' = short_env and net = toy_net
      and net' = toy_net and circE = toy_circuit and circG = toy_circuit and path = "''t.mpcl''"
      and path' = "''t.mpcl''" and args = "[''1'']" and args' = "[''1'']" and inputE = 1
      and inputG = 1 and sE = ?sE and sG = ?sG and resultE = "[0]" and resultG = "[0]"
      and valE = "[0]" and valG = "[0]" and peer = "[1]" and v = "[]"
      and sE' = "snd (Evaluator short_env toy_net toy_circuit 1 ?sE)"
      and sG' = "snd (Garbler short_env toy_net toy_circuit 1 ?sG')"]
  have 1: "fst (evaluator_fn_run toy_env toy_net ''t.mpcl'' [''1''] (Some toy_circuit, []) ?sE)
      = Inr [0]"
    and 2: "fst (garbler_fn_run toy_env toy_net ''t.mpcl'' [''1''] [1] ?sG) = Inr [0]"
    using ok i p1 e r l p0 g by simp_all
  have 3: "fst (evaluator_fn_run failing_env toy_net ''t.mpcl'' [''1''] (Some toy_circuit, []) ?sE)
      = Inl (Error (MPCLInnerError 7 ''t.mpcl''))"
    and 4: "fst (garbler_fn_run failing_env toy_net ''t.mpcl'' [''1''] [1] ?sG)
      = Inl (Error (MPCLInnerError 7 ''t.mpcl''))"
    using bad i p1' e' r' l' p0' g' a by simp_all
  have 5: "fst (evaluator_fn_run short_env toy_net ''t.mpcl'' [''1''] (Some toy_circuit, []) ?sE)
      = Inl (Panic IndexOutOfRange)"
    and 6: "fst (garbler_fn_run short_env toy_net ''t.mpcl'' [''1''] [1] ?sG)
      = Inl (Panic IndexOutOfRange)"
    using short i p1'' e'' r'' l'' p0'' g'' by simp_all
  from r r' r'' 1 2 3 4 5 6 show ?thesis by simp
qed

text \<open>
  Claim C8 as stated fails on a buffer that holds the byte 0 alone.  With a result
  formatter that yields \<open>[0]\<close> for the one-gate session, both entry points run the
  whole session and then panic at \<open>val[1]\<close> instead of returning an error.
\<close>

theorem result_discriminator_counterexample:
  "getResult short_env [0] (Outputs toy_circuit) = Inr [0] \<and>
   fst (evaluator_fn short_env toy_net ''t.mpcl'' ''relay'' ''s'' ''1'' ''2'' ''3'' ''4'')
     = Inl (Panic IndexOutOfRange) \<and>
   fst (garbler_fn short_env toy_net ''t.mpcl'' ''relay'' ''s'' ''1'' ''2'' ''3'' ''4'')
     = Inl (Panic IndexOutOfRange)"
  by (simp add: short_env_def toy_defs go_defs conn_defs evaluator_defs garbler_defs main_defs
      Let_def upt_rec)

text \<open>
  Claim C9 (the evaluator's dead cache).  The guard of \<open>evaluator_fn\<close> compares the
  peer's sizes with a slice that is empty, so the circuit is loaded exactly when
  the peer's sizes are not empty; what the branch stores in \<open>oPeerInputSizes\<close> has no
  influence on the rest of the function, in either build.
\<close>

theorem evaluator_circuit_guard:
  "(slices_Compare peer [] \<noteq> 0 \<longleftrightarrow> peer \<noteq> []) \<and>
   trace (snd (evaluator_fn_load E path sizes peer s)) =
     trace s @ (if peer \<noteq> [] then [Loaded path sizes] else []) \<and>
   (peer = [] \<longrightarrow> fst (evaluator_fn_load E path sizes peer s) = Inr (None, [])) \<and>
   (peer \<noteq> [] \<longrightarrow>
      fst (evaluator_fn_load E path sizes peer s) =
        (case loadCircuit E path sizes of
           (circ, Some e) \<Rightarrow> Inl (Wrap ''in evaluator_fn()'' e)
         | (circ, None) \<Rightarrow> Inr (circ, peer))) \<and>
   evaluator_fn_run E net path args (circ, v) s = evaluator_fn_run E net path args (circ, v') s \<and>
   evaluator_fn_cli_run E net args (circ, v) s = evaluator_fn_cli_run E net args (circ, v') s"
  by (auto simp: slices_Compare_empty evaluator_fn_load_def Let_def evaluator_fn_run_def
      evaluator_fn_cli_run_def split: prod.splits option.splits)

theorem evaluator_circuit_guard_witness:
  "trace (snd (evaluator_fn_load toy_env ''t.mpcl'' [[1], [1]] [1]
       \<lparr>link = evaluator_conn, trace = []\<rparr>)) = [Loaded ''t.mpcl'' [[1], [1]]] \<and>
   fst (evaluator_fn_load toy_env ''t.mpcl'' [[1], [1]] [1] \<lparr>link = evaluator_conn, trace = []\<rparr>)
     = Inr (Some toy_circuit, [1]) \<and>
   trace (snd (evaluator_fn_load toy_env ''t.mpcl'' [[], [1]] []
       \<lparr>link = evaluator_conn, trace = []\<rparr>)) = [] \<and>
   fst (evaluator_fn_load toy_env ''t.mpcl'' [[], [1]] [] \<lparr>link = evaluator_conn, trace = []\<rparr>)
     = Inr (None, []) \<and>
   evaluator_fn_run toy_env toy_net ''t.mpcl'' [''1''] (Some toy_circuit, [1])
       \<lparr>link = evaluator_conn, trace = []\<rparr> =
   evaluator_fn_run toy_env toy_net ''t.mpcl'' [''1''] (Some toy_circuit, [])
       \<lparr>link = evaluator_conn, trace = []\<rparr>"
proof -
  have l: "loadCircuit toy_env ''t.mpcl'' [[1], [1]] = (Some toy_circuit, None)"
    by (simp add: toy_env_def loadCircuit_def)
  show ?thesis
    using evaluator_circuit_guard [of "[1]" toy_env "''t.mpcl''" "[[1], [1]]"
        "\<lparr>link = evaluator_conn, trace = []\<rparr>" toy_net "[''1'']" "Some toy_circuit" "[1]" "[]"]
      evaluator_circuit_guard [of "[]" toy_env "''t.mpcl''" "[[], [1]]"
        "\<lparr>link = evaluator_conn, trace = []\<rparr>" toy_net "[''1'']" "Some toy_circuit" "[1]" "[]"]
    by (simp add: l)
qed

text \<open>
  Claim C10 (the circuit pointer may be nil).  Let the connection be made, the own
  sizes be sent and the peer's sizes \<open>peer\<close> be received, and let the circuit load
  yield a circuit whenever it is run.  Then \<open>evaluator_fn\<close>, in either build, panics
  on the nil circuit exactly when \<open>peer\<close> is empty.
\<close>

theorem evaluator_nil_circuit:
  assumes new: "NewConn net False hostport sid = Inr c"
    and sizes: "InputSizes E [ui, cc, cnum, ord] = Inr my"
    and send: "net_DirectSend net \<lparr>Sid = SessionId (conn c), Topic = ''input sizes'',
           Src = je c, Dst = tu c, Seq = 1\<rparr> (PInts my) = None"
    and recv: "MessengerClient_DirectRecv net as_ints [] \<lparr>Sid = SessionId (conn c), Topic = ''input sizes'',
           Src = tu c, Dst = je c, Seq = 1\<rparr> = Inr peer"
    and load: "peer \<noteq> [] \<longrightarrow> (\<exists>circ. loadCircuit E path [peer, my] = (Some circ, None))"
  shows "(fst (evaluator_fn E net path hostport sid ui cc cnum ord) = Inl (Panic NilDereference)
            \<longleftrightarrow> peer = []) \<and>
         (fst (evaluator_fn_cli E net hostport sid [ui, cc, cnum, ord] path)
            = Inl (Panic NilDereference) \<longleftrightarrow> peer = [])"
proof -
  have z: "nsend c = 0" "nrecv c = 0"
    using NewConn_fields [OF new] by simp_all
  from exchange_sizes_ok [of E "[ui, cc, cnum, ord]" my net c peer] sizes send recv z
  obtain s1 where x: "exchange_sizes E net [ui, cc, cnum, ord] ''in evaluator_fn()''
      ''in evaluator_fn()'' \<lparr>link = c, trace = []\<rparr> = (Inr (my, peer), s1)"
    by auto
  show ?thesis
  proof (cases "peer = []")
    case True
    then have l: "evaluator_fn_load E path [peer, my] peer s1 = (Inr (None, []), s1)"
      by (simp add: evaluator_fn_load_def)
    show ?thesis
      using True new x l
      by (simp add: evaluator_fn_def evaluator_fn_cli_def evaluator_fn_run_def
          evaluator_fn_cli_run_def Let_def)
  next
    case False
    with load obtain circ where "loadCircuit E path [peer, my] = (Some circ, None)"
      by blast
    with False have l: "evaluator_fn_load E path [peer, my] peer s1 =
        (Inr (Some circ, peer), s1\<lparr>trace := trace s1 @ [Loaded path [peer, my]]\<rparr>)"
      by (simp add: evaluator_fn_load_def slices_Compare_empty Let_def)
    let ?s2 = "s1\<lparr>trace := trace s1 @ [Loaded path [peer, my]]\<rparr>"
    have 1: "fst (evaluator_fn E net path hostport sid ui cc cnum ord)
        = fst (evaluator_fn_run E net path [ui, cc, cnum, ord] (Some circ, peer) ?s2)"
      using new x l by (simp add: evaluator_fn_def Let_def split: prod.splits)
    have 2: "fst (evaluator_fn_cli E net hostport sid [ui, cc, cnum, ord] path)
        = fst (evaluator_fn_cli_run E net [ui, cc, cnum, ord] (Some circ, peer) ?s2)"
      using new x l by (simp add: evaluator_fn_cli_def Let_def split: prod.splits)
    show ?thesis
      using False by (simp add: 1 2 evaluator_fn_run_nil_iff evaluator_fn_cli_run_nil_iff)
  qed
qed

theorem evaluator_nil_circuit_witness:
  "NewConn silent_net False ''relay'' ''s'' = Inr evaluator_conn \<and>
   MessengerClient_DirectRecv silent_net as_ints []
     \<lparr>Sid = ''s'', Topic = ''input sizes'', Src = 1, Dst = 2, Seq = 1\<rparr> = Inr [] \<and>
   fst (evaluator_fn toy_env silent_net ''t.mpcl'' ''relay'' ''s'' ''1'' ''2'' ''3'' ''4'')
     = Inl (Panic NilDereference) \<and>
   fst (evaluator_fn_cli toy_env silent_net ''relay'' ''s'' [''1'', ''2'', ''3'', ''4''] ''t.mpcl'')
     = Inl (Panic NilDereference) \<and>
   MessengerClient_DirectRecv toy_net as_ints []
     \<lparr>Sid = ''s'', Topic = ''input sizes'', Src = 1, Dst = 2, Seq = 1\<rparr> = Inr [1, 1, 1, 1] \<and>
   fst (evaluator_fn toy_env toy_net ''t.mpcl'' ''relay'' ''s'' ''1'' ''2'' ''3'' ''4'')
     \<noteq> Inl (Panic NilDereference) \<and>
   fst (evaluator_fn_cli toy_env toy_net ''relay'' ''s'' [''1'', ''2'', ''3'', ''4''] ''t.mpcl'')
     \<noteq> Inl (Panic NilDereference)"
proof -
  have n: "NewConn silent_net False ''relay'' ''s'' = Inr evaluator_conn"
    and n': "NewConn toy_net False ''relay'' ''s'' = Inr evaluator_conn"
    by (simp_all add: NewConn_def silent_net_def toy_net_def evaluator_conn_def)
  have z: "InputSizes toy_env [''1'', ''2'', ''3'', ''4''] = Inr [1, 1, 1, 1]"
    by (simp add: toy_env_def)
  have s: "net_DirectSend silent_net \<lparr>Sid = SessionId (conn evaluator_conn), Topic = ''input sizes'',
           Src = je evaluator_conn, Dst = tu evaluator_conn, Seq = 1\<rparr> (PInts [1, 1, 1, 1]) = None"
    and s': "net_DirectSend toy_net \<lparr>Sid = SessionId (conn evaluator_conn), Topic = ''input sizes'',
           Src = je evaluator_conn, Dst = tu evaluator_conn, Seq = 1\<rparr> (PInts [1, 1, 1, 1]) = None"
    by (simp_all add: silent_net_def toy_net_def)
  have r: "MessengerClient_DirectRecv silent_net as_ints []
      \<lparr>Sid = SessionId (conn evaluator_conn), Topic = ''input sizes'',
        Src = tu evaluator_conn, Dst = je evaluator_conn, Seq = 1\<rparr> = Inr []"
    and r': "MessengerClient_DirectRecv toy_net as_ints []
      \<lparr>Sid = SessionId (conn evaluator_conn), Topic = ''input sizes'',
        Src = tu evaluator_conn, Dst = je evaluator_conn, Seq = 1\<rparr> = Inr [1, 1, 1, 1]"
    by (simp_all add: MessengerClient_DirectRecv_def silent_net_def toy_net_def toy_answer_def)
  have l: "([] :: 64 word list) \<noteq> [] \<longrightarrow>
      (\<exists>circ. loadCircuit toy_env ''t.mpcl'' [[], [1, 1, 1, 1]] = (Some circ, None))"
    by simp
  have l': "([1, 1, 1, 1] :: 64 word list) \<noteq> [] \<longrightarrow>
      (\<exists>circ. loadCircuit toy_env ''t.mpcl'' [[1, 1, 1, 1], [1, 1, 1, 1]] = (Some circ, None))"
    by (simp add: toy_env_def loadCircuit_def)
  note nil = evaluator_nil_circuit [OF n z s r l]
  note ok = evaluator_nil_circuit [OF n' z s' r' l']
  from nil ok n r r' show ?thesis
    by (simp add: evaluator_conn_def)
qed

section \<open>Refused calls that the drivers report\<close>

lemma heeded_Nil: "heeded P net []"
  by (simp add: heeded_def)

lemma heeded_snoc:
  "heeded P net (tr @ [ev]) \<longleftrightarrow> heeded P net tr \<and> (refused net ev \<longrightarrow> P ev)"
  by (auto simp: heeded_def)

lemma refused_Sent: "refused net (Sent mid p) \<longleftrightarrow> net_DirectSend net mid p \<noteq> None"
  by (simp add: refused_def)

lemma refused_Requested_Inr: "net_DirectRecv net mid = Inr p \<Longrightarrow> \<not> refused net (Requested mid)"
  by (simp add: refused_def)

lemma refused_Loaded: "\<not> refused net (Loaded path sizes)"
  by (simp add: refused_def)

lemma heeded_send:
  "DirectSend net p t s = (None, s1) \<Longrightarrow> heeded P net (trace s) \<Longrightarrow> heeded P net (trace s1)"
  by (auto simp: DirectSend_def Let_def heeded_snoc refused_Sent split: option.splits)

lemma heeded_recv:
  "DirectRecv net d out t s = (Inr v, s1) \<Longrightarrow> heeded P net (trace s) \<Longrightarrow>
     heeded P net (trace s1)"
  by (auto simp: DirectRecv_def MessengerClient_DirectRecv_def Let_def heeded_snoc
      refused_Requested_Inr split: sum.splits option.splits)

lemma heeded_inputs_send:
  "DirectSend net p ''inputs'' s = (r, s1) \<Longrightarrow> heeded inputs_send net (trace s) \<Longrightarrow>
     heeded inputs_send net (trace s1)"
  by (auto simp: DirectSend_def Let_def heeded_snoc inputs_send_def split: option.splits)

lemma heeded_load:
  "heeded P net (trace s) \<Longrightarrow> heeded P net (trace s @ [Loaded path sizes])"
  by (simp add: heeded_snoc refused_Loaded)

lemma CO_Send_heeds:
  "CO_Send E net wires s = (r, s') \<Longrightarrow> heeded P net (trace s) \<Longrightarrow>
     r \<noteq> None \<or> heeded P net (trace s')"
  unfolding CO_Send_def
  by (auto split: sum.splits prod.splits option.splits dest: heeded_send heeded_recv)

lemma CO_Receive_heeds:
  "CO_Receive E net flags result s = (r, s') \<Longrightarrow> heeded P net (trace s) \<Longrightarrow>
     (\<exists>e. r = Inl e) \<or> heeded P net (trace s')"
  unfolding CO_Receive_def
  by (auto split: sum.splits prod.splits option.splits if_splits dest: heeded_send heeded_recv)

lemma Garbler_G7_heeds:
  "Garbler_G7 E net circ garbled labels s = (r, s') \<Longrightarrow> heeded P net (trace s) \<Longrightarrow>
     (\<exists>e. r = Inl (Error e)) \<or> heeded P net (trace s')"
  unfolding Garbler_G7_def
  by (auto split: sum.splits prod.splits option.splits dest: heeded_send heeded_recv)

lemma Garbler_G6_heeds:
  "Garbler_G6 E net circ garbled s = (r, s') \<Longrightarrow> heeded P net (trace s) \<Longrightarrow>
     (\<exists>e. r = Inl (Error e)) \<or> heeded P net (trace s')"
  unfolding Garbler_G6_def
  by (auto split: sum.splits prod.splits option.splits dest: heeded_recv Garbler_G7_heeds)

lemma Garbler_G5_heeds:
  "Garbler_G5 E net circ garbled Offset Count s = (r, s') \<Longrightarrow> heeded P net (trace s) \<Longrightarrow>
     (\<exists>e. r = Inl (Error e)) \<or> heeded P net (trace s')"
  unfolding Garbler_G5_def
  by (auto split: sum.splits prod.splits option.splits dest: CO_Send_heeds Garbler_G6_heeds)

lemma Garbler_G4_heeds:
  "Garbler_G4 E net circ garbled s = (r, s') \<Longrightarrow> heeded P net (trace s) \<Longrightarrow>
     (\<exists>e. r = Inl (Error e)) \<or> heeded P net (trace s')"
  unfolding Garbler_G4_def
  by (auto split: sum.splits prod.splits option.splits if_splits
      dest: heeded_recv Garbler_G5_heeds)

lemma Garbler_G3_heeds:
  "Garbler_G3 E net circ inputs garbled s = (r, s') \<Longrightarrow> heeded inputs_send net (trace s) \<Longrightarrow>
     (\<exists>e. r = Inl (Error e)) \<or> heeded inputs_send net (trace s')"
  unfolding Garbler_G3_def
  by (auto simp: Let_def split: sum.splits prod.splits option.splits
      dest: heeded_inputs_send Garbler_G4_heeds)

lemma Garbler_G2_heeds:
  "Garbler_G2 E net circ inputs garbled s = (r, s') \<Longrightarrow> heeded inputs_send net (trace s) \<Longrightarrow>
     (\<exists>e. r = Inl (Error e)) \<or> heeded inputs_send net (trace s')"
  unfolding Garbler_G2_def
  by (auto split: sum.splits prod.splits option.splits dest: heeded_send Garbler_G3_heeds)

lemma Garbler_heeds:
  "Garbler E net circ inputs s = (r, s') \<Longrightarrow> heeded inputs_send net (trace s) \<Longrightarrow>
     (\<exists>e. r = Inl (Error e)) \<or> heeded inputs_send net (trace s')"
  unfolding Garbler_def
  by (auto split: sum.splits prod.splits option.splits dest: heeded_send Garbler_G2_heeds)


lemma Evaluator_E7_heeds:
  "Evaluator_E7 E net circ s = (r, s') \<Longrightarrow> heeded P net (trace s) \<Longrightarrow>
     (\<exists>e. r = Inl (Error e)) \<or> heeded P net (trace s')"
  unfolding Evaluator_E7_def
  by (auto split: sum.splits prod.splits option.splits dest: heeded_recv)

lemma Evaluator_E6_heeds:
  "Evaluator_E6 E net circ wires s = (r, s') \<Longrightarrow> heeded P net (trace s) \<Longrightarrow>
     (\<exists>e. r = Inl (Error e)) \<or> heeded P net (trace s')"
  unfolding Evaluator_E6_def
  by (auto split: sum.splits prod.splits option.splits dest: heeded_send Evaluator_E7_heeds)

lemma Evaluator_E5_heeds:
  "Evaluator_E5 E net circ inputs key garbled wires spare in0 in1 s = (r, s') \<Longrightarrow>
     heeded P net (trace s) \<Longrightarrow> (\<exists>e. r = Inl (Error e)) \<or> heeded P net (trace s')"
  unfolding Evaluator_E5_def
  by (auto simp: Let_def split: sum.splits prod.splits option.splits
      dest: CO_Receive_heeds Evaluator_E6_heeds)

lemma Evaluator_E4_heeds:
  "Evaluator_E4 E net circ inputs key garbled wires spare s = (r, s') \<Longrightarrow>
     heeded P net (trace s) \<Longrightarrow> (\<exists>e. r = Inl (Error e)) \<or> heeded P net (trace s')"
  unfolding Evaluator_E4_def
  by (auto split: sum.splits prod.splits option.splits dest: heeded_send Evaluator_E5_heeds)

lemma Evaluator_E3_heeds:
  "Evaluator_E3 E net circ inputs key garbled s = (r, s') \<Longrightarrow>
     heeded P net (trace s) \<Longrightarrow> (\<exists>e. r = Inl (Error e)) \<or> heeded P net (trace s')"
  unfolding Evaluator_E3_def
  by (auto split: sum.splits prod.splits option.splits dest: heeded_recv Evaluator_E4_heeds)

lemma Evaluator_E2_heeds:
  "Evaluator_E2 E net circ inputs key s = (r, s') \<Longrightarrow>
     heeded P net (trace s) \<Longrightarrow> (\<exists>e. r = Inl (Error e)) \<or> heeded P net (trace s')"
  unfolding Evaluator_E2_def
  by (auto split: sum.splits prod.splits option.splits dest: heeded_recv Evaluator_E3_heeds)

lemma Evaluator_heeds:
  "Evaluator E net circ inputs s = (r, s') \<Longrightarrow>
     heeded P net (trace s) \<Longrightarrow> (\<exists>e. r = Inl (Error e)) \<or> heeded P net (trace s')"
  unfolding Evaluator_def
  by (auto split: sum.splits prod.splits option.splits dest: heeded_recv Evaluator_E2_heeds)

lemma exchange_sizes_heeds:
  "exchange_sizes E net args ctx ctx' s = (r, s') \<Longrightarrow> heeded P net (trace s) \<Longrightarrow>
     (\<exists>e. r = Inl e) \<or> heeded P net (trace s')"
  unfolding exchange_sizes_def
  by (auto split: sum.splits prod.splits option.splits dest: heeded_send heeded_recv)

lemma evaluator_fn_load_heeds:
  "evaluator_fn_load E path sizes peer s = (r, s') \<Longrightarrow> heeded P net (trace s) \<Longrightarrow>
     heeded P net (trace s')"
  unfolding evaluator_fn_load_def
  by (auto simp: Let_def heeded_load split: sum.splits prod.splits option.splits if_splits)

lemma evaluator_fn_run_heeds:
  "evaluator_fn_run E net path args locals s = (r, s') \<Longrightarrow> heeded P net (trace s) \<Longrightarrow>
     (\<exists>e. r = Inl (Error e)) \<or> heeded P net (trace s')"
  unfolding evaluator_fn_run_def
  by (auto split: sum.splits prod.splits option.splits if_splits fault.splits
      dest: Evaluator_not_EOF Evaluator_heeds)

lemma evaluator_fn_cli_run_heeds:
  "evaluator_fn_cli_run E net args locals s = (r, s') \<Longrightarrow> heeded P net (trace s) \<Longrightarrow>
     (\<exists>e. r = Inl (Error e)) \<or> heeded P net (trace s')"
  unfolding evaluator_fn_cli_run_def
  by (auto split: sum.splits prod.splits option.splits if_splits fault.splits
      dest: Evaluator_not_EOF Evaluator_heeds)

lemma garbler_fn_run_heeds:
  "garbler_fn_run E net path args peer s = (r, s') \<Longrightarrow> heeded inputs_send net (trace s) \<Longrightarrow>
     (\<exists>e. r = Inl (Error e)) \<or> heeded inputs_send net (trace s')"
  unfolding garbler_fn_run_def
  by (auto simp: Let_def heeded_load split: sum.splits prod.splits option.splits if_splits fault.splits
      dest: Garbler_heeds [where s = "s\<lparr>trace := trace s @ [Loaded path [peer, []]]\<rparr>"])


lemma garbler_fn_heeds:
  assumes "garbler_fn E net path hostport sid ui cc cnum ord = (r, tr)"
  shows "(\<exists>e. r = Inl (Error e)) \<or> heeded inputs_send net tr"
proof (cases "NewConn net True hostport sid")
  case (Inl e)
  with assms show ?thesis by (auto simp: garbler_fn_def)
next
  case (Inr c)
  obtain x s1 where x: "exchange_sizes E net [ui, cc, cnum, ord] ''in garbler_fn()''
      ''in evaluator_fn()'' \<lparr>link = c, trace = []\<rparr> = (x, s1)"
    by (cases "exchange_sizes E net [ui, cc, cnum, ord] ''in garbler_fn()''
      ''in evaluator_fn()'' \<lparr>link = c, trace = []\<rparr>")
  from exchange_sizes_heeds [OF x] have h: "(\<exists>e. x = Inl e) \<or> heeded inputs_send net (trace s1)"
    by (simp add: heeded_Nil)
  show ?thesis
  proof (cases x)
    case (Inl e)
    with assms Inr x show ?thesis by (auto simp: garbler_fn_def)
  next
    case (Inr sizes)
    obtain my peer where sizes: "sizes = (my, peer)" by (cases sizes)
    obtain r2 s2 where r2: "garbler_fn_run E net path [ui, cc, cnum, ord] peer s1 = (r2, s2)"
      by (cases "garbler_fn_run E net path [ui, cc, cnum, ord] peer s1")
    from h Inr have "heeded inputs_send net (trace s1)" by simp
    from garbler_fn_run_heeds [OF r2 this] assms \<open>NewConn net True hostport sid = Inr c\<close> x Inr sizes r2
    show ?thesis by (auto simp: garbler_fn_def)
  qed
qed

lemma evaluator_fn_heeds:
  assumes "evaluator_fn E net path hostport sid ui cc cnum ord = (r, tr)"
  shows "(\<exists>e. r = Inl (Error e)) \<or> heeded P net tr"
proof (cases "NewConn net False hostport sid")
  case (Inl e)
  with assms show ?thesis by (auto simp: evaluator_fn_def)
next
  case (Inr c)
  obtain x s1 where x: "exchange_sizes E net [ui, cc, cnum, ord] ''in evaluator_fn()''
      ''in evaluator_fn()'' \<lparr>link = c, trace = []\<rparr> = (x, s1)"
    by (cases "exchange_sizes E net [ui, cc, cnum, ord] ''in evaluator_fn()''
      ''in evaluator_fn()'' \<lparr>link = c, trace = []\<rparr>")
  from exchange_sizes_heeds [OF x] have h: "(\<exists>e. x = Inl e) \<or> heeded P net (trace s1)"
    by (simp add: heeded_Nil)
  show ?thesis
  proof (cases x)
    case (Inl e)
    with assms Inr x show ?thesis by (auto simp: evaluator_fn_def)
  next
    case (Inr sizes)
    obtain my peer where sizes: "sizes = (my, peer)" by (cases sizes)
    from h Inr have h1: "heeded P net (trace s1)" by simp
    obtain l s2 where l: "evaluator_fn_load E path [peer, my] peer s1 = (l, s2)"
      by (cases "evaluator_fn_load E path [peer, my] peer s1")
    from evaluator_fn_load_heeds [OF l h1] have h2: "heeded P net (trace s2)" .
    show ?thesis
    proof (cases l)
      case (Inl e)
      with assms \<open>NewConn net False hostport sid = Inr c\<close> x \<open>x = Inr sizes\<close> sizes l
      show ?thesis by (auto simp: evaluator_fn_def)
    next
      case (Inr locals)
      obtain r3 s3 where r3: "evaluator_fn_run E net path [ui, cc, cnum, ord] locals s2 = (r3, s3)"
        by (cases "evaluator_fn_run E net path [ui, cc, cnum, ord] locals s2")
      from evaluator_fn_run_heeds [OF r3 h2] assms \<open>NewConn net False hostport sid = Inr c\<close>
        x \<open>x = Inr sizes\<close> sizes l Inr r3
      show ?thesis by (auto simp: evaluator_fn_def)
    qed
  qed
qed


lemma broken_Garbler_run:
  "fst (Garbler toy_env broken_net toy_circuit 1 \<lparr>link = garbler_conn, trace = []\<rparr>) =
     Inl (Error (Wrap ''in mpc_hd::Garbler(...), when sending result''
       (Wrap ''in mpc_hd::Conn::DirectSend(&self, any)'' (Opaque ''unavailable''))))"
  by (simp add: broken_net_def toy_defs go_defs conn_defs garbler_defs Let_def upt_rec)

lemma broken_Evaluator_run:
  "fst (Evaluator toy_env broken_net toy_circuit 1 \<lparr>link = evaluator_conn, trace = []\<rparr>) =
     Inl (Error (Wrap ''in mpc_hd::Evaluator(...), when receiving result.''
       (Wrap ''in mpc_hd::Conn::DirectRecv(&self, any)''
         (Wrap ''[ DirectRecv ] failed to post object'' (Opaque ''unavailable'')))))"
  by (simp add: broken_net_def toy_defs go_defs conn_defs evaluator_defs Let_def upt_rec)

text \<open>
  Apart from the send of the garbler's input labels, a call that the relay refuses
  ends the garbler with an error: whenever a refused call other than a send under
  \<open>inputs\<close> is among the calls of \<open>Garbler\<close>, or of \<open>garbler_fn\<close>, the function returns
  an error.
\<close>

theorem Garbler_reports_refused_calls:
  assumes "refused net ev" and "\<not> inputs_send ev"
  shows "(ev \<in> set (trace (snd (Garbler E net circ inputs \<lparr>link = c, trace = []\<rparr>))) \<longrightarrow>
            (\<exists>e. fst (Garbler E net circ inputs \<lparr>link = c, trace = []\<rparr>) = Inl (Error e))) \<and>
         (ev \<in> set (snd (garbler_fn E net path hostport sid ui cc cnum ord)) \<longrightarrow>
            (\<exists>e. fst (garbler_fn E net path hostport sid ui cc cnum ord) = Inl (Error e)))"
proof -
  have "(\<exists>e. fst (Garbler E net circ inputs \<lparr>link = c, trace = []\<rparr>) = Inl (Error e)) \<or>
      heeded inputs_send net (trace (snd (Garbler E net circ inputs \<lparr>link = c, trace = []\<rparr>)))"
    by (rule Garbler_heeds [of E net circ inputs "\<lparr>link = c, trace = []\<rparr>"])
      (simp_all add: heeded_Nil)
  moreover have "(\<exists>e. fst (garbler_fn E net path hostport sid ui cc cnum ord) = Inl (Error e)) \<or>
      heeded inputs_send net (snd (garbler_fn E net path hostport sid ui cc cnum ord))"
    by (rule garbler_fn_heeds) simp
  ultimately show ?thesis
    using assms unfolding heeded_def by blast
qed

theorem Garbler_reports_refused_calls_example:
  "refused broken_net (Sent \<lparr>Sid = ''s'', Topic = ''result'', Src = 1, Dst = 2, Seq = 6\<rparr> (PBigInt 0)) \<and>
   \<not> inputs_send (Sent \<lparr>Sid = ''s'', Topic = ''result'', Src = 1, Dst = 2, Seq = 6\<rparr> (PBigInt 0)) \<and>
   Sent \<lparr>Sid = ''s'', Topic = ''result'', Src = 1, Dst = 2, Seq = 6\<rparr> (PBigInt 0)
     \<in> set (trace (snd (Garbler toy_env broken_net toy_circuit 1 \<lparr>link = garbler_conn, trace = []\<rparr>))) \<and>
   (\<exists>e. fst (Garbler toy_env broken_net toy_circuit 1 \<lparr>link = garbler_conn, trace = []\<rparr>)
          = Inl (Error e))"
proof -
  let ?ev = "Sent \<lparr>Sid = ''s'', Topic = ''result'', Src = 1, Dst = 2, Seq = 6\<rparr> (PBigInt 0)"
  have r: "refused broken_net ?ev" and i: "\<not> inputs_send ?ev"
    by (simp_all add: refused_def inputs_send_def broken_net_def)
  have m: "?ev \<in> set (trace (snd (Garbler toy_env broken_net toy_circuit 1
      \<lparr>link = garbler_conn, trace = []\<rparr>)))"
    by (simp add: broken_net_def toy_defs go_defs conn_defs garbler_defs Let_def upt_rec)
  from Garbler_reports_refused_calls [OF r i, THEN conjunct1, rule_format, OF m] r i m
  show ?thesis by blast
qed

text \<open>
  A call that the relay refuses ends the evaluator with an error: whenever a refused
  call is among the calls of \<open>Evaluator\<close>, or of \<open>evaluator_fn\<close>, the function returns
  an error.
\<close>

theorem Evaluator_reports_refused_calls:
  assumes "refused net ev"
  shows "(ev \<in> set (trace (snd (Evaluator E net circ inputs \<lparr>link = c, trace = []\<rparr>))) \<longrightarrow>
            (\<exists>e. fst (Evaluator E net circ inputs \<lparr>link = c, trace = []\<rparr>) = Inl (Error e))) \<and>
         (ev \<in> set (snd (evaluator_fn E net path hostport sid ui cc cnum ord)) \<longrightarrow>
            (\<exists>e. fst (evaluator_fn E net path hostport sid ui cc cnum ord) = Inl (Error e)))"
proof -
  have "(\<exists>e. fst (Evaluator E net circ inputs \<lparr>link = c, trace = []\<rparr>) = Inl (Error e)) \<or>
      heeded (\<lambda>ev. False) net (trace (snd (Evaluator E net circ inputs \<lparr>link = c, trace = []\<rparr>)))"
    by (rule Evaluator_heeds [of E net circ inputs "\<lparr>link = c, trace = []\<rparr>"])
      (simp_all add: heeded_Nil)
  moreover have "(\<exists>e. fst (evaluator_fn E net path hostport sid ui cc cnum ord) = Inl (Error e)) \<or>
      heeded (\<lambda>ev. False) net (snd (evaluator_fn E net path hostport sid ui cc cnum ord))"
    by (rule evaluator_fn_heeds) simp
  ultimately show ?thesis
    using assms unfolding heeded_def by blast
qed

theorem Evaluator_reports_refused_calls_example:
  "refused broken_net (Requested \<lparr>Sid = ''s'', Topic = ''result'', Src = 1, Dst = 2, Seq = 6\<rparr>) \<and>
   Requested \<lparr>Sid = ''s'', Topic = ''result'', Src = 1, Dst = 2, Seq = 6\<rparr>
     \<in> set (trace (snd (Evaluator toy_env broken_net toy_circuit 1
          \<lparr>link = evaluator_conn, trace = []\<rparr>))) \<and>
   (\<exists>e. fst (Evaluator toy_env broken_net toy_circuit 1 \<lparr>link = evaluator_conn, trace = []\<rparr>)
          = Inl (Error e))"
proof -
  let ?ev = "Requested \<lparr>Sid = ''s'', Topic = ''result'', Src = 1, Dst = 2, Seq = 6\<rparr>"
  have r: "refused broken_net ?ev"
    by (simp add: refused_def broken_net_def)
  have m: "?ev \<in> set (trace (snd (Evaluator toy_env broken_net toy_circuit 1
      \<lparr>link = evaluator_conn, trace = []\<rparr>)))"
    by (simp add: broken_net_def toy_defs go_defs conn_defs evaluator_defs Let_def upt_rec)
  from Evaluator_reports_refused_calls [OF r, THEN conjunct1, rule_format, OF m] r m
  show ?thesis by blast
qed

end
